theory Spec2Isabelle
  imports Main "HOL-Library.AList"
begin

section \<open>Python values used by the three Lambda functions\<close>

text \<open>
  The three handlers (\<^verbatim>\<open>ir_auth\<close>, \<^verbatim>\<open>ir_custid\<close>, \<^verbatim>\<open>ir_drivers\<close>) are embedded as
  functions over an explicit world (clock, DynamoDB tables, trace of external calls) and an
  environment that answers every external call. Python strings are \<open>string\<close>s (the ASCII
  fragment), Python ints are \<open>int\<close>, exceptions are values of \<open>exn\<close>, a function that
  may raise returns \<open>exn + 'a\<close> together with the world it leaves behind.
\<close>

datatype json =
    JNull
  | JBool bool
  | JInt int
  | JStr string
  | JList "json list"
  | JObj "(string \<times> json) list"

datatype exn =
    AuthenticationError string
  | RateLimitError string
  | APIError string
  | ClientError string
  | JSONDecodeError string
  | ValueError string
  | KeyError string
  | TypeError string

text \<open>\<^verbatim>\<open>str(e)\<close> of an exception: its message (a \<^verbatim>\<open>KeyError\<close> prints the key quoted).\<close>

fun str_exn :: "exn \<Rightarrow> string" where
  "str_exn (AuthenticationError m) = m"
| "str_exn (RateLimitError m) = m"
| "str_exn (APIError m) = m"
| "str_exn (ClientError m) = m"
| "str_exn (JSONDecodeError m) = m"
| "str_exn (ValueError m) = m"
| "str_exn (KeyError k) = [CHR 0x27] @ k @ [CHR 0x27]"
| "str_exn (TypeError m) = m"

text \<open>Python truthiness (\<^verbatim>\<open>if x:\<close>, \<^verbatim>\<open>if not x:\<close>) of a decoded JSON value.\<close>

fun truthy :: "json \<Rightarrow> bool" where
  "truthy JNull = False"
| "truthy (JBool b) = b"
| "truthy (JInt n) = (n \<noteq> 0)"
| "truthy (JStr s) = (s \<noteq> [])"
| "truthy (JList xs) = (xs \<noteq> [])"
| "truthy (JObj kvs) = (kvs \<noteq> [])"

text \<open>\<^verbatim>\<open>d.get(k, default)\<close> on a decoded JSON object.\<close>

fun jget :: "json \<Rightarrow> string \<Rightarrow> json \<Rightarrow> json" where
  "jget (JObj kvs) k d = (case map_of kvs k of None \<Rightarrow> d | Some v \<Rightarrow> v)"
| "jget _ k d = d"

subsection \<open>\<^verbatim>\<open>str.lower\<close>, \<^verbatim>\<open>str.strip\<close>, \<^verbatim>\<open>str(int)\<close>, \<^verbatim>\<open>int(str)\<close>\<close>

definition is_space :: "char \<Rightarrow> bool" where
  "is_space c =
     (let n = (of_char c :: nat) in n = 32 \<or> (9 \<le> n \<and> n \<le> 13) \<or> (28 \<le> n \<and> n \<le> 31))"

definition lower_char :: "char \<Rightarrow> char" where
  "lower_char c =
     (let n = (of_char c :: nat) in if 65 \<le> n \<and> n \<le> 90 then char_of (n + 32) else c)"

definition lower :: "string \<Rightarrow> string" where
  "lower s = map lower_char s"

definition lstrip :: "string \<Rightarrow> string" where
  "lstrip s = dropWhile is_space s"

definition rstrip :: "string \<Rightarrow> string" where
  "rstrip s = rev (dropWhile is_space (rev s))"

definition strip :: "string \<Rightarrow> string" where
  "strip s = rstrip (lstrip s)"

definition digit_char :: "nat \<Rightarrow> char" where
  "digit_char d = char_of (48 + d)"

function str_nat :: "nat \<Rightarrow> string" where
  "str_nat n = (if n < 10 then [digit_char n] else str_nat (n div 10) @ [digit_char (n mod 10)])"
  by pat_completeness auto
termination
  by (relation "measure (\<lambda>n. n)") auto

declare str_nat.simps [simp del]

definition str_int :: "int \<Rightarrow> string" where
  "str_int i = (if i < 0 then CHR ''-'' # str_nat (nat (- i)) else str_nat (nat i))"

definition is_digit :: "char \<Rightarrow> bool" where
  "is_digit c = (48 \<le> (of_char c :: nat) \<and> (of_char c :: nat) \<le> 57)"

definition digit_val :: "char \<Rightarrow> nat" where
  "digit_val c = (of_char c :: nat) - 48"

text \<open>
  The digits of \<^verbatim>\<open>int(s)\<close>: decimal digits, a single underscore allowed between two
  digits. The flag says whether the previous character was a digit.
\<close>

fun digits_acc :: "nat \<Rightarrow> bool \<Rightarrow> string \<Rightarrow> nat option" where
  "digits_acc acc prev [] = (if prev then Some acc else None)"
| "digits_acc acc prev (c # cs) =
     (if is_digit c then digits_acc (acc * 10 + digit_val c) True cs
      else if c = CHR ''_'' \<and> prev then digits_acc acc False cs
      else None)"

text \<open>\<^verbatim>\<open>int(s)\<close> for a string: surrounding whitespace, an optional sign, digits;
  \<open>None\<close> is the \<^verbatim>\<open>ValueError\<close>.\<close>

definition py_int :: "string \<Rightarrow> int option" where
  "py_int s =
     (case strip s of
        [] \<Rightarrow> None
      | c # cs \<Rightarrow>
          if c = CHR ''-'' then map_option (\<lambda>n. - int n) (digits_acc 0 False cs)
          else if c = CHR ''+'' then map_option int (digits_acc 0 False cs)
          else map_option int (digits_acc 0 False (c # cs)))"

section \<open>ir_auth: masking\<close>

text \<open>
  \<^verbatim>\<open>hashlib.sha256(...).digest()\<close> and \<^verbatim>\<open>base64.b64encode\<close> are library functions;
  they are parameters of the masking functions (\<open>sha256\<close> from the encoded text to the digest
  bytes, \<open>b64encode\<close> from bytes to text).
\<close>

definition normalize_string :: "string \<Rightarrow> string" where
  "normalize_string v = strip (lower v)"

definition mask_client_secret ::
  "(string \<Rightarrow> string) \<Rightarrow> (string \<Rightarrow> string) \<Rightarrow> string \<Rightarrow> string \<Rightarrow> string" where
  "mask_client_secret sha256 b64encode client_secret client_id =
     (let normalized_client_id = normalize_string client_id;
          combined = client_secret @ normalized_client_id;
          hash_bytes = sha256 combined
      in b64encode hash_bytes)"

definition mask_password ::
  "(string \<Rightarrow> string) \<Rightarrow> (string \<Rightarrow> string) \<Rightarrow> string \<Rightarrow> string \<Rightarrow> string" where
  "mask_password sha256 b64encode password username =
     (let normalized_username = normalize_string username;
          combined = password @ normalized_username;
          hash_bytes = sha256 combined
      in b64encode hash_bytes)"

section \<open>The world and the environment\<close>

text \<open>
  Every external interaction (Secrets Manager, DynamoDB, an HTTP request, a Lambda
  invocation, \<^verbatim>\<open>time.sleep\<close>) appends one event to the trace of the world. The
  environment answers the interaction from the position it takes in the trace, so an
  upstream may answer differently each time. \<open>now\<close> is \<^verbatim>\<open>int(time.time())\<close>; it
  advances by the latency of each interaction and by each sleep.
\<close>

datatype event =
    SecretsGet
  | DdbGet string string
  | DdbPut string string
  | OAuthPost "(string \<times> string) list"
  | HttpGet string "string option"
  | Sleep int
  | LambdaInvoke string

text \<open>
  The outcome of \<^verbatim>\<open>urllib.request.urlopen\<close>: a response with its status (an
  \<^verbatim>\<open>HTTPError\<close> carries the same data and the handlers treat both alike), the
  \<^verbatim>\<open>Retry-After\<close> header when present, and the body decoded by \<^verbatim>\<open>json.loads\<close>
  (\<open>Inl\<close>: the text of the \<^verbatim>\<open>JSONDecodeError\<close>); or a \<^verbatim>\<open>URLError\<close>
  with its reason.
\<close>

datatype 'a net =
    NetResponse int "string option" "string + 'a"
  | NetURLError string

fun net_status :: "'a net \<Rightarrow> int option" where
  "net_status (NetResponse st h b) = Some st"
| "net_status (NetURLError r) = None"

fun net_retry_after :: "'a net \<Rightarrow> string option" where
  "net_retry_after (NetResponse st h b) = h"
| "net_retry_after (NetURLError r) = None"

text \<open>The decoded payloads, as the handlers read them (a key may be absent).\<close>

record secret =
  s_client_id :: "string option"
  s_client_secret :: "string option"
  s_username :: "string option"
  s_password :: "string option"

record credentials =
  client_id :: string
  client_secret :: string
  username :: string
  password :: string

record oauth_response =
  access_token :: "string option"
  token_type :: "string option"
  expires_in :: "int option"
  scope :: "string option"
  refresh_token :: "string option"
  refresh_token_expires_in :: "int option"

record link_doc =
  link :: "string option"

record driver =
  display_name :: "string option"
  cust_id :: "int option"

text \<open>
  DynamoDB items. An \<^verbatim>\<open>S\<close> attribute is a string, an \<^verbatim>\<open>N\<close> attribute is the
  string of a number; \<open>None\<close> is an absent attribute. The \<^verbatim>\<open>profile\<close> attribute holds
  \<^verbatim>\<open>json.dumps(profile)\<close>: the item keeps the document, and \<open>None\<close> stands for an
  attribute that is absent or does not decode.
\<close>

record auth_item =
  ai_access_token :: "string option"
  ai_token_type :: "string option"
  ai_expires_in :: "string option"
  ai_scope :: "string option"
  ai_ttl :: "string option"
  ai_refresh_token :: "string option"
  ai_refresh_token_expires_in :: "string option"
  ai_refresh_token_ttl :: "string option"

record custid_item =
  ci_cust_id :: "string option"

record drivers_item =
  di_profile :: "json option"
  di_ttl :: "string option"

record response =
  statusCode :: int
  headers :: "(string \<times> string) list"
  body :: json

text \<open>
  The transport of \<^verbatim>\<open>lambda_client.invoke\<close>: the invoked handler ran and the call
  reports the given \<^verbatim>\<open>StatusCode\<close>, or the call raised \<^verbatim>\<open>ClientError\<close>.
\<close>

datatype invoke_outcome =
    Invoked int
  | InvokeClientError string

record env =
  latency :: "nat \<Rightarrow> nat"
  secrets :: "nat \<Rightarrow> exn + secret"
  ddb_fault :: "nat \<Rightarrow> string option"
  oauth_api :: "nat \<Rightarrow> (string \<times> string) list \<Rightarrow> oauth_response net"
  lookup_api :: "nat \<Rightarrow> string \<Rightarrow> string \<Rightarrow> link_doc net"
  drivers_s3 :: "nat \<Rightarrow> string \<Rightarrow> driver list net"
  profile_api :: "nat \<Rightarrow> string \<Rightarrow> string \<Rightarrow> link_doc net"
  profile_s3 :: "nat \<Rightarrow> string \<Rightarrow> json net"
  invoke_transport :: "nat \<Rightarrow> invoke_outcome"
  sha256 :: "string \<Rightarrow> string"
  b64encode :: "string \<Rightarrow> string"
  quote :: "string \<Rightarrow> string"
  unquote :: "string \<Rightarrow> string"
  dumps :: "json \<Rightarrow> string"

record world =
  now :: int
  trace :: "event list"
  ir_auth :: "string \<Rightarrow> auth_item option"
  ir_custid :: "string \<Rightarrow> custid_item option"
  ir_drivers :: "string \<Rightarrow> drivers_item option"

definition step :: "env \<Rightarrow> event \<Rightarrow> world \<Rightarrow> world" where
  "step env e w =
     w\<lparr>trace := trace w @ [e], now := now w + int (latency env (length (trace w)))\<rparr>"

text \<open>\<^verbatim>\<open>time.sleep(d)\<close>: a negative length raises \<^verbatim>\<open>ValueError\<close>.\<close>

definition sleep :: "int \<Rightarrow> world \<Rightarrow> (exn + unit) \<times> world" where
  "sleep d w =
     (if d < 0 then (Inl (ValueError ''sleep length must be non-negative''), w)
      else (Inr (), w\<lparr>trace := trace w @ [Sleep d], now := now w + d\<rparr>))"

subsection \<open>Constants and the retry loop\<close>

definition MAX_RETRIES :: nat where
  "MAX_RETRIES = 3"

definition BASE_BACKOFF_DELAY :: int where
  "BASE_BACKOFF_DELAY = 1"

definition ACCESS_TOKEN_LIFETIME :: int where
  "ACCESS_TOKEN_LIFETIME = 600"

definition REFRESH_TOKEN_LIFETIME :: int where
  "REFRESH_TOKEN_LIFETIME = 7 * 24 * 60 * 60"

definition CACHE_TTL_SECONDS :: int where
  "CACHE_TTL_SECONDS = 3600"

text \<open>
  What one pass through the body of \<^verbatim>\<open>for attempt in range(MAX_RETRIES)\<close> does:
  it returns, raises, or reaches \<^verbatim>\<open>continue\<close>.
\<close>

datatype 'a ctl = Return 'a | Raise exn | Continue

fun for_attempts ::
  "nat list \<Rightarrow> (nat \<Rightarrow> world \<Rightarrow> 'a ctl \<times> world) \<Rightarrow> exn \<Rightarrow> world \<Rightarrow> (exn + 'a) \<times> world" where
  "for_attempts [] loop_body after w = (Inl after, w)"
| "for_attempts (attempt # rest) loop_body after w =
     (case loop_body attempt w of
        (Return x, w') \<Rightarrow> (Inr x, w')
      | (Raise e, w') \<Rightarrow> (Inl e, w')
      | (Continue, w') \<Rightarrow> for_attempts rest loop_body after w')"

definition backoff_delay :: "nat \<Rightarrow> int" where
  "backoff_delay attempt = BASE_BACKOFF_DELAY * 2 ^ attempt"

text \<open>
  The block the handlers repeat at every retryable failure:
  \<^verbatim>\<open>if attempt < MAX_RETRIES - 1: time.sleep(delay); continue  else: raise e\<close>.
\<close>

definition retry_or_raise :: "nat \<Rightarrow> int \<Rightarrow> exn \<Rightarrow> world \<Rightarrow> 'a ctl \<times> world" where
  "retry_or_raise attempt delay e w =
     (if attempt < MAX_RETRIES - 1 then
        (case sleep delay w of
           (Inl x, w') \<Rightarrow> (Raise x, w')
         | (Inr u, w') \<Rightarrow> (Continue, w'))
      else (Raise e, w))"

section \<open>ir_auth\<close>

definition auth_get_oauth_credentials :: "env \<Rightarrow> world \<Rightarrow> (exn + credentials) \<times> world" where
  "auth_get_oauth_credentials env w =
     (let w1 = step env SecretsGet w in
      case secrets env (length (trace w)) of
        Inl e \<Rightarrow> (Inl e, w1)
      | Inr s \<Rightarrow>
          (case s_client_id s of
             None \<Rightarrow> (Inl (ValueError ''Missing required credential: client_id''), w1)
           | Some cid \<Rightarrow>
          (case s_client_secret s of
             None \<Rightarrow> (Inl (ValueError ''Missing required credential: client_secret''), w1)
           | Some csec \<Rightarrow>
          (case s_username s of
             None \<Rightarrow> (Inl (ValueError ''Missing required credential: username''), w1)
           | Some u \<Rightarrow>
          (case s_password s of
             None \<Rightarrow> (Inl (ValueError ''Missing required credential: password''), w1)
           | Some p \<Rightarrow>
               (Inr \<lparr>client_id = cid, client_secret = csec, username = u, password = p\<rparr>,
                w1))))))"

text \<open>The form \<^verbatim>\<open>data\<close> of the token request; \<open>Inl\<close> is the \<^verbatim>\<open>ValueError\<close>.\<close>

definition oauth_form ::
  "env \<Rightarrow> credentials \<Rightarrow> string \<Rightarrow> string option \<Rightarrow> exn + (string \<times> string) list" where
  "oauth_form env creds grant_type rt =
     (if grant_type = ''password_limited'' then
        Inr [(''grant_type'', ''password_limited''),
             (''client_id'', client_id creds),
             (''client_secret'',
                mask_client_secret (sha256 env) (b64encode env) (client_secret creds)
                  (client_id creds)),
             (''username'', username creds),
             (''password'',
                mask_password (sha256 env) (b64encode env) (password creds) (username creds)),
             (''scope'', ''iracing.auth'')]
      else if grant_type = ''refresh_token'' then
        (case rt of
           None \<Rightarrow> Inl (ValueError ''Refresh token required for refresh_token grant'')
         | Some t \<Rightarrow>
             if t = [] then Inl (ValueError ''Refresh token required for refresh_token grant'')
             else
               Inr [(''grant_type'', ''refresh_token''),
                    (''client_id'', client_id creds),
                    (''client_secret'',
                       mask_client_secret (sha256 env) (b64encode env) (client_secret creds)
                         (client_id creds)),
                    (''refresh_token'', t)])
      else Inl (ValueError (''Unsupported grant type: '' @ grant_type)))"

text \<open>
  \<^verbatim>\<open>int(response.headers.get('Retry-After', BASE_BACKOFF_DELAY * (2 ** attempt)))\<close>;
  \<open>None\<close> is the \<^verbatim>\<open>ValueError\<close> of \<^verbatim>\<open>int\<close>.
\<close>

definition hinted_delay :: "nat \<Rightarrow> string option \<Rightarrow> int option" where
  "hinted_delay attempt hdr =
     (case hdr of None \<Rightarrow> Some (backoff_delay attempt) | Some h \<Rightarrow> py_int h)"

text \<open>One attempt of the loop of \<^verbatim>\<open>make_oauth_request\<close>.\<close>

definition oauth_attempt ::
  "env \<Rightarrow> (string \<times> string) list \<Rightarrow> nat \<Rightarrow> world \<Rightarrow> oauth_response ctl \<times> world" where
  "oauth_attempt env data attempt w =
     (let w1 = step env (OAuthPost data) w in
      case oauth_api env (length (trace w)) data of
        NetURLError reason \<Rightarrow>
          retry_or_raise attempt (backoff_delay attempt)
            (AuthenticationError
               (''Request failed after '' @ str_nat MAX_RETRIES @ '' attempts: '' @ reason)) w1
      | NetResponse st hdr b \<Rightarrow>
          if st = 200 then
            (case b of
               Inl msg \<Rightarrow>
                 retry_or_raise attempt (backoff_delay attempt)
                   (AuthenticationError
                      (''Invalid JSON response after '' @ str_nat MAX_RETRIES @ '' attempts: ''
                       @ msg)) w1
             | Inr response_data \<Rightarrow> (Return response_data, w1))
          else if st = 429 then
            (case hinted_delay attempt hdr of
               None \<Rightarrow> (Raise (ValueError ''invalid literal for int() with base 10''), w1)
             | Some retry_after \<Rightarrow>
                 retry_or_raise attempt retry_after
                   (RateLimitError
                      (''Rate limited after '' @ str_nat MAX_RETRIES @ '' attempts'')) w1)
          else if st = 401 \<or> st = 403 then
            (Raise (AuthenticationError (''Authentication failed: '' @ str_int st)), w1)
          else
            retry_or_raise attempt (backoff_delay attempt)
              (AuthenticationError
                 (''OAuth request failed after '' @ str_nat MAX_RETRIES @ '' attempts'')) w1)"

definition make_oauth_request ::
  "env \<Rightarrow> credentials \<Rightarrow> string \<Rightarrow> string option \<Rightarrow> world
    \<Rightarrow> (exn + oauth_response) \<times> world" where
  "make_oauth_request env creds grant_type rt w =
     (case oauth_form env creds grant_type rt of
        Inl e \<Rightarrow> (Inl e, w)
      | Inr data \<Rightarrow>
          for_attempts [0..<MAX_RETRIES] (oauth_attempt env data)
            (AuthenticationError ''Max retries exceeded'') w)"

definition store_tokens_in_dynamodb ::
  "env \<Rightarrow> string \<Rightarrow> oauth_response \<Rightarrow> world \<Rightarrow> (exn + unit) \<times> world" where
  "store_tokens_in_dynamodb env uname r w =
     (let current_time = now w;
          access_token_ttl =
            current_time + (case expires_in r of None \<Rightarrow> ACCESS_TOKEN_LIFETIME | Some e \<Rightarrow> e);
          refresh_token_ttl =
            current_time
            + (case refresh_token_expires_in r of None \<Rightarrow> REFRESH_TOKEN_LIFETIME | Some e \<Rightarrow> e)
      in case access_token r of
           None \<Rightarrow> (Inl (KeyError ''access_token''), w)
         | Some tok \<Rightarrow>
             (let item0 =
                    \<lparr>ai_access_token = Some tok,
                     ai_token_type =
                       Some (case token_type r of None \<Rightarrow> ''Bearer'' | Some t \<Rightarrow> t),
                     ai_expires_in =
                       Some (str_int (case expires_in r of
                                        None \<Rightarrow> ACCESS_TOKEN_LIFETIME | Some e \<Rightarrow> e)),
                     ai_scope = Some (case scope r of None \<Rightarrow> ''iracing.auth'' | Some s \<Rightarrow> s),
                     ai_ttl = Some (str_int access_token_ttl),
                     ai_refresh_token = None,
                     ai_refresh_token_expires_in = None,
                     ai_refresh_token_ttl = None\<rparr>;
                  item =
                    (case refresh_token r of
                       None \<Rightarrow> item0
                     | Some t \<Rightarrow>
                         item0\<lparr>ai_refresh_token := Some t,
                               ai_refresh_token_expires_in :=
                                 Some (str_int (case refresh_token_expires_in r of
                                                  None \<Rightarrow> REFRESH_TOKEN_LIFETIME
                                                | Some e \<Rightarrow> e)),
                               ai_refresh_token_ttl := Some (str_int refresh_token_ttl)\<rparr>);
                  w1 = step env (DdbPut ''ir_auth'' uname) w
              in case ddb_fault env (length (trace w)) of
                   Some msg \<Rightarrow> (Inl (ClientError msg), w1)
                 | None \<Rightarrow> (Inr (), w1\<lparr>ir_auth := (ir_auth w1)(uname \<mapsto> item)\<rparr>)))"

text \<open>
  What \<^verbatim>\<open>get_existing_tokens\<close> returns besides \<^verbatim>\<open>None\<close>: the dictionary of a valid
  access token, or the dictionary \<^verbatim>\<open>{'refresh_token': ..., 'expired': True}\<close>.
\<close>

datatype existing_tokens =
    ValidTokens string string int string "string option" int
  | ExpiredTokens string

text \<open>\<^verbatim>\<open>int(item.get(k, {}).get('N', '0'))\<close>\<close>

definition int_attr :: "string option \<Rightarrow> exn + int" where
  "int_attr a =
     (case py_int (case a of None \<Rightarrow> ''0'' | Some s \<Rightarrow> s) of
        None \<Rightarrow> Inl (ValueError ''invalid literal for int() with base 10'')
      | Some i \<Rightarrow> Inr i)"

definition get_existing_tokens ::
  "env \<Rightarrow> string \<Rightarrow> world \<Rightarrow> (exn + existing_tokens option) \<times> world" where
  "get_existing_tokens env uname w =
     (let w1 = step env (DdbGet ''ir_auth'' uname) w in
      case ddb_fault env (length (trace w)) of
        Some msg \<Rightarrow> (Inr None, w1)
      | None \<Rightarrow>
          (case ir_auth w uname of
             None \<Rightarrow> (Inr None, w1)
           | Some item \<Rightarrow>
               (let current_time = now w1 in
                case int_attr (ai_ttl item) of
                  Inl e \<Rightarrow> (Inl e, w1)
                | Inr ttl \<Rightarrow>
                    if ttl > current_time then
                      (case ai_access_token item of
                         None \<Rightarrow> (Inl (KeyError ''access_token''), w1)
                       | Some tok \<Rightarrow>
                      (case int_attr (ai_expires_in item) of
                         Inl e \<Rightarrow> (Inl e, w1)
                       | Inr ei \<Rightarrow>
                      (case int_attr (ai_refresh_token_expires_in item) of
                         Inl e \<Rightarrow> (Inl e, w1)
                       | Inr rei \<Rightarrow>
                           (Inr (Some (ValidTokens tok
                                   (case ai_token_type item of None \<Rightarrow> ''Bearer'' | Some t \<Rightarrow> t)
                                   ei
                                   (case ai_scope item of None \<Rightarrow> [] | Some s \<Rightarrow> s)
                                   (ai_refresh_token item)
                                   rei)), w1))))
                    else
                      (case int_attr (ai_refresh_token_ttl item) of
                         Inl e \<Rightarrow> (Inl e, w1)
                       | Inr refresh_token_ttl \<Rightarrow>
                           (case ai_refresh_token item of
                              Some t \<Rightarrow>
                                if refresh_token_ttl > current_time
                                then (Inr (Some (ExpiredTokens t)), w1)
                                else (Inr None, w1)
                            | None \<Rightarrow> (Inr None, w1))))))"

definition token_envelope :: "string \<Rightarrow> string \<Rightarrow> string \<Rightarrow> int \<Rightarrow> string \<Rightarrow> response" where
  "token_envelope message tok ttype ei sc =
     \<lparr>statusCode = 200,
      headers = [(''Content-Type'', ''application/json'')],
      body = JObj [(''message'', JStr message),
                   (''access_token'', JStr tok),
                   (''token_type'', JStr ttype),
                   (''expires_in'', JInt ei),
                   (''scope'', JStr sc)]\<rparr>"

text \<open>
  The envelope of a fresh exchange; \<^verbatim>\<open>oauth_response['access_token']\<close> raises
  \<^verbatim>\<open>KeyError\<close> when the key is absent.
\<close>

definition fresh_envelope :: "string \<Rightarrow> oauth_response \<Rightarrow> exn + response" where
  "fresh_envelope message r =
     (case access_token r of
        None \<Rightarrow> Inl (KeyError ''access_token'')
      | Some tok \<Rightarrow>
          Inr (token_envelope message tok
                 (case token_type r of None \<Rightarrow> ''Bearer'' | Some t \<Rightarrow> t)
                 (case expires_in r of None \<Rightarrow> ACCESS_TOKEN_LIFETIME | Some e \<Rightarrow> e)
                 (case scope r of None \<Rightarrow> ''iracing.auth'' | Some s \<Rightarrow> s)))"

text \<open>An exchange followed by \<^verbatim>\<open>store_tokens_in_dynamodb\<close> and the 200 envelope.\<close>

definition exchange_and_store ::
  "env \<Rightarrow> credentials \<Rightarrow> string \<Rightarrow> string option \<Rightarrow> string \<Rightarrow> world
    \<Rightarrow> (exn + response) \<times> world" where
  "exchange_and_store env creds grant_type rt message w =
     (case make_oauth_request env creds grant_type rt w of
        (Inl e, w1) \<Rightarrow> (Inl e, w1)
      | (Inr r, w1) \<Rightarrow>
          (case store_tokens_in_dynamodb env (username creds) r w1 of
             (Inl e, w2) \<Rightarrow> (Inl e, w2)
           | (Inr u, w2) \<Rightarrow> (fresh_envelope message r, w2)))"

definition password_login :: "env \<Rightarrow> credentials \<Rightarrow> world \<Rightarrow> (exn + response) \<times> world" where
  "password_login env creds w =
     exchange_and_store env creds ''password_limited'' None ''Authentication successful'' w"

text \<open>The body of the \<^verbatim>\<open>try\<close> of the handler of \<^verbatim>\<open>ir_auth\<close>.\<close>

definition auth_handler_try :: "env \<Rightarrow> world \<Rightarrow> (exn + response) \<times> world" where
  "auth_handler_try env w =
     (case auth_get_oauth_credentials env w of
        (Inl e, w1) \<Rightarrow> (Inl e, w1)
      | (Inr creds, w1) \<Rightarrow>
          (case get_existing_tokens env (username creds) w1 of
             (Inl e, w2) \<Rightarrow> (Inl e, w2)
           | (Inr None, w2) \<Rightarrow> password_login env creds w2
           | (Inr (Some (ValidTokens tok ttype ei sc rt rei)), w2) \<Rightarrow>
               (Inr (token_envelope ''Authentication successful (cached)'' tok ttype ei sc), w2)
           | (Inr (Some (ExpiredTokens t)), w2) \<Rightarrow>
               if t \<noteq> [] then
                 (case exchange_and_store env creds ''refresh_token'' (Some t)
                         ''Authentication successful (refreshed)'' w2 of
                    (Inl (AuthenticationError m), w3) \<Rightarrow> password_login env creds w3
                  | (Inl (RateLimitError m), w3) \<Rightarrow> password_login env creds w3
                  | (Inl e, w3) \<Rightarrow> (Inl e, w3)
                  | (Inr resp, w3) \<Rightarrow> (Inr resp, w3))
               else password_login env creds w2))"

definition error_response :: "int \<Rightarrow> (string \<times> string) list \<Rightarrow> string \<Rightarrow> string \<Rightarrow> response" where
  "error_response code hs err msg =
     \<lparr>statusCode = code, headers = hs,
      body = JObj [(''error'', JStr err), (''message'', JStr msg)]\<rparr>"

text \<open>The \<^verbatim>\<open>except\<close> clauses of the handler of \<^verbatim>\<open>ir_auth\<close>, in their order.\<close>

fun auth_except :: "exn \<Rightarrow> response" where
  "auth_except (AuthenticationError m) =
     error_response 401 [(''Content-Type'', ''application/json'')] ''Authentication failed'' m"
| "auth_except (RateLimitError m) =
     error_response 429 [(''Content-Type'', ''application/json''), (''Retry-After'', ''60'')]
       ''Rate limited'' m"
| "auth_except (ClientError m) =
     error_response 503 [(''Content-Type'', ''application/json'')] ''Service unavailable''
       ''AWS service temporarily unavailable''"
| "auth_except e =
     error_response 500 [(''Content-Type'', ''application/json'')] ''Internal server error''
       ''An unexpected error occurred''"

definition auth_lambda_handler :: "env \<Rightarrow> world \<Rightarrow> response \<times> world" where
  "auth_lambda_handler env w =
     (case auth_handler_try env w of
        (Inl e, w') \<Rightarrow> (auth_except e, w')
      | (Inr resp, w') \<Rightarrow> (resp, w'))"

section \<open>Shared by ir_custid and ir_drivers\<close>

text \<open>
  \<^verbatim>\<open>get_oauth_credentials\<close> of the two services checks only \<^verbatim>\<open>username\<close>, the
  one key their handlers read.
\<close>

definition get_oauth_credentials :: "env \<Rightarrow> world \<Rightarrow> (exn + string) \<times> world" where
  "get_oauth_credentials env w =
     (let w1 = step env SecretsGet w in
      case secrets env (length (trace w)) of
        Inl e \<Rightarrow> (Inl e, w1)
      | Inr s \<Rightarrow>
          (case s_username s of
             None \<Rightarrow> (Inl (ValueError ''Missing required credential: username''), w1)
           | Some u \<Rightarrow> (Inr u, w1)))"

text \<open>\<^verbatim>\<open>get_access_token\<close> returns \<^verbatim>\<open>None\<close> on every exception.\<close>

definition get_access_token :: "env \<Rightarrow> string \<Rightarrow> world \<Rightarrow> string option \<times> world" where
  "get_access_token env uname w =
     (let w1 = step env (DdbGet ''ir_auth'' uname) w in
      case ddb_fault env (length (trace w)) of
        Some msg \<Rightarrow> (None, w1)
      | None \<Rightarrow>
          (case ir_auth w uname of
             None \<Rightarrow> (None, w1)
           | Some item \<Rightarrow>
               (let current_time = now w1 in
                case int_attr (ai_ttl item) of
                  Inl e \<Rightarrow> (None, w1)
                | Inr ttl \<Rightarrow>
                    if ttl > current_time then (ai_access_token item, w1) else (None, w1))))"

text \<open>
  \<^verbatim>\<open>if not x\<close> holds for \<^verbatim>\<open>None\<close> and for the empty string:
  \<open>nonempty_str\<close> keeps the string for which \<^verbatim>\<open>if x\<close> holds.
\<close>

definition nonempty_str :: "string option \<Rightarrow> string option" where
  "nonempty_str t = (case t of None \<Rightarrow> None | Some s \<Rightarrow> if s = [] then None else Some s)"

text \<open>
  \<^verbatim>\<open>invoke_auth_lambda\<close>: the handler of \<^verbatim>\<open>ir_auth\<close> runs on the shared world; every
  exception raised inside the \<^verbatim>\<open>try\<close> is wrapped by the last \<^verbatim>\<open>except\<close>.
\<close>

definition invoke_auth_lambda :: "env \<Rightarrow> world \<Rightarrow> (exn + unit) \<times> world" where
  "invoke_auth_lambda env w =
     (let w1 = step env (LambdaInvoke ''ir_auth'') w in
      case invoke_transport env (length (trace w)) of
        InvokeClientError msg \<Rightarrow>
          (Inl (AuthenticationError (''Failed to invoke authentication: '' @ msg)), w1)
      | Invoked code \<Rightarrow>
          (case auth_lambda_handler env w1 of
             (payload, w2) \<Rightarrow>
               if code \<noteq> 200 then
                 (Inl (AuthenticationError
                         (''Authentication invocation failed: ir_auth Lambda returned status ''
                          @ str_int code)), w2)
               else if statusCode payload \<noteq> 200 then
                 (Inl (AuthenticationError
                         (''Authentication invocation failed: ir_auth Lambda failed: ''
                          @ dumps env (body payload))), w2)
               else (Inr (), w2)))"

section \<open>ir_custid\<close>

definition cache_driver_result :: "env \<Rightarrow> string \<Rightarrow> int \<Rightarrow> world \<Rightarrow> world" where
  "cache_driver_result env name' cid w =
     (let w1 = step env (DdbPut ''ir_custid'' name') w in
      case ddb_fault env (length (trace w)) of
        Some msg \<Rightarrow> w1
      | None \<Rightarrow> w1\<lparr>ir_custid := (ir_custid w1)(name' \<mapsto> \<lparr>ci_cust_id = Some (str_int cid)\<rparr>)\<rparr>)"

definition not_found_result :: "string \<Rightarrow> json" where
  "not_found_result search_term =
     JObj [(''custid'', JInt 0),
           (''name'', JStr (''Not found: '' @ search_term)),
           (''origin'', JStr ''iRacing'')]"

definition found_result :: "int \<Rightarrow> string \<Rightarrow> json" where
  "found_result cid name' =
     JObj [(''custid'', JStr (str_int cid)),
           (''name'', JStr name'),
           (''origin'', JStr ''iRacing'')]"

text \<open>
  Caching and returning the chosen candidate; \<^verbatim>\<open>driver['display_name']\<close> and
  \<^verbatim>\<open>driver['cust_id']\<close> raise \<^verbatim>\<open>KeyError\<close> when the key is absent.
\<close>

definition cache_and_return :: "env \<Rightarrow> driver \<Rightarrow> world \<Rightarrow> json ctl \<times> world" where
  "cache_and_return env d w =
     (case display_name d of
        None \<Rightarrow> (Raise (KeyError ''display_name''), w)
      | Some name' \<Rightarrow>
          (case cust_id d of
             None \<Rightarrow> (Raise (KeyError ''cust_id''), w)
           | Some cid \<Rightarrow> (Return (found_result cid name'), cache_driver_result env name' cid w)))"

text \<open>The end of an attempt of \<^verbatim>\<open>search_driver_with_auth\<close>, from \<^verbatim>\<open>if not drivers_data\<close> on.\<close>

definition choose_driver :: "env \<Rightarrow> string \<Rightarrow> driver list \<Rightarrow> world \<Rightarrow> json ctl \<times> world" where
  "choose_driver env search_term drivers_data w =
     (case drivers_data of
        [] \<Rightarrow> (Return (not_found_result search_term), w)
      | first # others \<Rightarrow>
          (case (if length drivers_data > 1
                 then find (\<lambda>d. display_name d = Some search_term) drivers_data
                 else None) of
             Some d \<Rightarrow> cache_and_return env d w
           | None \<Rightarrow> cache_and_return env first w))"

text \<open>The second request of an attempt: the link, fetched without the bearer header.\<close>

definition fetch_drivers ::
  "env \<Rightarrow> string \<Rightarrow> string \<Rightarrow> nat \<Rightarrow> world \<Rightarrow> json ctl \<times> world" where
  "fetch_drivers env search_term driver_url attempt w =
     (let w1 = step env (HttpGet driver_url None) w in
      case drivers_s3 env (length (trace w)) driver_url of
        NetURLError reason \<Rightarrow>
          retry_or_raise attempt (backoff_delay attempt)
            (APIError (''Request failed after '' @ str_nat MAX_RETRIES @ '' attempts: ''
                       @ reason)) w1
      | NetResponse st hdr b \<Rightarrow>
          if st = 401 then (Raise (AuthenticationError ''Access token expired or invalid''), w1)
          else if st \<noteq> 200 then
            retry_or_raise attempt (backoff_delay attempt)
              (APIError (''Driver data request failed: '' @ str_int st)) w1
          else
            (case b of
               Inl msg \<Rightarrow>
                 retry_or_raise attempt (backoff_delay attempt)
                   (APIError (''Invalid JSON response after '' @ str_nat MAX_RETRIES
                              @ '' attempts: '' @ msg)) w1
             | Inr drivers_data \<Rightarrow> choose_driver env search_term drivers_data w1))"

definition lookup_url :: "env \<Rightarrow> string \<Rightarrow> string" where
  "lookup_url env search_term =
     ''https://members-ng.iracing.com/data/lookup/drivers?search_term='' @ quote env search_term"

text \<open>One attempt of the loop of \<^verbatim>\<open>search_driver_with_auth\<close>.\<close>

definition search_attempt ::
  "env \<Rightarrow> string \<Rightarrow> string \<Rightarrow> nat \<Rightarrow> world \<Rightarrow> json ctl \<times> world" where
  "search_attempt env search_term tok attempt w =
     (let search_url = lookup_url env search_term;
          w1 = step env (HttpGet search_url (Some tok)) w
      in case lookup_api env (length (trace w)) search_url tok of
        NetURLError reason \<Rightarrow>
          retry_or_raise attempt (backoff_delay attempt)
            (APIError (''Request failed after '' @ str_nat MAX_RETRIES @ '' attempts: ''
                       @ reason)) w1
      | NetResponse st hdr b \<Rightarrow>
          if st = 401 then (Raise (AuthenticationError ''Access token expired or invalid''), w1)
          else if st = 429 then
            retry_or_raise attempt (backoff_delay attempt)
              (APIError ''Rate limited after maximum retries'') w1
          else if st \<noteq> 200 then
            retry_or_raise attempt (backoff_delay attempt)
              (APIError (''Search request failed: '' @ str_int st)) w1
          else
            (case b of
               Inl msg \<Rightarrow>
                 retry_or_raise attempt (backoff_delay attempt)
                   (APIError (''Invalid JSON response after '' @ str_nat MAX_RETRIES
                              @ '' attempts: '' @ msg)) w1
             | Inr search_data \<Rightarrow>
                 (case link search_data of
                    None \<Rightarrow> (Raise (APIError ''Invalid search response format''), w1)
                  | Some driver_url \<Rightarrow> fetch_drivers env search_term driver_url attempt w1)))"

definition search_driver_with_auth ::
  "env \<Rightarrow> string \<Rightarrow> string \<Rightarrow> world \<Rightarrow> (exn + json) \<times> world" where
  "search_driver_with_auth env search_term tok w =
     for_attempts [0..<MAX_RETRIES] (search_attempt env search_term tok)
       (APIError ''Max retries exceeded'') w"

record custid_event =
  rawQueryString :: "string option"

text \<open>
  Obtaining the access token before the first upstream call: from the table, else after
  one invocation of \<^verbatim>\<open>ir_auth\<close>. Both services do the same, with their own message.
\<close>

definition obtain_access_token ::
  "env \<Rightarrow> string \<Rightarrow> world \<Rightarrow> (exn + string) \<times> world" where
  "obtain_access_token env uname w =
     (case get_access_token env uname w of
        (t, w1) \<Rightarrow>
          (case nonempty_str t of
             Some tok \<Rightarrow> (Inr tok, w1)
           | None \<Rightarrow>
               (case invoke_auth_lambda env w1 of
                  (Inl e, w2) \<Rightarrow> (Inl e, w2)
                | (Inr u, w2) \<Rightarrow>
                    (case get_access_token env uname w2 of
                       (t', w3) \<Rightarrow>
                         (case nonempty_str t' of
                            Some tok \<Rightarrow> (Inr tok, w3)
                          | None \<Rightarrow>
                              (Inl (AuthenticationError
                                      ''Failed to obtain access token after authentication''),
                               w3))))))"

text \<open>The token after the re-authentication that follows an \<^verbatim>\<open>AuthenticationError\<close>.\<close>

definition reauthenticate :: "env \<Rightarrow> string \<Rightarrow> world \<Rightarrow> (exn + string) \<times> world" where
  "reauthenticate env uname w =
     (case invoke_auth_lambda env w of
        (Inl e, w1) \<Rightarrow> (Inl e, w1)
      | (Inr u, w1) \<Rightarrow>
          (case get_access_token env uname w1 of
             (t, w2) \<Rightarrow>
               (case nonempty_str t of
                  Some tok \<Rightarrow> (Inr tok, w2)
                | None \<Rightarrow>
                    (Inl (AuthenticationError
                            ''Failed to obtain access token after re-authentication''), w2))))"

text \<open>The live lookup of the handler: the \<^verbatim>\<open>else\<close> branch after the cache miss.\<close>

definition custid_live_lookup :: "env \<Rightarrow> string \<Rightarrow> world \<Rightarrow> (exn + json) \<times> world" where
  "custid_live_lookup env search_term w =
     (case get_oauth_credentials env w of
        (Inl e, w1) \<Rightarrow> (Inl e, w1)
      | (Inr uname, w1) \<Rightarrow>
          (case obtain_access_token env uname w1 of
             (Inl e, w2) \<Rightarrow> (Inl e, w2)
           | (Inr tok, w2) \<Rightarrow>
               (case search_driver_with_auth env search_term tok w2 of
                  (Inl (AuthenticationError m), w3) \<Rightarrow>
                    (case reauthenticate env uname w3 of
                       (Inl e, w4) \<Rightarrow> (Inl e, w4)
                     | (Inr tok', w4) \<Rightarrow> search_driver_with_auth env search_term tok' w4)
                | (r, w3) \<Rightarrow> (r, w3))))"

definition json_headers :: "(string \<times> string) list" where
  "json_headers = [(''Content-Type'', ''application/json'')]"

text \<open>The body of the \<^verbatim>\<open>try\<close> of the handler of \<^verbatim>\<open>ir_custid\<close>.\<close>

definition custid_handler_try ::
  "env \<Rightarrow> custid_event \<Rightarrow> world \<Rightarrow> (exn + response) \<times> world" where
  "custid_handler_try env event w =
     (let search_term = unquote env (case rawQueryString event of None \<Rightarrow> [] | Some q \<Rightarrow> q) in
      if search_term = [] then
        (Inr (error_response 400 json_headers ''Bad Request'' ''Search term is required''), w)
      else
        (let w1 = step env (DdbGet ''ir_custid'' search_term) w in
         case ddb_fault env (length (trace w)) of
           Some msg \<Rightarrow> (Inl (ClientError msg), w1)
         | None \<Rightarrow>
             (case ir_custid w search_term of
                Some item \<Rightarrow>
                  (case ci_cust_id item of
                     None \<Rightarrow> (Inl (KeyError ''cust_id''), w1)
                   | Some n \<Rightarrow>
                       (Inr \<lparr>statusCode = 200, headers = json_headers,
                             body = JObj [(''custid'', JStr n),
                                          (''name'', JStr search_term),
                                          (''origin'', JStr ''DynamoDB'')]\<rparr>, w1))
              | None \<Rightarrow>
                  (case custid_live_lookup env search_term w1 of
                     (Inl e, w2) \<Rightarrow> (Inl e, w2)
                   | (Inr custid, w2) \<Rightarrow>
                       (Inr \<lparr>statusCode = 200, headers = json_headers, body = custid\<rparr>,
                        w2)))))"

text \<open>The \<^verbatim>\<open>except\<close> clauses of the handler of \<^verbatim>\<open>ir_custid\<close>, in their order.\<close>

fun custid_except :: "exn \<Rightarrow> response" where
  "custid_except (AuthenticationError m) =
     error_response 401 json_headers ''Authentication failed'' m"
| "custid_except (APIError m) = error_response 502 json_headers ''API error'' m"
| "custid_except (ClientError m) =
     error_response 503 json_headers ''Service unavailable''
       ''AWS service temporarily unavailable''"
| "custid_except e =
     error_response 500 json_headers ''Internal server error'' ''An unexpected error occurred''"

definition custid_lambda_handler :: "env \<Rightarrow> custid_event \<Rightarrow> world \<Rightarrow> response \<times> world" where
  "custid_lambda_handler env event w =
     (case custid_handler_try env event w of
        (Inl e, w') \<Rightarrow> (custid_except e, w')
      | (Inr resp, w') \<Rightarrow> (resp, w'))"

section \<open>ir_drivers\<close>

text \<open>
  \<^verbatim>\<open>invoke_custid_lambda\<close>: the handler of \<^verbatim>\<open>ir_custid\<close> runs on the shared world
  with the driver name as its raw query string. The value returned is
  \<^verbatim>\<open>body.get('custid', '0')\<close>, a string or the integer of the "not found" answer.
\<close>

definition invoke_custid_lambda :: "env \<Rightarrow> string \<Rightarrow> world \<Rightarrow> (exn + json) \<times> world" where
  "invoke_custid_lambda env driver_name w =
     (let w1 = step env (LambdaInvoke ''ir_custid'') w in
      case invoke_transport env (length (trace w)) of
        InvokeClientError msg \<Rightarrow>
          (Inl (APIError (''Failed to invoke customer ID lookup: '' @ msg)), w1)
      | Invoked code \<Rightarrow>
          (case custid_lambda_handler env \<lparr>rawQueryString = Some driver_name\<rparr> w1 of
             (response_payload, w2) \<Rightarrow>
               if code \<noteq> 200 then
                 (Inl (APIError
                         (''Customer ID lookup failed: ir_custid Lambda returned status ''
                          @ str_int code)), w2)
               else if statusCode response_payload \<noteq> 200 then
                 (Inl (APIError
                         (''Customer ID lookup failed: ir_custid Lambda failed: ''
                          @ dumps env (body response_payload))), w2)
               else (Inr (jget (body response_payload) ''custid'' (JStr ''0'')), w2)))"

text \<open>The second request of an attempt of \<^verbatim>\<open>get_driver_profile_with_auth\<close>.\<close>

definition fetch_profile :: "env \<Rightarrow> string \<Rightarrow> nat \<Rightarrow> world \<Rightarrow> json ctl \<times> world" where
  "fetch_profile env profile_detail_url attempt w =
     (let w1 = step env (HttpGet profile_detail_url None) w in
      case profile_s3 env (length (trace w)) profile_detail_url of
        NetURLError reason \<Rightarrow>
          retry_or_raise attempt (backoff_delay attempt)
            (APIError (''Request failed after '' @ str_nat MAX_RETRIES @ '' attempts: ''
                       @ reason)) w1
      | NetResponse st hdr b \<Rightarrow>
          if st = 401 then (Raise (AuthenticationError ''Access token expired or invalid''), w1)
          else if st \<noteq> 200 then
            retry_or_raise attempt (backoff_delay attempt)
              (APIError (''Profile detail request failed: '' @ str_int st)) w1
          else
            (case b of
               Inl msg \<Rightarrow>
                 retry_or_raise attempt (backoff_delay attempt)
                   (APIError (''Invalid JSON response after '' @ str_nat MAX_RETRIES
                              @ '' attempts: '' @ msg)) w1
             | Inr driver_profile \<Rightarrow> (Return driver_profile, w1)))"

definition profile_url :: "string \<Rightarrow> string" where
  "profile_url cid = ''https://members-ng.iracing.com/data/member/profile?cust_id='' @ cid"

text \<open>One attempt of the loop of \<^verbatim>\<open>get_driver_profile_with_auth\<close>.\<close>

definition profile_attempt ::
  "env \<Rightarrow> string \<Rightarrow> string \<Rightarrow> nat \<Rightarrow> world \<Rightarrow> json ctl \<times> world" where
  "profile_attempt env cid tok attempt w =
     (let w1 = step env (HttpGet (profile_url cid) (Some tok)) w in
      case profile_api env (length (trace w)) (profile_url cid) tok of
        NetURLError reason \<Rightarrow>
          retry_or_raise attempt (backoff_delay attempt)
            (APIError (''Request failed after '' @ str_nat MAX_RETRIES @ '' attempts: ''
                       @ reason)) w1
      | NetResponse st hdr b \<Rightarrow>
          if st = 401 then (Raise (AuthenticationError ''Access token expired or invalid''), w1)
          else if st = 429 then
            retry_or_raise attempt (backoff_delay attempt)
              (APIError ''Rate limited after maximum retries'') w1
          else if st \<noteq> 200 then
            retry_or_raise attempt (backoff_delay attempt)
              (APIError (''Profile request failed: '' @ str_int st)) w1
          else
            (case b of
               Inl msg \<Rightarrow>
                 retry_or_raise attempt (backoff_delay attempt)
                   (APIError (''Invalid JSON response after '' @ str_nat MAX_RETRIES
                              @ '' attempts: '' @ msg)) w1
             | Inr profile_data \<Rightarrow>
                 (case link profile_data of
                    None \<Rightarrow> (Raise (APIError ''Invalid profile response format''), w1)
                  | Some profile_detail_url \<Rightarrow>
                      fetch_profile env profile_detail_url attempt w1)))"

definition get_driver_profile_with_auth ::
  "env \<Rightarrow> string \<Rightarrow> string \<Rightarrow> world \<Rightarrow> (exn + json) \<times> world" where
  "get_driver_profile_with_auth env cid tok w =
     for_attempts [0..<MAX_RETRIES] (profile_attempt env cid tok)
       (APIError ''Max retries exceeded'') w"

text \<open>\<^verbatim>\<open>cache_driver_profile\<close> swallows the \<^verbatim>\<open>ClientError\<close> of the write.\<close>

definition cache_driver_profile :: "env \<Rightarrow> string \<Rightarrow> json \<Rightarrow> world \<Rightarrow> world" where
  "cache_driver_profile env name' profile w =
     (let current_time = now w;
          ttl = current_time + CACHE_TTL_SECONDS;
          w1 = step env (DdbPut ''ir_drivers'' name') w
      in case ddb_fault env (length (trace w)) of
           Some msg \<Rightarrow> w1
         | None \<Rightarrow>
             w1\<lparr>ir_drivers :=
                  (ir_drivers w1)(name' \<mapsto> \<lparr>di_profile = Some profile,
                                               di_ttl = Some (str_int ttl)\<rparr>)\<rparr>)"

text \<open>\<^verbatim>\<open>get_cached_driver_profile\<close> returns \<^verbatim>\<open>None\<close> on every exception.\<close>

definition get_cached_driver_profile :: "env \<Rightarrow> string \<Rightarrow> world \<Rightarrow> json option \<times> world" where
  "get_cached_driver_profile env name' w =
     (let w1 = step env (DdbGet ''ir_drivers'' name') w in
      case ddb_fault env (length (trace w)) of
        Some msg \<Rightarrow> (None, w1)
      | None \<Rightarrow>
          (case ir_drivers w name' of
             None \<Rightarrow> (None, w1)
           | Some item \<Rightarrow>
               (let current_time = now w1 in
                case int_attr (di_ttl item) of
                  Inl e \<Rightarrow> (None, w1)
                | Inr ttl \<Rightarrow>
                    if ttl > current_time then (di_profile item, w1) else (None, w1))))"

definition get_customer_id_from_cache :: "env \<Rightarrow> string \<Rightarrow> world \<Rightarrow> string option \<times> world" where
  "get_customer_id_from_cache env name' w =
     (let w1 = step env (DdbGet ''ir_custid'' name') w in
      case ddb_fault env (length (trace w)) of
        Some msg \<Rightarrow> (None, w1)
      | None \<Rightarrow>
          (case ir_custid w name' of
             None \<Rightarrow> (None, w1)
           | Some item \<Rightarrow> (ci_cust_id item, w1)))"

text \<open>
  \<^verbatim>\<open>int(cust_id)\<close> and the text of \<^verbatim>\<open>cust_id\<close> in the URL, for the values a customer
  id can take: the string of the cache or of a found driver, the integer of "not found".
\<close>

fun int_of_json :: "json \<Rightarrow> exn + int" where
  "int_of_json (JStr s) =
     (case py_int s of
        None \<Rightarrow> Inl (ValueError ''invalid literal for int() with base 10'')
      | Some i \<Rightarrow> Inr i)"
| "int_of_json (JInt i) = Inr i"
| "int_of_json (JBool b) = Inr (if b then 1 else 0)"
| "int_of_json j = Inl (TypeError ''int() argument must be a string or a number'')"

fun str_of_json :: "env \<Rightarrow> json \<Rightarrow> string" where
  "str_of_json env (JStr s) = s"
| "str_of_json env (JInt i) = str_int i"
| "str_of_json env (JBool b) = (if b then ''True'' else ''False'')"
| "str_of_json env j = dumps env j"

text \<open>A profile fetch followed by the write into the profile cache.\<close>

definition fetch_and_cache ::
  "env \<Rightarrow> string \<Rightarrow> string \<Rightarrow> string \<Rightarrow> world \<Rightarrow> (exn + json) \<times> world" where
  "fetch_and_cache env name' cid tok w =
     (case get_driver_profile_with_auth env cid tok w of
        (Inl e, w1) \<Rightarrow> (Inl e, w1)
      | (Inr profile, w1) \<Rightarrow> (Inr profile, cache_driver_profile env name' profile w1))"

definition error_entry :: "string \<Rightarrow> json" where
  "error_entry msg = JObj [(''error'', JStr msg)]"

text \<open>The customer id of a name: from the identifier cache, else from \<^verbatim>\<open>ir_custid\<close>.\<close>

definition resolve_cust_id :: "env \<Rightarrow> string \<Rightarrow> world \<Rightarrow> (exn + json) \<times> world" where
  "resolve_cust_id env name' w =
     (case get_customer_id_from_cache env name' w of
        (c, w1) \<Rightarrow>
          (case nonempty_str c of
             Some s \<Rightarrow> (Inr (JStr s), w1)
           | None \<Rightarrow> invoke_custid_lambda env name' w1))"

text \<open>The body of the outer \<^verbatim>\<open>try\<close> of \<^verbatim>\<open>process_driver\<close>.\<close>

definition process_driver_try ::
  "env \<Rightarrow> string \<Rightarrow> string \<Rightarrow> string \<Rightarrow> world \<Rightarrow> (exn + json) \<times> world" where
  "process_driver_try env name' uname tok w =
     (case get_cached_driver_profile env name' w of
        (cached_profile, w1) \<Rightarrow>
          (case (case cached_profile of None \<Rightarrow> None
                 | Some p \<Rightarrow> if truthy p then Some p else None) of
             Some p \<Rightarrow> (Inr p, w1)
           | None \<Rightarrow>
               (case resolve_cust_id env name' w1 of
                  (Inl e, w2) \<Rightarrow> (Inl e, w2)
                | (Inr cid, w2) \<Rightarrow>
                    if \<not> truthy cid then (Inr (error_entry (''Driver not found: '' @ name')), w2)
                    else
                      (case int_of_json cid of
                         Inl e \<Rightarrow> (Inl e, w2)
                       | Inr n \<Rightarrow>
                           if n \<le> 0
                           then (Inr (error_entry (''Driver not found: '' @ name')), w2)
                           else
                             (case fetch_and_cache env name' (str_of_json env cid) tok w2 of
                                (Inl (AuthenticationError m), w3) \<Rightarrow>
                                  (case reauthenticate env uname w3 of
                                     (Inl e, w4) \<Rightarrow> (Inl e, w4)
                                   | (Inr new_access_token, w4) \<Rightarrow>
                                       fetch_and_cache env name' (str_of_json env cid)
                                         new_access_token w4)
                              | (r, w3) \<Rightarrow> (r, w3))))))"

text \<open>The two \<^verbatim>\<open>except\<close> clauses of \<^verbatim>\<open>process_driver\<close>.\<close>

fun process_driver_except :: "string \<Rightarrow> exn \<Rightarrow> json" where
  "process_driver_except name' (APIError m) =
     error_entry (''iRacing API error for '' @ name' @ '': '' @ m)"
| "process_driver_except name' (AuthenticationError m) =
     error_entry (''iRacing API error for '' @ name' @ '': '' @ m)"
| "process_driver_except name' e =
     error_entry (''Unexpected error for '' @ name' @ '': '' @ str_exn e)"

definition process_driver ::
  "env \<Rightarrow> string \<Rightarrow> string \<Rightarrow> string \<Rightarrow> world \<Rightarrow> json \<times> world" where
  "process_driver env name' uname tok w =
     (case process_driver_try env name' uname tok w of
        (Inl e, w') \<Rightarrow> (process_driver_except name' e, w')
      | (Inr r, w') \<Rightarrow> (r, w'))"

text \<open>\<^verbatim>\<open>s.split(sep)\<close> for a one-character separator.\<close>

fun split_on :: "char \<Rightarrow> string \<Rightarrow> string list" where
  "split_on sep [] = [[]]"
| "split_on sep (c # cs) =
     (if c = sep then [] # split_on sep cs
      else (case split_on sep cs of
              [] \<Rightarrow> [[c]]
            | x # xs \<Rightarrow> (c # x) # xs))"

record drivers_event =
  queryStringParameters :: "(string \<times> string) list option"

text \<open>The driver names of the event: split at commas, trimmed, the empty ones dropped.\<close>

definition parse_drivers :: "env \<Rightarrow> drivers_event \<Rightarrow> string list" where
  "parse_drivers env event =
     (case queryStringParameters event of
        None \<Rightarrow> []
      | Some params \<Rightarrow>
          if params = [] then []
          else
            (let names_param = (case map_of params ''names'' of None \<Rightarrow> [] | Some v \<Rightarrow> v);
                 drivers = split_on CHR '','' (unquote env names_param)
             in map strip (filter (\<lambda>n. strip n \<noteq> []) drivers)))"

text \<open>The loop \<^verbatim>\<open>for name in drivers: drivers_info[name] = process_driver(...)\<close>.\<close>

fun process_all ::
  "env \<Rightarrow> string \<Rightarrow> string \<Rightarrow> string list \<Rightarrow> (string \<times> json) list \<Rightarrow> world
    \<Rightarrow> (string \<times> json) list \<times> world" where
  "process_all env uname tok [] drivers_info w = (drivers_info, w)"
| "process_all env uname tok (name' # rest) drivers_info w =
     (case process_driver env name' uname tok w of
        (entry, w') \<Rightarrow>
          process_all env uname tok rest (AList.update name' entry drivers_info) w')"

definition cors_headers :: "(string \<times> string) list" where
  "cors_headers =
     [(''Content-Type'', ''application/json''),
      (''Access-Control-Allow-Headers'', ''Content-Type''),
      (''Access-Control-Allow-Origin'', ''*''),
      (''Access-Control-Allow-Methods'', ''GET'')]"

text \<open>The body of the \<^verbatim>\<open>try\<close> of the handler of \<^verbatim>\<open>ir_drivers\<close>.\<close>

definition drivers_handler_try ::
  "env \<Rightarrow> drivers_event \<Rightarrow> world \<Rightarrow> (exn + response) \<times> world" where
  "drivers_handler_try env event w =
     (let drivers = parse_drivers env event in
      if drivers = [] then
        (Inr (error_response 400 cors_headers ''Bad Request''
                (''Driver names are required in query parameter '' @ [CHR 0x22] @ ''names''
                 @ [CHR 0x22])), w)
      else
        (case get_oauth_credentials env w of
           (Inl e, w1) \<Rightarrow> (Inl e, w1)
         | (Inr uname, w1) \<Rightarrow>
             (case obtain_access_token env uname w1 of
                (Inl e, w2) \<Rightarrow> (Inl e, w2)
              | (Inr tok, w2) \<Rightarrow>
                  (case process_all env uname tok drivers [] w2 of
                     (drivers_info, w3) \<Rightarrow>
                       (Inr \<lparr>statusCode = 200, headers = cors_headers,
                             body = JObj drivers_info\<rparr>, w3)))))"

text \<open>The \<^verbatim>\<open>except\<close> clauses of the handler of \<^verbatim>\<open>ir_drivers\<close>, in their order.\<close>

fun drivers_except :: "exn \<Rightarrow> response" where
  "drivers_except (AuthenticationError m) =
     error_response 401 cors_headers ''Authentication failed'' m"
| "drivers_except (APIError m) = error_response 502 cors_headers ''API error'' m"
| "drivers_except (ClientError m) =
     error_response 503 cors_headers ''Service unavailable''
       ''AWS service temporarily unavailable''"
| "drivers_except e =
     error_response 500 cors_headers ''Internal server error'' ''An unexpected error occurred''"

definition drivers_lambda_handler :: "env \<Rightarrow> drivers_event \<Rightarrow> world \<Rightarrow> response \<times> world" where
  "drivers_lambda_handler env event w =
     (case drivers_handler_try env event w of
        (Inl e, w') \<Rightarrow> (drivers_except e, w')
      | (Inr resp, w') \<Rightarrow> (resp, w'))"

section \<open>Observations and sample environments\<close>

text \<open>
  The statuses an OAuth exchange treats as transient: every status but 200, 429, 401
  and 403.
\<close>

definition transient_status :: "int \<Rightarrow> bool" where
  "transient_status st = (st \<noteq> 200 \<and> st \<noteq> 429 \<and> st \<noteq> 401 \<and> st \<noteq> 403)"

text \<open>
  What the handler of \<^verbatim>\<open>ir_auth\<close> finds when it loads the tokens of its identity:
  the value of \<^verbatim>\<open>existing_tokens\<close>, or the exception raised before.
\<close>

definition token_state :: "env \<Rightarrow> world \<Rightarrow> exn + existing_tokens option" where
  "token_state env w =
     (case auth_get_oauth_credentials env w of
        (Inl e, w1) \<Rightarrow> Inl e
      | (Inr creds, w1) \<Rightarrow> fst (get_existing_tokens env (username creds) w1))"

text \<open>The identity of a handler: the \<^verbatim>\<open>username\<close> of the secret it reads first.\<close>

definition handler_identity :: "env \<Rightarrow> world \<Rightarrow> string option" where
  "handler_identity env w =
     (case secrets env (length (trace w)) of Inl e \<Rightarrow> None | Inr s \<Rightarrow> s_username s)"

text \<open>
  The expiry recorded in the token table for an access token of an identity, read the way
  the services read it.
\<close>

definition recorded_expiry :: "world \<Rightarrow> string \<Rightarrow> string \<Rightarrow> int option" where
  "recorded_expiry w uname tok =
     (case ir_auth w uname of
        None \<Rightarrow> None
      | Some item \<Rightarrow>
          if ai_access_token item = Some tok
          then (case int_attr (ai_ttl item) of Inl e \<Rightarrow> None | Inr t \<Rightarrow> Some t)
          else None)"

text \<open>The events of a trace that are requests to the upstream API.\<close>

fun is_upstream :: "event \<Rightarrow> bool" where
  "is_upstream (OAuthPost d) = True"
| "is_upstream (HttpGet u t) = True"
| "is_upstream e = False"

definition upstream_calls :: "world \<Rightarrow> event list" where
  "upstream_calls w = filter is_upstream (trace w)"

text \<open>The authenticated profile requests of a trace: the GETs that carry a bearer token.\<close>

fun is_bearer_get :: "event \<Rightarrow> bool" where
  "is_bearer_get (HttpGet u (Some t)) = True"
| "is_bearer_get e = False"

text \<open>A secret, an environment where nothing fails and nothing answers, a first world.\<close>

definition demo_secret :: secret where
  "demo_secret =
     \<lparr>s_client_id = Some ''client'', s_client_secret = Some ''secret'',
      s_username = Some ''racer@example.com'', s_password = Some ''pw''\<rparr>"

definition quiet_env :: env where
  "quiet_env =
     \<lparr>latency = (\<lambda>n. 0),
      secrets = (\<lambda>n. Inr demo_secret),
      ddb_fault = (\<lambda>n. None),
      oauth_api = (\<lambda>n d. NetURLError ''unreachable''),
      lookup_api = (\<lambda>n u t. NetURLError ''unreachable''),
      drivers_s3 = (\<lambda>n u. NetURLError ''unreachable''),
      profile_api = (\<lambda>n u t. NetURLError ''unreachable''),
      profile_s3 = (\<lambda>n u. NetURLError ''unreachable''),
      invoke_transport = (\<lambda>n. Invoked 200),
      sha256 = (\<lambda>s. s),
      b64encode = (\<lambda>s. s),
      quote = (\<lambda>s. s),
      unquote = (\<lambda>s. s),
      dumps = (\<lambda>j. [])\<rparr>"

definition world0 :: world where
  "world0 =
     \<lparr>now = 1000, trace = [], ir_auth = (\<lambda>k. None), ir_custid = (\<lambda>k. None),
      ir_drivers = (\<lambda>k. None)\<rparr>"

text \<open>An OAuth endpoint that answers every request with one status and no body.\<close>

definition oauth_always :: "int \<Rightarrow> string option \<Rightarrow> env" where
  "oauth_always st hdr = quiet_env\<lparr>oauth_api := (\<lambda>n d. NetResponse st hdr (Inl []))\<rparr>"

text \<open>An OAuth endpoint that grants a token with a lifetime of 600 seconds.\<close>

definition oauth_grants :: env where
  "oauth_grants =
     quiet_env\<lparr>oauth_api :=
       (\<lambda>n d. NetResponse 200 None
          (Inr \<lparr>access_token = Some ''token-1'', token_type = None, expires_in = Some 600,
                scope = None, refresh_token = Some ''refresh-1'',
                refresh_token_expires_in = None\<rparr>))\<rparr>"

text \<open>A decimal string: an optional minus sign and at least one digit.\<close>

definition is_decimal :: "string \<Rightarrow> bool" where
  "is_decimal s =
     (case s of
        [] \<Rightarrow> False
      | c # cs \<Rightarrow> if c = CHR ''-'' then cs \<noteq> [] \<and> list_all is_digit cs
                  else list_all is_digit s)"

text \<open>
  A world where the token table holds a valid access token of the demo identity, and
  an upstream whose driver lookup answers with a link to a given candidate list.
\<close>

definition world1 :: world where
  "world1 =
     world0\<lparr>ir_auth :=
       (\<lambda>k. if k = ''racer@example.com''
            then Some \<lparr>ai_access_token = Some ''token-0'', ai_token_type = Some ''Bearer'',
                       ai_expires_in = Some ''600'', ai_scope = Some ''iracing.auth'',
                       ai_ttl = Some ''1600'', ai_refresh_token = None,
                       ai_refresh_token_expires_in = None, ai_refresh_token_ttl = None\<rparr>
            else None)\<rparr>"

definition lookup_env :: "driver list \<Rightarrow> env" where
  "lookup_env ds =
     quiet_env\<lparr>lookup_api := (\<lambda>n u t. NetResponse 200 None (Inr \<lparr>link = Some ''https://s3/drivers''\<rparr>)),
               drivers_s3 := (\<lambda>n u. NetResponse 200 None (Inr ds))\<rparr>"

definition bob_smith :: driver where
  "bob_smith = \<lparr>display_name = Some ''Bob Smith'', cust_id = Some 42\<rparr>"

text \<open>
  What a search leaves behind, by its outcome: the identifier table changes only by the
  cache write of a found candidate, the other tables not at all.
\<close>

definition search_outcome :: "env \<Rightarrow> string \<Rightarrow> world \<Rightarrow> exn + json \<Rightarrow> world \<Rightarrow> bool" where
  "search_outcome env key w x w' =
     (ir_auth w' = ir_auth w \<and> ir_drivers w' = ir_drivers w \<and>
      (case x of
         Inl e \<Rightarrow> ir_custid w' = ir_custid w
       | Inr r \<Rightarrow>
           (r = not_found_result key \<and> ir_custid w' = ir_custid w)
           \<or> (\<exists>cid nm v. r = found_result cid nm \<and> w' = cache_driver_result env nm cid v
                 \<and> ir_custid v = ir_custid w)))"

text \<open>Resolving "bob" twice against an upstream whose only candidate is "Bob Smith".\<close>

definition first_bob :: "response \<times> world" where
  "first_bob =
     custid_lambda_handler (lookup_env [bob_smith]) \<lparr>rawQueryString = Some ''bob''\<rparr> world1"

definition second_bob :: "response \<times> world" where
  "second_bob =
     custid_lambda_handler (lookup_env [bob_smith]) \<lparr>rawQueryString = Some ''bob''\<rparr>
       (snd first_bob)"


text \<open>Resolving "Bob Smith", the display name of the only candidate.\<close>

definition exact_bob :: "response \<times> world" where
  "exact_bob =
     custid_lambda_handler (lookup_env [bob_smith]) \<lparr>rawQueryString = Some ''Bob Smith''\<rparr>
       world1"

text \<open>Resolving "Zzyzx" against an upstream that has no candidate.\<close>

definition zzyzx :: "response \<times> world" where
  "zzyzx =
     custid_lambda_handler (lookup_env []) \<lparr>rawQueryString = Some ''Zzyzx''\<rparr> world1"

text \<open>
  A batch of three names against an upstream that cannot be reached: the profiles of "A"
  and "C" are in the profile cache, "B" is in no cache.
\<close>

definition sample_profile :: "string \<Rightarrow> json" where
  "sample_profile nm = JObj [(''display_name'', JStr nm)]"

definition world2 :: world where
  "world2 =
     world1\<lparr>ir_drivers :=
       (\<lambda>k. if k = ''A'' \<or> k = ''C''
            then Some \<lparr>di_profile = Some (sample_profile k), di_ttl = Some ''5000''\<rparr>
            else None)\<rparr>"

definition abc_event :: drivers_event where
  "abc_event = \<lparr>queryStringParameters = Some [(''names'', ''A,B,C'')]\<rparr>"


definition world3 :: world where
  "world3 =
     world1\<lparr>ir_custid :=
       (\<lambda>k. if k = ''Bob Smith'' then Some \<lparr>ci_cust_id = Some ''42''\<rparr> else None)\<rparr>"


definition bearer_gets :: "world \<Rightarrow> event list" where
  "bearer_gets w = filter is_bearer_get (trace w)"

text \<open>A profile endpoint that answers every request with 401.\<close>

definition profile_401 :: env where
  "profile_401 = quiet_env\<lparr>profile_api := (\<lambda>n u t. NetResponse 401 None (Inl []))\<rparr>"

text \<open>An OAuth endpoint that grants a token with a lifetime of minus 100 seconds.\<close>

definition oauth_short :: env where
  "oauth_short =
     quiet_env\<lparr>oauth_api :=
       (\<lambda>n d. NetResponse 200 None
          (Inr \<lparr>access_token = Some ''token-1'', token_type = None,
                expires_in = Some (- 100), scope = None, refresh_token = Some ''refresh-1'',
                refresh_token_expires_in = None\<rparr>))\<rparr>"

text \<open>
  An OAuth endpoint that answers the refresh grant with 500 and every other grant with a
  token, and a world whose access token expired at 900 while its refresh token is good
  until 9000.
\<close>

definition refresh_down :: env where
  "refresh_down =
     quiet_env\<lparr>oauth_api :=
       (\<lambda>n d. if map_of d ''grant_type'' = Some ''refresh_token''
              then NetResponse 500 None (Inl [])
              else NetResponse 200 None
                (Inr \<lparr>access_token = Some ''token-1'', token_type = None,
                      expires_in = Some 600, scope = None, refresh_token = Some ''refresh-1'',
                      refresh_token_expires_in = None\<rparr>))\<rparr>"

definition world_expired :: world where
  "world_expired =
     world0\<lparr>ir_auth :=
       (\<lambda>k. if k = ''racer@example.com''
            then Some \<lparr>ai_access_token = Some ''token-0'', ai_token_type = Some ''Bearer'',
                       ai_expires_in = Some ''600'', ai_scope = Some ''iracing.auth'',
                       ai_ttl = Some ''900'', ai_refresh_token = Some ''refresh-0'',
                       ai_refresh_token_expires_in = None,
                       ai_refresh_token_ttl = Some ''9000''\<rparr>
            else None)\<rparr>"

definition demo_credentials :: credentials where
  "demo_credentials =
     \<lparr>client_id = ''client'', client_secret = ''secret'', username = ''racer@example.com'',
      password = ''pw''\<rparr>"

text \<open>The same profile endpoint when \<^verbatim>\<open>ir_auth\<close> cannot be invoked.\<close>

definition profile_401_auth_down :: env where
  "profile_401_auth_down = profile_401\<lparr>invoke_transport := (\<lambda>n. InvokeClientError ''down'')\<rparr>"

text \<open>An upstream whose three endpoints answer every request with 429 and one header.\<close>

definition all_429 :: "string option \<Rightarrow> env" where
  "all_429 hdr =
     quiet_env\<lparr>oauth_api := (\<lambda>n d. NetResponse 429 hdr (Inl [])),
               lookup_api := (\<lambda>n u t. NetResponse 429 hdr (Inl [])),
               profile_api := (\<lambda>n u t. NetResponse 429 hdr (Inl []))\<rparr>"

section \<open>Strings: facts\<close>

lemma is_space_lower_char: "is_space (lower_char c) = is_space c"
  by (auto simp: is_space_def lower_char_def Let_def)

lemma lower_char_idem: "lower_char (lower_char c) = lower_char c"
  by (auto simp: lower_char_def Let_def)

lemma lower_idem: "lower (lower s) = lower s"
  by (simp add: lower_def lower_char_idem)

lemma dropWhile_space_lower: "dropWhile is_space (lower s) = lower (dropWhile is_space s)"
  by (induction s) (simp_all add: lower_def is_space_lower_char)

lemma rev_lower: "rev (lower s) = lower (rev s)"
  by (simp add: lower_def rev_map)

lemma strip_lower: "strip (lower s) = lower (strip s)"
  by (simp add: strip_def lstrip_def rstrip_def rev_lower dropWhile_space_lower)

lemma lstrip_idem: "lstrip (lstrip s) = lstrip s"
  unfolding lstrip_def by (induction s) simp_all

lemma rstrip_idem: "rstrip (rstrip s) = rstrip s"
  unfolding rstrip_def using lstrip_idem [of "rev s"] by (simp add: lstrip_def)

lemma rstrip_Cons: "\<not> is_space x \<Longrightarrow> rstrip (x # t) = x # rstrip t"
  by (simp add: rstrip_def dropWhile_append)

lemma lstrip_rstrip_lstrip: "lstrip (rstrip (lstrip s)) = rstrip (lstrip s)"
proof (cases "lstrip s")
  case Nil
  have "rstrip [] = []" "lstrip [] = []" by (simp_all add: rstrip_def lstrip_def)
  with Nil show ?thesis by simp
next
  case (Cons x t)
  then have "\<not> is_space x"
    unfolding lstrip_def using hd_dropWhile [of is_space s] by auto
  then show ?thesis
    using Cons by (simp add: rstrip_Cons lstrip_def)
qed

lemma strip_idem: "strip (strip s) = strip s"
  by (simp add: strip_def lstrip_rstrip_lstrip rstrip_idem)

lemma normalize_lower_strip: "normalize_string (lower (strip c)) = normalize_string c"
  by (simp add: normalize_string_def strip_lower lower_idem strip_idem)

lemma of_char_digit_char: "d < 10 \<Longrightarrow> (of_char (digit_char d) :: nat) = 48 + d"
  by (simp add: digit_char_def)

lemma digit_char_digit: "d < 10 \<Longrightarrow> is_digit (digit_char d)"
  by (simp add: is_digit_def of_char_digit_char)

lemma digit_val_digit_char: "d < 10 \<Longrightarrow> digit_val (digit_char d) = d"
  by (simp add: digit_val_def of_char_digit_char)

lemma digit_not_space: "is_digit c \<Longrightarrow> \<not> is_space c"
  by (auto simp: is_digit_def is_space_def Let_def)

lemma digit_not_sign: "is_digit c \<Longrightarrow> c \<noteq> CHR ''-'' \<and> c \<noteq> CHR ''+'' \<and> c \<noteq> CHR ''_''"
  by (auto simp: is_digit_def)

lemma str_nat_small: "n < 10 \<Longrightarrow> str_nat n = [digit_char n]"
  by (subst str_nat.simps) simp

lemma str_nat_big: "\<not> n < 10 \<Longrightarrow> str_nat n = str_nat (n div 10) @ [digit_char (n mod 10)]"
  by (subst str_nat.simps) simp

lemma str_nat_digits: "list_all is_digit (str_nat n) \<and> str_nat n \<noteq> []"
proof (induction n rule: str_nat.induct)
  case (1 n)
  show ?case
  proof (cases "n < 10")
    case True
    then show ?thesis by (simp add: str_nat_small digit_char_digit)
  next
    case False
    with 1 show ?thesis
      by (simp add: str_nat_big digit_char_digit)
  qed
qed

lemma digits_acc_str_nat:
  "digits_acc a p (str_nat n @ cs) = digits_acc (a * 10 ^ length (str_nat n) + n) True cs"
proof (induction n arbitrary: a p cs rule: str_nat.induct)
  case (1 n)
  show ?case
  proof (cases "n < 10")
    case True
    then show ?thesis by (simp add: str_nat_small digit_char_digit digit_val_digit_char)
  next
    case False
    have eq: "str_nat n = str_nat (n div 10) @ [digit_char (n mod 10)]"
      using False by (rule str_nat_big)
    have "digits_acc a p (str_nat n @ cs)
        = digits_acc a p (str_nat (n div 10) @ (digit_char (n mod 10) # cs))"
      by (simp add: eq)
    also have "\<dots> = digits_acc (a * 10 ^ length (str_nat (n div 10)) + n div 10) True
        (digit_char (n mod 10) # cs)"
      using 1 [OF False] by simp
    also have "\<dots> = digits_acc ((a * 10 ^ length (str_nat (n div 10)) + n div 10) * 10 + n mod 10) True cs"
      by (simp add: digit_char_digit digit_val_digit_char)
    also have "(a * 10 ^ length (str_nat (n div 10)) + n div 10) * 10 + n mod 10
        = a * 10 ^ length (str_nat n) + n"
      by (simp add: eq algebra_simps)
    finally show ?thesis .
  qed
qed

lemma digits_acc_str_nat0: "digits_acc 0 False (str_nat n) = Some n"
  using digits_acc_str_nat [of 0 False n "[]"] by simp

lemma strip_digits:
  assumes "list_all is_digit s" "s \<noteq> []"
  shows "strip s = s"
proof -
  have a: "\<not> is_space (hd s)" "\<not> is_space (last s)"
    using assms by (auto simp: list_all_iff digit_not_space)
  have "lstrip s = s" using assms(2) a(1) by (cases s) (simp_all add: lstrip_def)
  moreover have "rstrip s = s"
    using assms(2) a(2) by (cases s rule: rev_cases) (simp_all add: rstrip_def)
  ultimately show ?thesis by (simp add: strip_def)
qed

lemma strip_minus_digits:
  assumes "list_all is_digit s" "s \<noteq> []"
  shows "strip (CHR ''-'' # s) = CHR ''-'' # s"
proof -
  have m: "\<not> is_space CHR ''-''" by (simp add: is_space_def)
  have "\<not> is_space (last s)"
    using assms by (auto simp: list_all_iff digit_not_space)
  then have "rstrip s = s"
    using assms(2) by (cases s rule: rev_cases) (simp_all add: rstrip_def)
  then have "rstrip (CHR ''-'' # s) = CHR ''-'' # s"
    using m by (simp add: rstrip_Cons)
  moreover have "lstrip (CHR ''-'' # s) = CHR ''-'' # s"
    using m by (simp add: lstrip_def)
  ultimately show ?thesis by (simp add: strip_def)
qed

lemma py_int_str_int: "py_int (str_int i) = Some i"
proof (cases "i < 0")
  case True
  have "strip (str_int i) = CHR ''-'' # str_nat (nat (- i))"
    using True str_nat_digits [of "nat (- i)"] by (simp add: str_int_def strip_minus_digits)
  then show ?thesis
    using True by (simp add: py_int_def digits_acc_str_nat0)
next
  case False
  obtain c cs where cs: "str_nat (nat i) = c # cs"
    using str_nat_digits [of "nat i"] by (cases "str_nat (nat i)") auto
  have d: "is_digit c" using str_nat_digits [of "nat i"] cs by simp
  have "strip (str_int i) = c # cs"
    using False str_nat_digits [of "nat i"] cs by (simp add: str_int_def strip_digits)
  moreover have "digits_acc 0 False (c # cs) = Some (nat i)"
    using digits_acc_str_nat0 [of "nat i"] cs by simp
  ultimately show ?thesis
    using False digit_not_sign [OF d] by (simp add: py_int_def)
qed

lemma normalize_examples:
  "normalize_string ''Bob '' = ''bob''"
  "normalize_string ''bob'' = ''bob''"
  "normalize_string '' BOB'' = ''bob''"
  by code_simp+

section \<open>The retry loop and the OAuth exchange: facts\<close>

lemma attempts_range: "[0..<MAX_RETRIES] = [0, 1, 2]"
  by (simp add: MAX_RETRIES_def upt_rec)

lemma str_nat_MAX: "str_nat MAX_RETRIES = ''3''"
  by code_simp

lemma retry_first: "attempt < 2 \<Longrightarrow> 0 \<le> d \<Longrightarrow>
  retry_or_raise attempt d e w = (Continue, w\<lparr>trace := trace w @ [Sleep d], now := now w + d\<rparr>)"
  by (simp add: retry_or_raise_def MAX_RETRIES_def sleep_def)

lemma retry_last: "retry_or_raise 2 d e w = (Raise e, w)"
  by (simp add: retry_or_raise_def MAX_RETRIES_def)

lemma backoff_values:
  "backoff_delay 0 = 1" "backoff_delay 1 = 2" "backoff_delay (Suc 0) = 2" "backoff_delay 2 = 4"
  by (simp_all add: backoff_delay_def BASE_BACKOFF_DELAY_def)

lemma oauth_attempt_transient:
  assumes "net_status (oauth_api env (length (trace w)) data) = Some st"
    and "transient_status st"
  shows "oauth_attempt env data attempt w =
     retry_or_raise attempt (backoff_delay attempt)
       (AuthenticationError ''OAuth request failed after 3 attempts'')
       (step env (OAuthPost data) w)"
  using assms
  by (cases "oauth_api env (length (trace w)) data")
    (auto simp add: oauth_attempt_def str_nat_MAX transient_status_def)

lemma oauth_loop_transient:
  assumes "\<forall>n d. \<exists>st. net_status (oauth_api env n d) = Some st \<and> transient_status st"
  shows "\<exists>w'. for_attempts [0..<MAX_RETRIES] (oauth_attempt env data)
            (AuthenticationError ''Max retries exceeded'') w
          = (Inl (AuthenticationError ''OAuth request failed after 3 attempts''), w')
        \<and> trace w' = trace w @ [OAuthPost data, Sleep 1, OAuthPost data, Sleep 2, OAuthPost data]"
proof -
  have att: "oauth_attempt env data attempt v =
     retry_or_raise attempt (backoff_delay attempt)
       (AuthenticationError ''OAuth request failed after 3 attempts'')
       (step env (OAuthPost data) v)" for attempt v
    using assms oauth_attempt_transient by blast
  show ?thesis
    by (simp add: attempts_range att retry_first retry_last backoff_values step_def)
qed

lemma exchange_transient:
  assumes "\<forall>n d. \<exists>st. net_status (oauth_api env n d) = Some st \<and> transient_status st"
    and "oauth_form env creds g rt = Inr data"
  shows "\<exists>w'. exchange_and_store env creds g rt msg w
          = (Inl (AuthenticationError ''OAuth request failed after 3 attempts''), w')
        \<and> trace w' = trace w @ [OAuthPost data, Sleep 1, OAuthPost data, Sleep 2, OAuthPost data]"
  using oauth_loop_transient [OF assms(1), of data w] assms(2)
  by (auto simp: exchange_and_store_def make_oauth_request_def)

lemma password_form_ok: "\<exists>data. oauth_form env creds ''password_limited'' rt = Inr data"
  by (simp add: oauth_form_def)

lemma refresh_form_ok: "t \<noteq> [] \<Longrightarrow> \<exists>data. oauth_form env creds ''refresh_token'' (Some t) = Inr data"
  by (simp add: oauth_form_def)

lemma password_login_transient:
  assumes "\<forall>n d. \<exists>st. net_status (oauth_api env n d) = Some st \<and> transient_status st"
  shows "\<exists>w'. password_login env creds w
          = (Inl (AuthenticationError ''OAuth request failed after 3 attempts''), w')"
  using exchange_transient [OF assms] password_form_ok [of env creds None]
  unfolding password_login_def by blast

lemma auth_handler_transient:
  assumes always: "\<forall>n d. \<exists>st. net_status (oauth_api env n d) = Some st \<and> transient_status st"
    and state: "token_state env w = Inr None
                \<or> (\<exists>t. token_state env w = Inr (Some (ExpiredTokens t)))"
  shows "fst (auth_lambda_handler env w)
           = error_response 401 [(''Content-Type'', ''application/json'')]
               ''Authentication failed'' ''OAuth request failed after 3 attempts''"
proof -
  obtain creds w1 where c: "auth_get_oauth_credentials env w = (Inr creds, w1)"
    using state by (auto simp: token_state_def split: prod.splits sum.splits)
  obtain r w2 where g: "get_existing_tokens env (username creds) w1 = (r, w2)"
    by (cases "get_existing_tokens env (username creds) w1")
  have r: "r = Inr None \<or> (\<exists>t. r = Inr (Some (ExpiredTokens t)))"
    using state c g by (simp add: token_state_def)
  have pw: "\<exists>w'. password_login env creds v
          = (Inl (AuthenticationError ''OAuth request failed after 3 attempts''), w')" for v
    by (rule password_login_transient [OF always])
  from r show ?thesis
  proof
    assume "r = Inr None"
    then show ?thesis
      using c g pw [of w2] by (auto simp: auth_lambda_handler_def auth_handler_try_def)
  next
    assume "\<exists>t. r = Inr (Some (ExpiredTokens t))"
    then obtain t where t: "r = Inr (Some (ExpiredTokens t))" by blast
    show ?thesis
    proof (cases "t = []")
      case True
      then show ?thesis
        using c g t pw [of w2] by (auto simp: auth_lambda_handler_def auth_handler_try_def)
    next
      case False
      obtain data where "oauth_form env creds ''refresh_token'' (Some t) = Inr data"
        using refresh_form_ok [OF False] by blast
      then obtain w3 where "exchange_and_store env creds ''refresh_token'' (Some t)
           ''Authentication successful (refreshed)'' w2
          = (Inl (AuthenticationError ''OAuth request failed after 3 attempts''), w3)"
        using exchange_transient [OF always] by blast
      then show ?thesis
        using c g t False pw [of w3]
        by (auto simp: auth_lambda_handler_def auth_handler_try_def)
    qed
  qed
qed

lemma make_oauth_request_transient:
  assumes "\<forall>n d. \<exists>st. net_status (oauth_api env n d) = Some st \<and> transient_status st"
  shows "\<exists>data w'. make_oauth_request env creds ''password_limited'' None w
          = (Inl (AuthenticationError ''OAuth request failed after 3 attempts''), w')
        \<and> trace w' = trace w @ [OAuthPost data, Sleep 1, OAuthPost data, Sleep 2, OAuthPost data]"
proof -
  obtain data where d: "oauth_form env creds ''password_limited'' None = Inr data"
    using password_form_ok by blast
  show ?thesis
    using oauth_loop_transient [OF assms, of data w] d
    by (auto simp: make_oauth_request_def)
qed

lemma oauth_always_fields:
  "oauth_api (oauth_always st hdr) = (\<lambda>n d. NetResponse st hdr (Inl []))"
  "secrets (oauth_always st hdr) = (\<lambda>n. Inr demo_secret)"
  "ddb_fault (oauth_always st hdr) = (\<lambda>n. None)"
  "latency (oauth_always st hdr) = (\<lambda>n. 0)"
  by (simp_all add: oauth_always_def quiet_env_def)

lemma token_state_oauth_always: "token_state (oauth_always st hdr) world0 = Inr None"
  by (simp add: token_state_def auth_get_oauth_credentials_def get_existing_tokens_def
      oauth_always_fields demo_secret_def step_def world0_def)

section \<open>ir_auth: the clock and the recorded expiry\<close>

lemma now_step: "now w \<le> now (step env e w)"
  by (simp add: step_def)

lemma retry_or_raise_now: "retry_or_raise a d e w = (c, w') \<Longrightarrow> now w \<le> now w'"
  by (auto simp: retry_or_raise_def sleep_def split: if_splits)

lemma for_attempts_now:
  assumes "\<And>a v c v'. f a v = (c, v') \<Longrightarrow> now v \<le> now v'"
  shows "for_attempts as f e w = (r, w') \<Longrightarrow> now w \<le> now w'"
proof (induction as arbitrary: w)
  case Nil
  then show ?case by simp
next
  case (Cons a as)
  obtain c v where b: "f a w = (c, v)" by (cases "f a w")
  have le: "now w \<le> now v" using assms b by blast
  show ?case
  proof (cases c)
    case (Return x)
    with Cons.prems b le show ?thesis by simp
  next
    case (Raise x)
    with Cons.prems b le show ?thesis by simp
  next
    case Continue
    with Cons.prems b have "for_attempts as f e v = (r, w')" by simp
    then have "now v \<le> now w'" by (rule Cons.IH)
    with le show ?thesis by simp
  qed
qed

lemma for_attempts_Return:
  "for_attempts as f e w = (Inr x, w') \<Longrightarrow> \<exists>a v. f a v = (Return x, w')"
proof (induction as arbitrary: w)
  case Nil
  then show ?case by simp
next
  case (Cons a as)
  obtain c v where b: "f a w = (c, v)" by (cases "f a w")
  show ?case
  proof (cases c)
    case (Return y)
    with Cons.prems b show ?thesis by auto
  next
    case (Raise y)
    with Cons.prems b show ?thesis by simp
  next
    case Continue
    with Cons.prems b have "for_attempts as f e v = (Inr x, w')" by simp
    then show ?thesis by (rule Cons.IH)
  qed
qed

lemma oauth_attempt_now: "oauth_attempt env data a w = (c, w') \<Longrightarrow> now w \<le> now w'"
  unfolding oauth_attempt_def Let_def
  by (auto split: net.splits sum.splits if_splits option.splits
      dest!: retry_or_raise_now simp: step_def)

lemma oauth_attempt_Return:
  "oauth_attempt env data a w = (Return r, w') \<Longrightarrow>
     \<exists>h. oauth_api env (length (trace w)) data = NetResponse 200 h (Inr r)"
  unfolding oauth_attempt_def Let_def
  by (auto split: net.splits sum.splits if_splits option.splits
      simp: retry_or_raise_def sleep_def)

lemma make_oauth_request_now:
  "make_oauth_request env creds g rt w = (r, w') \<Longrightarrow> now w \<le> now w'"
  unfolding make_oauth_request_def
  by (auto split: sum.splits intro: for_attempts_now [OF oauth_attempt_now])

lemma make_oauth_request_Return:
  "make_oauth_request env creds g rt w = (Inr r, w') \<Longrightarrow>
     \<exists>n d h. oauth_api env n d = NetResponse 200 h (Inr r)"
  unfolding make_oauth_request_def
  by (auto split: sum.splits dest!: for_attempts_Return oauth_attempt_Return)

lemma int_attr_str_int: "int_attr (Some (str_int i)) = Inr i"
  by (simp add: int_attr_def py_int_str_int)

lemma int_attr_samples:
  "int_attr (Some ''900'') = Inr 900"
  "int_attr (Some ''9000'') = Inr 9000"
  "int_attr (Some ''600'') = Inr 600"
  "int_attr None = Inr 0"
  by code_simp+

lemma store_tokens_item:
  assumes "store_tokens_in_dynamodb env u r w = (Inr x, w')"
  shows "\<exists>tok item. access_token r = Some tok \<and> ir_auth w' u = Some item
     \<and> ai_access_token item = Some tok
     \<and> ai_ttl item = Some (str_int (now w
          + (case expires_in r of None \<Rightarrow> ACCESS_TOKEN_LIFETIME | Some e \<Rightarrow> e)))"
proof (cases "access_token r")
  case None
  with assms show ?thesis by (simp add: store_tokens_in_dynamodb_def Let_def)
next
  case (Some tok)
  show ?thesis
  proof (cases "ddb_fault env (length (trace w))")
    case (Some msg)
    with assms \<open>access_token r = Some tok\<close> show ?thesis
      by (simp add: store_tokens_in_dynamodb_def Let_def)
  next
    case None
    with assms \<open>access_token r = Some tok\<close> show ?thesis
      by (cases "refresh_token r")
        (auto simp add: store_tokens_in_dynamodb_def Let_def step_def)
  qed
qed

lemma store_tokens_recorded:
  assumes "store_tokens_in_dynamodb env u r w = (Inr x, w')"
  shows "\<exists>tok. access_token r = Some tok
     \<and> recorded_expiry w' u tok
        = Some (now w + (case expires_in r of None \<Rightarrow> ACCESS_TOKEN_LIFETIME | Some e \<Rightarrow> e))"
  using store_tokens_item [OF assms]
  by (auto simp: recorded_expiry_def int_attr_str_int)

lemma store_tokens_now:
  "store_tokens_in_dynamodb env u r w = (x, w') \<Longrightarrow> now w \<le> now w'"
  unfolding store_tokens_in_dynamodb_def Let_def
  by (auto split: option.splits simp: step_def)

lemma exchange_and_store_now:
  "exchange_and_store env creds g rt msg w = (x, w') \<Longrightarrow> now w \<le> now w'"
  unfolding exchange_and_store_def
  by (auto split: prod.splits sum.splits
      dest!: make_oauth_request_now store_tokens_now)

lemma get_existing_tokens_now:
  "get_existing_tokens env u w = (x, w') \<Longrightarrow> now w \<le> now w'"
  unfolding get_existing_tokens_def Let_def
  by (auto split: option.splits sum.splits if_splits simp: step_def)

lemma get_existing_tokens_valid:
  assumes "get_existing_tokens env u w = (Inr (Some (ValidTokens tok tt ei sc rt rei)), w')"
  shows "\<exists>t. recorded_expiry w' u tok = Some t \<and> now w < t"
  using assms unfolding get_existing_tokens_def Let_def
  by (auto split: option.splits sum.splits if_splits simp: step_def recorded_expiry_def)

lemma auth_credentials_identity:
  "auth_get_oauth_credentials env w = (Inr creds, w1) \<Longrightarrow>
     handler_identity env w = Some (username creds) \<and> now w \<le> now w1"
  unfolding auth_get_oauth_credentials_def Let_def handler_identity_def
  by (auto split: sum.splits option.splits simp: step_def)

lemma auth_except_not_200: "statusCode (auth_except e) \<noteq> 200"
  by (cases e) (simp_all add: error_response_def)


lemma oauth_grants_fields:
  "oauth_api oauth_grants =
     (\<lambda>n d. NetResponse 200 None
        (Inr \<lparr>access_token = Some ''token-1'', token_type = None, expires_in = Some 600,
              scope = None, refresh_token = Some ''refresh-1'',
              refresh_token_expires_in = None\<rparr>))"
  "secrets oauth_grants = (\<lambda>n. Inr demo_secret)"
  "ddb_fault oauth_grants = (\<lambda>n. None)"
  "latency oauth_grants = (\<lambda>n. 0)"
  by (simp_all add: oauth_grants_def quiet_env_def)

lemma oauth_grants_handler:
  "fst (auth_lambda_handler oauth_grants world0)
     = token_envelope ''Authentication successful'' ''token-1'' ''Bearer'' 600 ''iracing.auth''"
  by (simp add: auth_lambda_handler_def auth_handler_try_def auth_get_oauth_credentials_def
      oauth_grants_fields demo_secret_def get_existing_tokens_def world0_def step_def
      password_login_def exchange_and_store_def make_oauth_request_def oauth_form_def
      attempts_range oauth_attempt_def store_tokens_in_dynamodb_def Let_def
      fresh_envelope_def)

section \<open>What the token machinery leaves untouched\<close>

lemma for_attempts_invariant:
  assumes "\<And>a v c v'. f a v = (c, v') \<Longrightarrow> P v \<Longrightarrow> P v'"
  shows "for_attempts as f e w = (r, w') \<Longrightarrow> P w \<Longrightarrow> P w'"
proof (induction as arbitrary: w)
  case Nil
  then show ?case by simp
next
  case (Cons a as)
  obtain c v where b: "f a w = (c, v)" by (cases "f a w")
  have pv: "P v" using assms b Cons.prems(2) by blast
  show ?case
  proof (cases c)
    case (Return x)
    with Cons.prems b pv show ?thesis by simp
  next
    case (Raise x)
    with Cons.prems b pv show ?thesis by simp
  next
    case Continue
    with Cons.prems b have "for_attempts as f e v = (r, w')" by simp
    then show ?thesis using pv by (rule Cons.IH)
  qed
qed

lemma retry_or_raise_tables:
  "retry_or_raise a d e w = (c, w') \<Longrightarrow>
     ir_auth w' = ir_auth w \<and> ir_custid w' = ir_custid w \<and> ir_drivers w' = ir_drivers w"
  by (auto simp: retry_or_raise_def sleep_def split: if_splits)

lemma oauth_attempt_caches:
  "oauth_attempt env data a w = (c, w') \<Longrightarrow>
     ir_custid w' = ir_custid w \<and> ir_drivers w' = ir_drivers w"
  unfolding oauth_attempt_def Let_def
  by (auto split: net.splits sum.splits if_splits option.splits
      dest!: retry_or_raise_tables simp: step_def)

lemma make_oauth_request_caches:
  assumes "make_oauth_request env creds g rt w = (r, w')"
  shows "ir_custid w' = ir_custid w \<and> ir_drivers w' = ir_drivers w"
proof (cases "oauth_form env creds g rt")
  case (Inl e)
  with assms show ?thesis by (simp add: make_oauth_request_def)
next
  case (Inr data)
  with assms have l: "for_attempts [0..<MAX_RETRIES] (oauth_attempt env data)
       (AuthenticationError ''Max retries exceeded'') w = (r, w')"
    by (simp add: make_oauth_request_def)
  show ?thesis
    by (rule for_attempts_invariant [OF _ l,
          where P = "\<lambda>v. ir_custid v = ir_custid w \<and> ir_drivers v = ir_drivers w"])
      (auto dest: oauth_attempt_caches)
qed

lemma store_tokens_caches:
  "store_tokens_in_dynamodb env u r w = (x, w') \<Longrightarrow>
     ir_custid w' = ir_custid w \<and> ir_drivers w' = ir_drivers w"
  unfolding store_tokens_in_dynamodb_def Let_def
  by (cases "access_token r"; cases "ddb_fault env (length (trace w))")
     (auto simp: step_def)

lemma exchange_and_store_caches:
  "exchange_and_store env creds g rt msg w = (x, w') \<Longrightarrow>
     ir_custid w' = ir_custid w \<and> ir_drivers w' = ir_drivers w"
  unfolding exchange_and_store_def
  by (auto split: prod.splits sum.splits
      dest!: make_oauth_request_caches store_tokens_caches)

lemma get_existing_tokens_tables:
  "get_existing_tokens env u w = (x, w') \<Longrightarrow>
     ir_auth w' = ir_auth w \<and> ir_custid w' = ir_custid w \<and> ir_drivers w' = ir_drivers w"
  unfolding get_existing_tokens_def Let_def
  by (auto split: option.splits sum.splits if_splits simp: step_def)

lemma auth_credentials_tables:
  "auth_get_oauth_credentials env w = (x, w') \<Longrightarrow>
     ir_auth w' = ir_auth w \<and> ir_custid w' = ir_custid w \<and> ir_drivers w' = ir_drivers w"
  unfolding auth_get_oauth_credentials_def Let_def
  by (auto split: sum.splits option.splits simp: step_def)

lemma auth_handler_try_caches:
  assumes "auth_handler_try env w = (x, w')"
  shows "ir_custid w' = ir_custid w \<and> ir_drivers w' = ir_drivers w"
proof -
  obtain c w1 where c: "auth_get_oauth_credentials env w = (c, w1)"
    by (cases "auth_get_oauth_credentials env w")
  note f1 = auth_credentials_tables [OF c]
  show ?thesis
  proof (cases c)
    case (Inl e)
    with assms c f1 show ?thesis by (simp add: auth_handler_try_def)
  next
    case (Inr creds)
    obtain te w2 where g: "get_existing_tokens env (username creds) w1 = (te, w2)"
      by (cases "get_existing_tokens env (username creds) w1")
    note f2 = get_existing_tokens_tables [OF g]
    have pw: "ir_custid w' = ir_custid w \<and> ir_drivers w' = ir_drivers w"
      if "password_login env creds v = (x, w')"
         "ir_custid v = ir_custid w \<and> ir_drivers v = ir_drivers w" for v
      using exchange_and_store_caches that by (auto simp: password_login_def)
    show ?thesis
    proof (cases te)
      case (Inl e)
      with assms c g Inr f1 f2 show ?thesis by (simp add: auth_handler_try_def)
    next
      case found: (Inr found)
      show ?thesis
      proof (cases found)
        case None
        with assms c g Inr found have "password_login env creds w2 = (x, w')"
          by (simp add: auth_handler_try_def)
        then show ?thesis using pw f1 f2 by simp
      next
        case (Some et)
        show ?thesis
        proof (cases et)
          case (ValidTokens tok tt ei sc rt rei)
          with assms c g Inr found Some f1 f2 show ?thesis
            by (simp add: auth_handler_try_def)
        next
          case (ExpiredTokens t)
          show ?thesis
          proof (cases "t = []")
            case True
            with assms c g Inr found Some ExpiredTokens
            have "password_login env creds w2 = (x, w')"
              by (simp add: auth_handler_try_def)
            then show ?thesis using pw f1 f2 by simp
          next
            case False
            obtain y w3 where e: "exchange_and_store env creds ''refresh_token'' (Some t)
                ''Authentication successful (refreshed)'' w2 = (y, w3)"
              by (cases "exchange_and_store env creds ''refresh_token'' (Some t)
                ''Authentication successful (refreshed)'' w2")
            note f3 = exchange_and_store_caches [OF e]
            have "password_login env creds w3 = (x, w') \<or> (x = y \<and> w' = w3)"
              using assms c g Inr found Some ExpiredTokens False e
              by (auto simp: auth_handler_try_def split: sum.splits exn.splits)
            then show ?thesis using pw [of w3] f1 f2 f3 by auto
          qed
        qed
      qed
    qed
  qed
qed

lemma auth_lambda_handler_caches:
  "auth_lambda_handler env w = (x, w') \<Longrightarrow>
     ir_custid w' = ir_custid w \<and> ir_drivers w' = ir_drivers w"
  unfolding auth_lambda_handler_def
  by (auto split: prod.splits sum.splits dest!: auth_handler_try_caches)

lemma get_access_token_tables:
  "get_access_token env u w = (x, w') \<Longrightarrow>
     ir_auth w' = ir_auth w \<and> ir_custid w' = ir_custid w \<and> ir_drivers w' = ir_drivers w"
  unfolding get_access_token_def Let_def
  by (auto split: option.splits sum.splits if_splits simp: step_def)

lemma invoke_auth_lambda_caches:
  "invoke_auth_lambda env w = (x, w') \<Longrightarrow>
     ir_custid w' = ir_custid w \<and> ir_drivers w' = ir_drivers w"
  unfolding invoke_auth_lambda_def Let_def
  by (auto split: invoke_outcome.splits prod.splits if_splits
      dest!: auth_lambda_handler_caches simp: step_def)

lemma obtain_access_token_caches:
  "obtain_access_token env u w = (x, w') \<Longrightarrow>
     ir_custid w' = ir_custid w \<and> ir_drivers w' = ir_drivers w"
  unfolding obtain_access_token_def
  by (auto split: prod.splits option.splits sum.splits
      dest!: get_access_token_tables invoke_auth_lambda_caches)

lemma reauthenticate_caches:
  "reauthenticate env u w = (x, w') \<Longrightarrow>
     ir_custid w' = ir_custid w \<and> ir_drivers w' = ir_drivers w"
  unfolding reauthenticate_def
  by (auto split: prod.splits option.splits sum.splits
      dest!: get_access_token_tables invoke_auth_lambda_caches)

lemma get_oauth_credentials_tables:
  "get_oauth_credentials env w = (x, w') \<Longrightarrow>
     ir_auth w' = ir_auth w \<and> ir_custid w' = ir_custid w \<and> ir_drivers w' = ir_drivers w"
  unfolding get_oauth_credentials_def Let_def
  by (auto split: sum.splits option.splits simp: step_def)

section \<open>ir_custid: what a resolution returns\<close>

lemma cache_and_return_Return:
  "cache_and_return env d w = (Return r, w') \<Longrightarrow>
     \<exists>cid nm. display_name d = Some nm \<and> cust_id d = Some cid
        \<and> r = found_result cid nm \<and> w' = cache_driver_result env nm cid w"
  by (auto simp: cache_and_return_def split: option.splits)

lemma choose_driver_Return:
  assumes "choose_driver env key ds w = (Return r, w')"
  shows "(ds = [] \<and> r = not_found_result key \<and> w' = w)
       \<or> (\<exists>d cid nm. d \<in> set ds \<and> display_name d = Some nm \<and> cust_id d = Some cid
             \<and> r = found_result cid nm \<and> w' = cache_driver_result env nm cid w)"
proof (cases ds)
  case Nil
  with assms show ?thesis by (simp add: choose_driver_def)
next
  case (Cons first others)
  obtain d where d: "d \<in> set ds" "cache_and_return env d w = (Return r, w')"
  proof (cases "find (\<lambda>d. display_name d = Some key) ds")
    case None
    with assms Cons have "cache_and_return env first w = (Return r, w')"
      by (auto simp: choose_driver_def split: if_splits)
    with Cons that [of first] show ?thesis by simp
  next
    case (Some x)
    then have in_ds: "x \<in> set ds" by (auto simp: find_Some_iff)
    from assms Cons Some
    have "cache_and_return env x w = (Return r, w')
        \<or> cache_and_return env first w = (Return r, w')"
      by (auto simp: choose_driver_def split: if_splits)
    with Cons in_ds that [of x] that [of first] show ?thesis by auto
  qed
  then show ?thesis using cache_and_return_Return by blast
qed

lemma retry_or_raise_not_Return: "retry_or_raise a d e w \<noteq> (Return r, w')"
  by (auto simp: retry_or_raise_def sleep_def split: if_splits)

lemma fetch_drivers_Return:
  assumes "fetch_drivers env key url a w = (Return r, w')"
  shows "\<exists>h ds. drivers_s3 env (length (trace w)) url = NetResponse 200 h (Inr ds)
      \<and> choose_driver env key ds (step env (HttpGet url None) w) = (Return r, w')"
  using assms unfolding fetch_drivers_def Let_def
  by (auto split: net.splits sum.splits if_splits simp: retry_or_raise_not_Return)

lemma search_attempt_Return:
  assumes "search_attempt env key tok a w = (Return r, w')"
  shows "\<exists>h sd url h' ds.
      lookup_api env (length (trace w)) (lookup_url env key) tok = NetResponse 200 h (Inr sd)
      \<and> link sd = Some url
      \<and> drivers_s3 env (Suc (length (trace w))) url = NetResponse 200 h' (Inr ds)
      \<and> choose_driver env key ds
           (step env (HttpGet url None) (step env (HttpGet (lookup_url env key) (Some tok)) w))
          = (Return r, w')"
  using assms unfolding search_attempt_def Let_def
  by (auto split: net.splits sum.splits if_splits option.splits
      simp: retry_or_raise_not_Return step_def dest!: fetch_drivers_Return)

section \<open>ir_custid: what a search leaves behind\<close>

lemma for_attempts_outcome:
  assumes run: "for_attempts as f e w = (x, w')" and init: "P w"
    and cont: "\<And>a v v'. f a v = (Continue, v') \<Longrightarrow> P v \<Longrightarrow> P v'"
    and rais: "\<And>a v y v'. f a v = (Raise y, v') \<Longrightarrow> P v \<Longrightarrow> Q (Inl y) v'"
    and ret: "\<And>a v r v'. f a v = (Return r, v') \<Longrightarrow> P v \<Longrightarrow> Q (Inr r) v'"
    and fin: "\<And>v. P v \<Longrightarrow> Q (Inl e) v"
  shows "Q x w'"
  using run init
proof (induction as arbitrary: w)
  case Nil
  then show ?case using fin by auto
next
  case (Cons a as)
  obtain c v where b: "f a w = (c, v)" by (cases "f a w")
  show ?case
  proof (cases c)
    case (Return r)
    with Cons.prems b ret [of a w r v] show ?thesis by auto
  next
    case (Raise y)
    with Cons.prems b rais [of a w y v] show ?thesis by auto
  next
    case Continue
    with Cons.prems b have "for_attempts as f e v = (x, w')" by simp
    moreover have "P v" using cont b Continue Cons.prems(2) by blast
    ultimately show ?thesis by (rule Cons.IH)
  qed
qed

lemma step_tables [simp]:
  "ir_auth (step env e w) = ir_auth w"
  "ir_custid (step env e w) = ir_custid w"
  "ir_drivers (step env e w) = ir_drivers w"
  by (simp_all add: step_def)

lemma cache_driver_result_tables:
  "ir_auth (cache_driver_result env nm cid w) = ir_auth w
   \<and> ir_drivers (cache_driver_result env nm cid w) = ir_drivers w"
  by (simp add: cache_driver_result_def Let_def step_def split: option.splits)

lemma cache_and_return_tables:
  "cache_and_return env d w = (c, w') \<Longrightarrow>
     ir_auth w' = ir_auth w \<and> ir_drivers w' = ir_drivers w
     \<and> ((\<forall>r. c \<noteq> Return r) \<longrightarrow> ir_custid w' = ir_custid w)"
  by (auto simp: cache_and_return_def cache_driver_result_tables split: option.splits)

lemma choose_driver_tables:
  "choose_driver env key ds w = (c, w') \<Longrightarrow>
     ir_auth w' = ir_auth w \<and> ir_drivers w' = ir_drivers w
     \<and> ((\<forall>r. c \<noteq> Return r) \<longrightarrow> ir_custid w' = ir_custid w)"
  unfolding choose_driver_def
  by (auto split: list.splits option.splits if_splits dest!: cache_and_return_tables)

lemma fetch_drivers_tables:
  "fetch_drivers env key url a w = (c, w') \<Longrightarrow>
     ir_auth w' = ir_auth w \<and> ir_drivers w' = ir_drivers w
     \<and> ((\<forall>r. c \<noteq> Return r) \<longrightarrow> ir_custid w' = ir_custid w)"
  unfolding fetch_drivers_def Let_def
  by (auto split: net.splits sum.splits if_splits
      dest!: retry_or_raise_tables choose_driver_tables simp: step_def)

lemma search_attempt_tables:
  "search_attempt env key tok a w = (c, w') \<Longrightarrow>
     ir_auth w' = ir_auth w \<and> ir_drivers w' = ir_drivers w
     \<and> ((\<forall>r. c \<noteq> Return r) \<longrightarrow> ir_custid w' = ir_custid w)"
  unfolding search_attempt_def Let_def
  by (auto split: net.splits sum.splits if_splits option.splits
      dest!: retry_or_raise_tables fetch_drivers_tables simp: step_def)

lemma search_attempt_Return_outcome:
  assumes "search_attempt env key tok a v = (Return r, v')"
  shows "search_outcome env key v (Inr r) v'"
proof -
  let ?u = "step env (HttpGet (lookup_url env key) (Some tok)) v"
  from search_attempt_Return [OF assms] obtain url ds where
    c: "choose_driver env key ds (step env (HttpGet url None) ?u) = (Return r, v')" by blast
  from search_attempt_tables [OF assms]
  have t: "ir_auth v' = ir_auth v" "ir_drivers v' = ir_drivers v" by simp_all
  from choose_driver_Return [OF c]
  consider "r = not_found_result key" "v' = step env (HttpGet url None) ?u"
    | cid nm where "r = found_result cid nm"
        "v' = cache_driver_result env nm cid (step env (HttpGet url None) ?u)"
    by blast
  then show ?thesis
  proof cases
    case 1
    with t show ?thesis by (simp add: search_outcome_def)
  next
    case 2
    have "ir_custid (step env (HttpGet url None) ?u) = ir_custid v" by simp
    with 2 have "\<exists>cid' nm' va. r = found_result cid' nm'
        \<and> v' = cache_driver_result env nm' cid' va \<and> ir_custid va = ir_custid v"
      by blast
    with t show ?thesis by (simp add: search_outcome_def)
  qed
qed

lemma search_driver_outcome:
  assumes "search_driver_with_auth env key tok w = (x, w')"
  shows "search_outcome env key w x w'"
proof -
  let ?P = "\<lambda>v::world. ir_auth v = ir_auth w \<and> ir_custid v = ir_custid w
      \<and> ir_drivers v = ir_drivers w"
  have run: "for_attempts [0..<MAX_RETRIES] (search_attempt env key tok)
       (APIError ''Max retries exceeded'') w = (x, w')"
    using assms by (simp add: search_driver_with_auth_def)
  show ?thesis
  proof (rule for_attempts_outcome [OF run, where P = ?P])
    fix a v v' assume "search_attempt env key tok a v = (Continue, v')" "?P v"
    then show "?P v'" using search_attempt_tables by fastforce
  next
    fix a v y v' assume "search_attempt env key tok a v = (Raise y, v')" "?P v"
    then show "search_outcome env key w (Inl y) v'"
      using search_attempt_tables by (fastforce simp: search_outcome_def)
  next
    fix a v r v' assume "search_attempt env key tok a v = (Return r, v')" "?P v"
    then show "search_outcome env key w (Inr r) v'"
      using search_attempt_Return_outcome [of env key tok a v r v']
      by (auto simp: search_outcome_def)
  next
    fix v :: world assume "?P v"
    then show "search_outcome env key w (Inl (APIError ''Max retries exceeded'')) v"
      by (simp add: search_outcome_def)
  next
    show "?P w" by simp
  qed
qed

section \<open>ir_custid: the handler\<close>

lemma trace_step [simp]: "trace (step env e w) = trace w @ [e]"
  by (simp add: step_def)

lemma search_first_attempt:
  assumes "lookup_api env (length (trace w)) (lookup_url env key) tok
             = NetResponse 200 h (Inr sd)"
    and "link sd = Some url"
    and "drivers_s3 env (Suc (length (trace w))) url = NetResponse 200 h' (Inr ds)"
    and "choose_driver env key ds
           (step env (HttpGet url None) (step env (HttpGet (lookup_url env key) (Some tok)) w))
          = (Return r, w')"
  shows "search_driver_with_auth env key tok w = (Inr r, w')"
  using assms
  by (simp add: search_driver_with_auth_def attempts_range search_attempt_def
      fetch_drivers_def Let_def)

lemma custid_handler_live:
  assumes "unquote env q = key" "key \<noteq> []"
    and "ddb_fault env (length (trace w)) = None" "ir_custid w key = None"
    and "get_oauth_credentials env (step env (DdbGet ''ir_custid'' key) w) = (Inr uname, w1)"
    and "obtain_access_token env uname w1 = (Inr tok, w2)"
    and "search_driver_with_auth env key tok w2 = (Inr r, w3)"
  shows "custid_lambda_handler env \<lparr>rawQueryString = Some q\<rparr> w
           = (\<lparr>statusCode = 200, headers = json_headers, body = r\<rparr>, w3)"
  using assms
  by (simp add: custid_lambda_handler_def custid_handler_try_def custid_live_lookup_def Let_def)

lemma custid_except_not_200: "statusCode (custid_except e) \<noteq> 200"
  by (cases e) (simp_all add: error_response_def)

lemma custid_live_lookup_outcome:
  assumes "custid_live_lookup env key w = (x, w')"
  shows "ir_drivers w' = ir_drivers w \<and>
      (case x of
         Inl e \<Rightarrow> ir_custid w' = ir_custid w
       | Inr r \<Rightarrow>
           (r = not_found_result key \<and> ir_custid w' = ir_custid w)
           \<or> (\<exists>cid nm v. r = found_result cid nm \<and> w' = cache_driver_result env nm cid v
                 \<and> ir_custid v = ir_custid w))"
proof -
  obtain c w1 where c: "get_oauth_credentials env w = (c, w1)"
    by (cases "get_oauth_credentials env w")
  note f1 = get_oauth_credentials_tables [OF c]
  show ?thesis
  proof (cases c)
    case (Inl e)
    with assms c f1 show ?thesis by (auto simp: custid_live_lookup_def)
  next
    case (Inr uname)
    obtain t w2 where t: "obtain_access_token env uname w1 = (t, w2)"
      by (cases "obtain_access_token env uname w1")
    note f2 = obtain_access_token_caches [OF t]
    show ?thesis
    proof (cases t)
      case (Inl e)
      with assms c Inr t f1 f2 show ?thesis by (auto simp: custid_live_lookup_def)
    next
      case tok: (Inr tok)
      obtain y w3 where s: "search_driver_with_auth env key tok w2 = (y, w3)"
        by (cases "search_driver_with_auth env key tok w2")
      note o1 = search_driver_outcome [OF s]
      have direct: ?thesis if "x = y" "w' = w3"
        using that o1 f1 f2 by (auto simp: search_outcome_def split: sum.splits)
      show ?thesis
      proof (cases "\<exists>m. y = Inl (AuthenticationError m)")
        case False
        with assms c Inr t tok s have "x = y \<and> w' = w3"
          by (auto simp: custid_live_lookup_def split: sum.splits exn.splits)
        then show ?thesis using direct by simp
      next
        case True
        then obtain m where y: "y = Inl (AuthenticationError m)" by blast
        obtain t' w4 where r: "reauthenticate env uname w3 = (t', w4)"
          by (cases "reauthenticate env uname w3")
        note f3 = reauthenticate_caches [OF r]
        have same3: "ir_custid w3 = ir_custid w" "ir_drivers w3 = ir_drivers w"
          using o1 y f1 f2 by (simp_all add: search_outcome_def)
        show ?thesis
        proof (cases t')
          case (Inl e)
          with assms c Inr t tok s y r f3 same3 show ?thesis
            by (auto simp: custid_live_lookup_def)
        next
          case tok': (Inr tok')
          with assms c Inr t tok s y r
          have "search_driver_with_auth env key tok' w4 = (x, w')"
            by (simp add: custid_live_lookup_def)
          from search_driver_outcome [OF this] f3 same3 show ?thesis
            by (auto simp: search_outcome_def split: sum.splits)
        qed
      qed
    qed
  qed
qed

section \<open>ir_custid: sample runs and the shape of a 200 answer\<close>

lemma lookup_env_fields:
  "lookup_api (lookup_env ds)
     = (\<lambda>n u t. NetResponse 200 None (Inr \<lparr>link = Some ''https://s3/drivers''\<rparr>))"
  "drivers_s3 (lookup_env ds) = (\<lambda>n u. NetResponse 200 None (Inr ds))"
  "secrets (lookup_env ds) = (\<lambda>n. Inr demo_secret)"
  "ddb_fault (lookup_env ds) = (\<lambda>n. None)"
  "latency (lookup_env ds) = (\<lambda>n. 0)"
  "unquote (lookup_env ds) = (\<lambda>s. s)"
  "quote (lookup_env ds) = (\<lambda>s. s)"
  by (simp_all add: lookup_env_def quiet_env_def)

lemma int_attr_1600: "int_attr (Some ''1600'') = Inr 1600"
  by code_simp

lemma str_int_42: "str_int 42 = ''42''"
  by code_simp

lemmas custid_eval =
  custid_lambda_handler_def custid_handler_try_def custid_live_lookup_def
  get_oauth_credentials_def obtain_access_token_def get_access_token_def nonempty_str_def
  search_driver_with_auth_def attempts_range search_attempt_def fetch_drivers_def
  choose_driver_def cache_and_return_def cache_driver_result_def lookup_url_def
  lookup_env_fields demo_secret_def world1_def world0_def step_def Let_def int_attr_1600
  bob_smith_def found_result_def not_found_result_def str_int_42 json_headers_def

lemma first_bob_eval:
  "fst first_bob = \<lparr>statusCode = 200, headers = json_headers,
       body = found_result 42 ''Bob Smith''\<rparr>"
  "trace (snd first_bob) =
     [DdbGet ''ir_custid'' ''bob'', SecretsGet, DdbGet ''ir_auth'' ''racer@example.com'',
      HttpGet ''https://members-ng.iracing.com/data/lookup/drivers?search_term=bob''
        (Some ''token-0''),
      HttpGet ''https://s3/drivers'' None, DdbPut ''ir_custid'' ''Bob Smith'']"
  "ir_custid (snd first_bob) ''bob'' = None"
  "ir_custid (snd first_bob) ''Bob Smith'' = Some \<lparr>ci_cust_id = Some ''42''\<rparr>"
  "ir_auth (snd first_bob) = ir_auth world1"
  "now (snd first_bob) = 1000"
  by (simp_all add: first_bob_def custid_eval)


lemma second_bob_eval:
  "fst second_bob = \<lparr>statusCode = 200, headers = json_headers,
       body = found_result 42 ''Bob Smith''\<rparr>"
  "upstream_calls (snd second_bob) =
     [HttpGet ''https://members-ng.iracing.com/data/lookup/drivers?search_term=bob''
        (Some ''token-0''),
      HttpGet ''https://s3/drivers'' None,
      HttpGet ''https://members-ng.iracing.com/data/lookup/drivers?search_term=bob''
        (Some ''token-0''),
      HttpGet ''https://s3/drivers'' None]"
  by (simp_all add: second_bob_def first_bob_def custid_eval upstream_calls_def)

lemma is_decimal_str_int: "is_decimal (str_int i)"
proof (cases "i < 0")
  case True
  then show ?thesis
    using str_nat_digits [of "nat (- i)"] by (simp add: is_decimal_def str_int_def)
next
  case False
  obtain c cs where cs: "str_nat (nat i) = c # cs"
    using str_nat_digits [of "nat i"] by (cases "str_nat (nat i)") auto
  then have "is_digit c" using str_nat_digits [of "nat i"] by simp
  then have "c \<noteq> CHR ''-''" using digit_not_sign by blast
  then show ?thesis
    using False cs str_nat_digits [of "nat i"] by (simp add: is_decimal_def str_int_def)
qed

lemma custid_handler_200:
  assumes h: "custid_lambda_handler env ev w = (resp, w')" and ok: "statusCode resp = 200"
    and key: "key = unquote env (case rawQueryString ev of None \<Rightarrow> [] | Some q \<Rightarrow> q)"
  shows "key \<noteq> [] \<and> ddb_fault env (length (trace w)) = None \<and>
     ((\<exists>item n. ir_custid w key = Some item \<and> ci_cust_id item = Some n
          \<and> body resp = JObj [(''custid'', JStr n), (''name'', JStr key),
                               (''origin'', JStr ''DynamoDB'')]
          \<and> w' = step env (DdbGet ''ir_custid'' key) w)
      \<or> (ir_custid w key = None \<and>
          ((body resp = not_found_result key \<and> ir_custid w' = ir_custid w)
           \<or> (\<exists>cid nm v. body resp = found_result cid nm
                 \<and> w' = cache_driver_result env nm cid v \<and> ir_custid v = ir_custid w))))"
proof -
  obtain x v where t: "custid_handler_try env ev w = (x, v)"
    by (cases "custid_handler_try env ev w")
  with h ok have tr: "custid_handler_try env ev w = (Inr resp, w')"
    by (cases x) (auto simp: custid_lambda_handler_def custid_except_not_200)
  have k: "key \<noteq> []"
    using tr ok key by (auto simp: custid_handler_try_def Let_def error_response_def
        split: if_splits)
  have nf: "ddb_fault env (length (trace w)) = None"
    using tr k key by (auto simp: custid_handler_try_def Let_def split: option.splits)
  show ?thesis
  proof (cases "ir_custid w key")
    case (Some item)
    with tr k nf key show ?thesis
      by (auto simp: custid_handler_try_def Let_def split: option.splits)
  next
    case None
    let ?w1 = "step env (DdbGet ''ir_custid'' key) w"
    obtain y u where l: "custid_live_lookup env key ?w1 = (y, u)"
      by (cases "custid_live_lookup env key ?w1")
    with tr k nf key None obtain r where y: "y = Inr r" "resp = \<lparr>statusCode = 200,
        headers = json_headers, body = r\<rparr>" "w' = u"
      by (cases y) (auto simp: custid_handler_try_def Let_def)
    from custid_live_lookup_outcome [OF l] y None k nf show ?thesis
      by auto
  qed
qed

section \<open>ir_custid: the answers of the handler\<close>

lemma jget_results:
  "jget (found_result cid nm) ''custid'' JNull = JStr (str_int cid)"
  "jget (found_result cid nm) ''name'' JNull = JStr nm"
  "jget (found_result cid nm) ''origin'' JNull = JStr ''iRacing''"
  "jget (not_found_result key) ''custid'' JNull = JInt 0"
  "jget (not_found_result key) ''name'' JNull = JStr (''Not found: '' @ key)"
  by (simp_all add: found_result_def not_found_result_def)

lemma custid_200_custid_field:
  assumes "custid_lambda_handler env \<lparr>rawQueryString = Some q\<rparr> w = (resp, w')"
    and "statusCode resp = 200"
    and "\<forall>k item n. ir_custid w k = Some item \<longrightarrow> ci_cust_id item = Some n \<longrightarrow> is_decimal n"
  shows "(\<exists>s. jget (body resp) ''custid'' JNull = JStr s \<and> is_decimal s
            \<and> jget (body resp) ''origin'' JNull = JStr ''DynamoDB'')
       \<or> (\<exists>cid nm. body resp = found_result cid nm
            \<and> jget (body resp) ''custid'' JNull = JStr (str_int cid)
            \<and> is_decimal (str_int cid))
       \<or> (body resp = not_found_result (unquote env q)
            \<and> jget (body resp) ''custid'' JNull = JInt 0)"
  using custid_handler_200 [OF assms(1,2), of "unquote env q"] assms(3)
  by (auto simp: jget_results is_decimal_str_int)

lemma custid_handler_empty:
  assumes "unquote env q = key" "key \<noteq> []"
    and "ddb_fault env (length (trace w)) = None" "ir_custid w key = None"
    and c: "get_oauth_credentials env (step env (DdbGet ''ir_custid'' key) w) = (Inr uname, w1)"
    and t: "obtain_access_token env uname w1 = (Inr tok, w2)"
    and "lookup_api env (length (trace w2)) (lookup_url env key) tok
           = NetResponse 200 h (Inr sd)"
    and "link sd = Some url"
    and "drivers_s3 env (Suc (length (trace w2))) url = NetResponse 200 h' (Inr [])"
  shows "custid_lambda_handler env \<lparr>rawQueryString = Some q\<rparr> w
           = (\<lparr>statusCode = 200, headers = json_headers, body = not_found_result key\<rparr>,
              step env (HttpGet url None) (step env (HttpGet (lookup_url env key) (Some tok)) w2))
         \<and> ir_custid w2 = ir_custid w"
proof -
  let ?w3 = "step env (HttpGet url None) (step env (HttpGet (lookup_url env key) (Some tok)) w2)"
  have "choose_driver env key [] ?w3 = (Return (not_found_result key), ?w3)"
    by (simp add: choose_driver_def)
  then have "search_driver_with_auth env key tok w2 = (Inr (not_found_result key), ?w3)"
    using assms by (intro search_first_attempt) auto
  then have "custid_lambda_handler env \<lparr>rawQueryString = Some q\<rparr> w
           = (\<lparr>statusCode = 200, headers = json_headers, body = not_found_result key\<rparr>, ?w3)"
    using assms by (intro custid_handler_live) auto
  moreover have "ir_custid w2 = ir_custid w"
    using get_oauth_credentials_tables [OF c] obtain_access_token_caches [OF t] by simp
  ultimately show ?thesis by simp
qed

lemma not_found_name_differs: "''Not found: '' @ key \<noteq> key"
proof
  assume "''Not found: '' @ key = key"
  then have "length (''Not found: '' @ key) = length key" by simp
  then show False by simp
qed

lemma cache_driver_result_written:
  "ddb_fault env (length (trace v)) = None \<Longrightarrow>
     ir_custid (cache_driver_result env nm cid v) nm = Some \<lparr>ci_cust_id = Some (str_int cid)\<rparr>"
  by (simp add: cache_driver_result_def Let_def)

lemma custid_handler_hit:
  assumes "unquote env q = key" "key \<noteq> []" "ddb_fault env (length (trace w)) = None"
    and "ir_custid w key = Some item" "ci_cust_id item = Some n"
  shows "custid_lambda_handler env \<lparr>rawQueryString = Some q\<rparr> w
     = (\<lparr>statusCode = 200, headers = json_headers,
         body = JObj [(''custid'', JStr n), (''name'', JStr key),
                      (''origin'', JStr ''DynamoDB'')]\<rparr>,
        step env (DdbGet ''ir_custid'' key) w)"
  using assms by (simp add: custid_lambda_handler_def custid_handler_try_def Let_def)

lemma upstream_calls_step_ddb:
  "upstream_calls (step env (DdbGet t k) w) = upstream_calls w"
  by (simp add: upstream_calls_def)

lemma custid_second_resolution:
  assumes first: "custid_lambda_handler env \<lparr>rawQueryString = Some q\<rparr> w = (r1, w1)"
    and ok: "statusCode r1 = 200"
    and exact: "jget (body r1) ''name'' JNull = JStr (unquote env q)"
    and healthy: "\<forall>n. ddb_fault env n = None"
  shows "\<exists>w2. custid_lambda_handler env \<lparr>rawQueryString = Some q\<rparr> w1
     = (\<lparr>statusCode = 200, headers = json_headers,
         body = JObj [(''custid'', jget (body r1) ''custid'' JNull),
                      (''name'', JStr (unquote env q)),
                      (''origin'', JStr ''DynamoDB'')]\<rparr>, w2)
     \<and> upstream_calls w2 = upstream_calls w1
     \<and> (\<exists>s. jget (body r1) ''custid'' JNull = JStr s)"
proof -
  let ?key = "unquote env q"
  from custid_handler_200 [OF first ok, of ?key]
  have k: "?key \<noteq> []" and cases:
    "(\<exists>item n. ir_custid w ?key = Some item \<and> ci_cust_id item = Some n
          \<and> body r1 = JObj [(''custid'', JStr n), (''name'', JStr ?key),
                               (''origin'', JStr ''DynamoDB'')]
          \<and> w1 = step env (DdbGet ''ir_custid'' ?key) w)
      \<or> (ir_custid w ?key = None \<and>
          ((body r1 = not_found_result ?key \<and> ir_custid w1 = ir_custid w)
           \<or> (\<exists>cid nm v. body r1 = found_result cid nm
                 \<and> w1 = cache_driver_result env nm cid v \<and> ir_custid v = ir_custid w)))"
    by simp_all
  have "\<exists>item n. ir_custid w1 ?key = Some item \<and> ci_cust_id item = Some n
      \<and> jget (body r1) ''custid'' JNull = JStr n"
    using cases
  proof (elim disjE conjE exE)
    fix item n
    assume "ir_custid w ?key = Some item" "ci_cust_id item = Some n"
      "body r1 = JObj [(''custid'', JStr n), (''name'', JStr ?key),
                               (''origin'', JStr ''DynamoDB'')]"
      "w1 = step env (DdbGet ''ir_custid'' ?key) w"
    then show ?thesis by simp
  next
    assume "body r1 = not_found_result ?key"
    with exact show ?thesis by (simp add: jget_results not_found_name_differs)
  next
    fix cid nm v
    assume b: "body r1 = found_result cid nm" and w1: "w1 = cache_driver_result env nm cid v"
    with exact have "nm = ?key" by (simp add: jget_results)
    with b w1 healthy show ?thesis
      by (simp add: cache_driver_result_written jget_results)
  qed
  then obtain item n where hit: "ir_custid w1 ?key = Some item" "ci_cust_id item = Some n"
    "jget (body r1) ''custid'' JNull = JStr n" by blast
  have "custid_lambda_handler env \<lparr>rawQueryString = Some q\<rparr> w1
     = (\<lparr>statusCode = 200, headers = json_headers,
         body = JObj [(''custid'', JStr n), (''name'', JStr ?key),
                      (''origin'', JStr ''DynamoDB'')]\<rparr>,
        step env (DdbGet ''ir_custid'' ?key) w1)"
    using k healthy hit by (intro custid_handler_hit) auto
  then show ?thesis using hit(3) by (simp add: upstream_calls_step_ddb)
qed

lemma exact_bob_eval:
  "fst exact_bob = \<lparr>statusCode = 200, headers = json_headers,
       body = found_result 42 ''Bob Smith''\<rparr>"
  by (simp add: exact_bob_def custid_eval)

lemma choose_driver_found:
  assumes "ds = first # others"
    and "d = (case (if length ds > 1 then find (\<lambda>x. display_name x = Some key) ds else None)
              of Some x \<Rightarrow> x | None \<Rightarrow> first)"
    and "display_name d = Some nm" "cust_id d = Some cid"
  shows "choose_driver env key ds w
     = (Return (found_result cid nm), cache_driver_result env nm cid w)"
  using assms
  by (auto simp: choose_driver_def cache_and_return_def split: option.splits if_splits)

lemma custid_handler_found:
  assumes "unquote env q = key" "key \<noteq> []"
    and "ddb_fault env (length (trace w)) = None" "ir_custid w key = None"
    and "get_oauth_credentials env (step env (DdbGet ''ir_custid'' key) w) = (Inr uname, w1)"
    and "obtain_access_token env uname w1 = (Inr tok, w2)"
    and "lookup_api env (length (trace w2)) (lookup_url env key) tok
           = NetResponse 200 h (Inr sd)"
    and "link sd = Some url"
    and "drivers_s3 env (Suc (length (trace w2))) url = NetResponse 200 h' (Inr ds)"
    and "w3 = step env (HttpGet url None) (step env (HttpGet (lookup_url env key) (Some tok)) w2)"
    and ch: "choose_driver env key ds w3 = (Return r, w4)"
  shows "custid_lambda_handler env \<lparr>rawQueryString = Some q\<rparr> w
           = (\<lparr>statusCode = 200, headers = json_headers, body = r\<rparr>, w4)"
proof -
  have "search_driver_with_auth env key tok w2 = (Inr r, w4)"
    using assms by (intro search_first_attempt) auto
  then show ?thesis using assms by (intro custid_handler_live) auto
qed

lemma custid_handler_wire:
  assumes k: "unquote env q = key" "key \<noteq> []"
    and m: "ddb_fault env (length (trace w)) = None" "ir_custid w key = None"
    and c: "get_oauth_credentials env (step env (DdbGet ''ir_custid'' key) w) = (Inr uname, w1)"
    and t: "obtain_access_token env uname w1 = (Inr tok, w2)"
    and l: "lookup_api env (length (trace w2)) (lookup_url env key) tok
           = NetResponse 200 h (Inr sd)" "link sd = Some url"
    and s: "drivers_s3 env (Suc (length (trace w2))) url = NetResponse 200 h' (Inr ds)"
    and w3: "w3 = step env (HttpGet url None)
                    (step env (HttpGet (lookup_url env key) (Some tok)) w2)"
  shows "(ds = [] \<longrightarrow>
            custid_lambda_handler env \<lparr>rawQueryString = Some q\<rparr> w
              = (\<lparr>statusCode = 200, headers = json_headers, body = not_found_result key\<rparr>, w3)
            \<and> jget (not_found_result key) ''custid'' JNull = JInt 0)
     \<and> (\<forall>first others d nm cid.
            ds = first # others \<longrightarrow>
            d = (case (if length ds > 1 then find (\<lambda>x. display_name x = Some key) ds
                       else None)
                 of Some x \<Rightarrow> x | None \<Rightarrow> first) \<longrightarrow>
            display_name d = Some nm \<longrightarrow> cust_id d = Some cid \<longrightarrow>
              custid_lambda_handler env \<lparr>rawQueryString = Some q\<rparr> w
                = (\<lparr>statusCode = 200, headers = json_headers, body = found_result cid nm\<rparr>,
                   cache_driver_result env nm cid w3)
              \<and> jget (found_result cid nm) ''custid'' JNull = JStr (str_int cid)
              \<and> is_decimal (str_int cid))
     \<and> (\<forall>v item n.
            ir_custid v key = Some item \<longrightarrow> ci_cust_id item = Some n \<longrightarrow>
            ddb_fault env (length (trace v)) = None \<longrightarrow>
              custid_lambda_handler env \<lparr>rawQueryString = Some q\<rparr> v
                = (\<lparr>statusCode = 200, headers = json_headers,
                    body = JObj [(''custid'', JStr n), (''name'', JStr key),
                                 (''origin'', JStr ''DynamoDB'')]\<rparr>,
                   step env (DdbGet ''ir_custid'' key) v))
     \<and> (\<forall>v nm cid.
            ddb_fault env (length (trace v)) = None \<longrightarrow>
              ir_custid (cache_driver_result env nm cid v) nm
                = Some \<lparr>ci_cust_id = Some (str_int cid)\<rparr>)"
proof -
  have a: "custid_lambda_handler env \<lparr>rawQueryString = Some q\<rparr> w
              = (\<lparr>statusCode = 200, headers = json_headers, body = not_found_result key\<rparr>, w3)
            \<and> jget (not_found_result key) ''custid'' JNull = JInt 0" if "ds = []"
    using custid_handler_empty [OF k m c t l] s that w3 by (simp add: jget_results)
  have b: "custid_lambda_handler env \<lparr>rawQueryString = Some q\<rparr> w
                = (\<lparr>statusCode = 200, headers = json_headers, body = found_result cid nm\<rparr>,
                   cache_driver_result env nm cid w3)
              \<and> jget (found_result cid nm) ''custid'' JNull = JStr (str_int cid)
              \<and> is_decimal (str_int cid)"
    if "ds = first # others"
       "d = (case (if length ds > 1 then find (\<lambda>x. display_name x = Some key) ds
                       else None)
                 of Some x \<Rightarrow> x | None \<Rightarrow> first)"
       "display_name d = Some nm" "cust_id d = Some cid" for first others d nm cid
    using custid_handler_found [OF k m c t l s w3 choose_driver_found [OF that]]
    by (simp add: jget_results is_decimal_str_int)
  have cc: "custid_lambda_handler env \<lparr>rawQueryString = Some q\<rparr> v
                = (\<lparr>statusCode = 200, headers = json_headers,
                    body = JObj [(''custid'', JStr n), (''name'', JStr key),
                                 (''origin'', JStr ''DynamoDB'')]\<rparr>,
                   step env (DdbGet ''ir_custid'' key) v)"
    if "ir_custid v key = Some item" "ci_cust_id item = Some n"
       "ddb_fault env (length (trace v)) = None" for v item n
    using custid_handler_hit [OF k that(3,1,2)] .
  have d: "ir_custid (cache_driver_result env nm cid v) nm
                = Some \<lparr>ci_cust_id = Some (str_int cid)\<rparr>"
    if "ddb_fault env (length (trace v)) = None" for v nm cid
    using cache_driver_result_written [OF that] .
  show ?thesis using a b cc d by blast
qed

lemma lookup_credentials:
  "get_oauth_credentials (lookup_env ds) (step (lookup_env ds) (DdbGet ''ir_custid'' key) world1)
     = (Inr ''racer@example.com'',
        step (lookup_env ds) SecretsGet
          (step (lookup_env ds) (DdbGet ''ir_custid'' key) world1))"
  by (simp add: custid_eval)

lemma lookup_token:
  "obtain_access_token (lookup_env ds) ''racer@example.com''
       (step (lookup_env ds) SecretsGet
          (step (lookup_env ds) (DdbGet ''ir_custid'' key) world1))
     = (Inr ''token-0'',
        step (lookup_env ds) (DdbGet ''ir_auth'' ''racer@example.com'')
          (step (lookup_env ds) SecretsGet
             (step (lookup_env ds) (DdbGet ''ir_custid'' key) world1)))"
  by (simp add: custid_eval)

section \<open>ir_drivers: the batch\<close>

lemma process_driver_except_entry: "\<exists>msg. process_driver_except n e = error_entry msg"
  by (cases e) (simp_all add: exI)

lemma process_driver_cases:
  "(case fst (process_driver_try env n uname tok v) of
      Inl e \<Rightarrow> fst (process_driver env n uname tok v) = process_driver_except n e
    | Inr p \<Rightarrow> fst (process_driver env n uname tok v) = p)"
  by (simp add: process_driver_def split: prod.splits sum.splits)

lemma process_all_entries:
  "process_all env uname tok names acc w = (info, w') \<Longrightarrow>
     fst ` set info = set names \<union> fst ` set acc
     \<and> (distinct (map fst acc) \<longrightarrow> distinct (map fst info))
     \<and> (\<forall>n\<in>set names. \<exists>v. map_of info n = Some (fst (process_driver env n uname tok v)))
     \<and> (\<forall>n. n \<notin> set names \<longrightarrow> map_of info n = map_of acc n)"
proof (induction names arbitrary: acc w)
  case Nil
  then show ?case by simp
next
  case (Cons name rest)
  obtain entry v where p: "process_driver env name uname tok w = (entry, v)"
    by (cases "process_driver env name uname tok w")
  let ?acc = "AList.update name entry acc"
  from Cons.prems p have run: "process_all env uname tok rest ?acc v = (info, w')"
    by simp
  note ih = Cons.IH [OF run]
  have dom: "fst ` set info = set (name # rest) \<union> fst ` set acc"
    using ih by (auto simp: dom_update)
  have dist: "distinct (map fst acc) \<longrightarrow> distinct (map fst info)"
    using ih by (simp add: distinct_update)
  have other: "\<forall>n. n \<notin> set (name # rest) \<longrightarrow> map_of info n = map_of acc n"
    using ih by (simp add: update_conv')
  have each: "\<exists>v. map_of info n = Some (fst (process_driver env n uname tok v))"
    if "n \<in> set (name # rest)" for n
  proof (cases "n \<in> set rest")
    case True
    then show ?thesis using ih by blast
  next
    case False
    with that have "n = name" by simp
    moreover have "map_of info n = map_of ?acc n" using ih False by blast
    ultimately have "map_of info n = Some (fst (process_driver env n uname tok w))"
      using p by (simp add: update_conv')
    then show ?thesis by blast
  qed
  show ?case using dom dist other each by blast
qed



lemma process_driver_entry:
  "(case fst (process_driver_try env n uname tok v) of
      Inl e \<Rightarrow> fst (process_driver env n uname tok v) = process_driver_except n e
                 \<and> (\<exists>msg. process_driver_except n e = error_entry msg)
    | Inr p \<Rightarrow> fst (process_driver env n uname tok v) = p)"
proof (cases "fst (process_driver_try env n uname tok v)")
  case (Inl e)
  then show ?thesis
    using process_driver_cases [of env n uname tok v] process_driver_except_entry [of n e]
    by simp
next
  case (Inr p)
  then show ?thesis
    using process_driver_cases [of env n uname tok v] by simp
qed

lemma drivers_handler_entries:
  assumes "parse_drivers env ev = names" "names \<noteq> []"
    and "get_oauth_credentials env w = (Inr uname, w1)"
    and "obtain_access_token env uname w1 = (Inr tok, w2)"
  shows "\<exists>info w'. drivers_lambda_handler env ev w
           = (\<lparr>statusCode = 200, headers = cors_headers, body = JObj info\<rparr>, w')
      \<and> fst ` set info = set names \<and> distinct (map fst info)
      \<and> (\<forall>n\<in>set names. \<exists>v.
            map_of info n = Some (fst (process_driver env n uname tok v))
            \<and> (case fst (process_driver_try env n uname tok v) of
                  Inl e \<Rightarrow> fst (process_driver env n uname tok v) = process_driver_except n e
                       \<and> (\<exists>msg. process_driver_except n e = error_entry msg)
                | Inr p \<Rightarrow> fst (process_driver env n uname tok v) = p))"
proof -
  obtain info w' where run: "process_all env uname tok names [] w2 = (info, w')"
    by (cases "process_all env uname tok names [] w2")
  note e = process_all_entries [OF run]
  have h: "drivers_lambda_handler env ev w
           = (\<lparr>statusCode = 200, headers = cors_headers, body = JObj info\<rparr>, w')"
    using assms run by (simp add: drivers_lambda_handler_def drivers_handler_try_def)
  have dom: "fst ` set info = set names" using e by simp
  have dist: "distinct (map fst info)" using e by simp
  have each: "\<forall>n\<in>set names. \<exists>v.
            map_of info n = Some (fst (process_driver env n uname tok v))
            \<and> (case fst (process_driver_try env n uname tok v) of
                  Inl e \<Rightarrow> fst (process_driver env n uname tok v) = process_driver_except n e
                       \<and> (\<exists>msg. process_driver_except n e = error_entry msg)
                | Inr p \<Rightarrow> fst (process_driver env n uname tok v) = p)"
  proof
    fix n assume "n \<in> set names"
    then obtain v where v: "map_of info n = Some (fst (process_driver env n uname tok v))"
      using e by blast
    show "\<exists>v. map_of info n = Some (fst (process_driver env n uname tok v))
            \<and> (case fst (process_driver_try env n uname tok v) of
                  Inl e \<Rightarrow> fst (process_driver env n uname tok v) = process_driver_except n e
                       \<and> (\<exists>msg. process_driver_except n e = error_entry msg)
                | Inr p \<Rightarrow> fst (process_driver env n uname tok v) = p)"
      using v process_driver_entry [of env n uname tok v] by (intro exI [of _ v] conjI)
  qed
  show ?thesis
    using h dom dist each by (intro exI [of _ info] exI [of _ w'] conjI)
qed

lemma quiet_env_fields:
  "latency quiet_env = (\<lambda>n. 0)"
  "secrets quiet_env = (\<lambda>n. Inr demo_secret)"
  "ddb_fault quiet_env = (\<lambda>n. None)"
  "oauth_api quiet_env = (\<lambda>n d. NetURLError ''unreachable'')"
  "lookup_api quiet_env = (\<lambda>n u t. NetURLError ''unreachable'')"
  "drivers_s3 quiet_env = (\<lambda>n u. NetURLError ''unreachable'')"
  "profile_api quiet_env = (\<lambda>n u t. NetURLError ''unreachable'')"
  "profile_s3 quiet_env = (\<lambda>n u. NetURLError ''unreachable'')"
  "invoke_transport quiet_env = (\<lambda>n. Invoked 200)"
  "quote quiet_env = (\<lambda>s. s)"
  "unquote quiet_env = (\<lambda>s. s)"
  "dumps quiet_env = (\<lambda>j. [])"
  by (simp_all add: quiet_env_def)

lemma parse_abc: "parse_drivers quiet_env abc_event = [''A'', ''B'', ''C'']"
  by code_simp

lemma int_attr_5000: "int_attr (Some ''5000'') = Inr 5000"
  by code_simp

lemma abc_credentials:
  "get_oauth_credentials quiet_env world2
     = (Inr ''racer@example.com'', step quiet_env SecretsGet world2)"
  by (simp add: get_oauth_credentials_def quiet_env_fields demo_secret_def Let_def)

lemma abc_token:
  "obtain_access_token quiet_env ''racer@example.com'' (step quiet_env SecretsGet world2)
     = (Inr ''token-0'',
        step quiet_env (DdbGet ''ir_auth'' ''racer@example.com'')
          (step quiet_env SecretsGet world2))"
  by (simp add: obtain_access_token_def get_access_token_def nonempty_str_def
      quiet_env_fields world2_def world1_def world0_def step_def Let_def int_attr_1600)

lemmas drivers_eval =
  drivers_lambda_handler_def drivers_handler_try_def parse_abc
  process_driver_def process_driver_try_def get_cached_driver_profile_def
  resolve_cust_id_def get_customer_id_from_cache_def invoke_custid_lambda_def
  custid_lambda_handler_def custid_handler_try_def custid_live_lookup_def
  get_oauth_credentials_def obtain_access_token_def get_access_token_def nonempty_str_def
  search_driver_with_auth_def attempts_range search_attempt_def lookup_url_def
  retry_first retry_last backoff_values str_nat_MAX
  quiet_env_fields demo_secret_def world2_def world1_def world0_def step_def Let_def
  int_attr_1600 int_attr_5000 sample_profile_def error_response_def json_headers_def
  AList.update.simps

lemma abc_eval:
  "body (fst (drivers_lambda_handler quiet_env abc_event world2))
     = JObj [(''A'', sample_profile ''A''),
             (''B'', error_entry
                (''iRacing API error for B: Customer ID lookup failed: ''
                 @ ''ir_custid Lambda failed: '')),
             (''C'', sample_profile ''C'')]"
  by (simp add: drivers_eval)

section \<open>ir_drivers: the profile cache\<close>









lemma int_of_json_42: "int_of_json (JStr ''42'') = Inr 42"
  by code_simp


section \<open>ir_drivers: re-authentication after a 401\<close>

lemma retry_or_raise_gets:
  "retry_or_raise a d e w = (c, w') \<Longrightarrow>
     bearer_gets w' = bearer_gets w"
  by (auto simp: retry_or_raise_def sleep_def bearer_gets_def split: if_splits)

lemma oauth_attempt_gets:
  "oauth_attempt env data a w = (c, w') \<Longrightarrow>
     bearer_gets w' = bearer_gets w"
  unfolding oauth_attempt_def Let_def
  by (auto split: net.splits sum.splits if_splits option.splits
      dest!: retry_or_raise_gets simp: step_def bearer_gets_def)

lemma make_oauth_request_gets:
  assumes "make_oauth_request env creds g rt w = (r, w')"
  shows "bearer_gets w' = bearer_gets w"
proof (cases "oauth_form env creds g rt")
  case (Inl e)
  with assms show ?thesis by (simp add: make_oauth_request_def)
next
  case (Inr data)
  with assms have l: "for_attempts [0..<MAX_RETRIES] (oauth_attempt env data)
       (AuthenticationError ''Max retries exceeded'') w = (r, w')"
    by (simp add: make_oauth_request_def)
  show ?thesis
    by (rule for_attempts_invariant [OF _ l,
          where P = "\<lambda>v. bearer_gets v = bearer_gets w"])
      (auto dest: oauth_attempt_gets)
qed

lemma store_tokens_gets:
  "store_tokens_in_dynamodb env u r w = (x, w') \<Longrightarrow>
     bearer_gets w' = bearer_gets w"
  unfolding store_tokens_in_dynamodb_def Let_def
  by (cases "access_token r"; cases "ddb_fault env (length (trace w))")
     (auto simp: step_def bearer_gets_def)

lemma exchange_and_store_gets:
  "exchange_and_store env creds g rt msg w = (x, w') \<Longrightarrow>
     bearer_gets w' = bearer_gets w"
  unfolding exchange_and_store_def
  by (auto split: prod.splits sum.splits
      dest!: make_oauth_request_gets store_tokens_gets)

lemma get_existing_tokens_gets:
  "get_existing_tokens env u w = (x, w') \<Longrightarrow>
     bearer_gets w' = bearer_gets w"
  unfolding get_existing_tokens_def Let_def
  by (auto split: option.splits sum.splits if_splits simp: step_def bearer_gets_def)

lemma auth_credentials_gets:
  "auth_get_oauth_credentials env w = (x, w') \<Longrightarrow>
     bearer_gets w' = bearer_gets w"
  unfolding auth_get_oauth_credentials_def Let_def
  by (auto split: sum.splits option.splits simp: step_def bearer_gets_def)

lemma auth_handler_try_gets:
  assumes "auth_handler_try env w = (x, w')"
  shows "bearer_gets w' = bearer_gets w"
proof -
  obtain c w1 where c: "auth_get_oauth_credentials env w = (c, w1)"
    by (cases "auth_get_oauth_credentials env w")
  note f1 = auth_credentials_gets [OF c]
  show ?thesis
  proof (cases c)
    case (Inl e)
    with assms c f1 show ?thesis by (simp add: auth_handler_try_def)
  next
    case (Inr creds)
    obtain te w2 where g: "get_existing_tokens env (username creds) w1 = (te, w2)"
      by (cases "get_existing_tokens env (username creds) w1")
    note f2 = get_existing_tokens_gets [OF g]
    have pw: "bearer_gets w' = bearer_gets w"
      if "password_login env creds v = (x, w')"
         "bearer_gets v = bearer_gets w" for v
      using exchange_and_store_gets that by (auto simp: password_login_def)
    show ?thesis
    proof (cases te)
      case (Inl e)
      with assms c g Inr f1 f2 show ?thesis by (simp add: auth_handler_try_def)
    next
      case found: (Inr found)
      show ?thesis
      proof (cases found)
        case None
        with assms c g Inr found have "password_login env creds w2 = (x, w')"
          by (simp add: auth_handler_try_def)
        then show ?thesis using pw f1 f2 by simp
      next
        case (Some et)
        show ?thesis
        proof (cases et)
          case (ValidTokens tok tt ei sc rt rei)
          with assms c g Inr found Some f1 f2 show ?thesis
            by (simp add: auth_handler_try_def)
        next
          case (ExpiredTokens t)
          show ?thesis
          proof (cases "t = []")
            case True
            with assms c g Inr found Some ExpiredTokens
            have "password_login env creds w2 = (x, w')"
              by (simp add: auth_handler_try_def)
            then show ?thesis using pw f1 f2 by simp
          next
            case False
            obtain y w3 where e: "exchange_and_store env creds ''refresh_token'' (Some t)
                ''Authentication successful (refreshed)'' w2 = (y, w3)"
              by (cases "exchange_and_store env creds ''refresh_token'' (Some t)
                ''Authentication successful (refreshed)'' w2")
            note f3 = exchange_and_store_gets [OF e]
            have "password_login env creds w3 = (x, w') \<or> (x = y \<and> w' = w3)"
              using assms c g Inr found Some ExpiredTokens False e
              by (auto simp: auth_handler_try_def split: sum.splits exn.splits)
            then show ?thesis using pw [of w3] f1 f2 f3 by auto
          qed
        qed
      qed
    qed
  qed
qed

lemma auth_lambda_handler_gets:
  "auth_lambda_handler env w = (x, w') \<Longrightarrow>
     bearer_gets w' = bearer_gets w"
  unfolding auth_lambda_handler_def
  by (auto split: prod.splits sum.splits dest!: auth_handler_try_gets)

lemma get_access_token_gets:
  "get_access_token env u w = (x, w') \<Longrightarrow>
     bearer_gets w' = bearer_gets w"
  unfolding get_access_token_def Let_def
  by (auto split: option.splits sum.splits if_splits simp: step_def bearer_gets_def)

lemma invoke_auth_lambda_gets:
  "invoke_auth_lambda env w = (x, w') \<Longrightarrow>
     bearer_gets w' = bearer_gets w"
  unfolding invoke_auth_lambda_def Let_def
  by (auto split: invoke_outcome.splits prod.splits if_splits
      dest!: auth_lambda_handler_gets simp: step_def bearer_gets_def)

lemma obtain_access_token_gets:
  "obtain_access_token env u w = (x, w') \<Longrightarrow>
     bearer_gets w' = bearer_gets w"
  unfolding obtain_access_token_def
  by (auto split: prod.splits option.splits sum.splits
      dest!: get_access_token_gets invoke_auth_lambda_gets)

lemma reauthenticate_gets:
  "reauthenticate env u w = (x, w') \<Longrightarrow>
     bearer_gets w' = bearer_gets w"
  unfolding reauthenticate_def
  by (auto split: prod.splits option.splits sum.splits
      dest!: get_access_token_gets invoke_auth_lambda_gets)


lemma bearer_gets_step:
  "bearer_gets (step env e w) = bearer_gets w @ (if is_bearer_get e then [e] else [])"
  by (simp add: bearer_gets_def)

lemma profile_401_once:
  assumes "profile_api env (length (trace w)) (profile_url cid) tok = NetResponse 401 h b"
  shows "get_driver_profile_with_auth env cid tok w
     = (Inl (AuthenticationError ''Access token expired or invalid''),
        step env (HttpGet (profile_url cid) (Some tok)) w)"
  using assms
  by (simp add: get_driver_profile_with_auth_def attempts_range profile_attempt_def Let_def)

lemma reauthenticate_error:
  "reauthenticate env u w = (Inl e, w') \<Longrightarrow> \<exists>m. e = AuthenticationError m"
  unfolding reauthenticate_def invoke_auth_lambda_def Let_def
  by (auto split: prod.splits option.splits sum.splits invoke_outcome.splits if_splits)

lemma process_driver_always_401:
  assumes always: "\<forall>n u t. \<exists>h b. profile_api env n u t = NetResponse 401 h b"
    and miss: "get_cached_driver_profile env nm w = (None, w1)"
    and cid: "resolve_cust_id env nm w1 = (Inr cid, w2)" "truthy cid"
             "int_of_json cid = Inr n" "0 < n"
    and url: "url = profile_url (str_of_json env cid)"
    and re: "reauthenticate env uname (step env (HttpGet url (Some tok)) w2) = (r, w4)"
  shows "\<exists>msg w'. process_driver env nm uname tok w = (error_entry msg, w')
      \<and> (case r of
            Inl e \<Rightarrow> w' = w4 \<and> bearer_gets w' = bearer_gets w2 @ [HttpGet url (Some tok)]
          | Inr tok' \<Rightarrow>
              w' = step env (HttpGet url (Some tok')) w4
              \<and> msg = ''iRacing API error for '' @ nm @ '': Access token expired or invalid''
              \<and> bearer_gets w' = bearer_gets w2
                   @ [HttpGet url (Some tok), HttpGet url (Some tok')])"
proof -
  let ?c = "str_of_json env cid"
  let ?w3 = "step env (HttpGet url (Some tok)) w2"
  have f: "get_driver_profile_with_auth env ?c t v
     = (Inl (AuthenticationError ''Access token expired or invalid''),
        step env (HttpGet url (Some t)) v)" for t v
    using always profile_401_once [of env v ?c t] url by metis
  have g4: "bearer_gets w4 = bearer_gets w2 @ [HttpGet url (Some tok)]"
    using reauthenticate_gets [OF re] by (simp add: bearer_gets_step)
  show ?thesis
  proof (cases r)
    case (Inl e)
    then obtain m where m: "e = AuthenticationError m"
      using re reauthenticate_error by blast
    have "process_driver env nm uname tok w
       = (error_entry (''iRacing API error for '' @ nm @ '': '' @ m), w4)"
      using miss cid f [of tok w2] re Inl m
      by (simp add: process_driver_def process_driver_try_def fetch_and_cache_def)
    then show ?thesis using Inl g4 by auto
  next
    case (Inr tok')
    have "process_driver env nm uname tok w
       = (error_entry (''iRacing API error for '' @ nm @ '': Access token expired or invalid''),
          step env (HttpGet url (Some tok')) w4)"
      using miss cid f [of tok w2] f [of tok' w4] re Inr
      by (simp add: process_driver_def process_driver_try_def fetch_and_cache_def)
    then show ?thesis using Inr g4 by (auto simp: bearer_gets_step)
  qed
qed

lemma profile_401_fields:
  "latency profile_401 = (\<lambda>n. 0)"
  "secrets profile_401 = (\<lambda>n. Inr demo_secret)"
  "ddb_fault profile_401 = (\<lambda>n. None)"
  "profile_api profile_401 = (\<lambda>n u t. NetResponse 401 None (Inl []))"
  "invoke_transport profile_401 = (\<lambda>n. Invoked 200)"
  "latency profile_401_auth_down = (\<lambda>n. 0)"
  "secrets profile_401_auth_down = (\<lambda>n. Inr demo_secret)"
  "ddb_fault profile_401_auth_down = (\<lambda>n. None)"
  "profile_api profile_401_auth_down = (\<lambda>n u t. NetResponse 401 None (Inl []))"
  "invoke_transport profile_401_auth_down = (\<lambda>n. InvokeClientError ''down'')"
  by (simp_all add: profile_401_auth_down_def profile_401_def quiet_env_def)

lemma world3_miss:
  "ddb_fault env (length (trace world3)) = None \<Longrightarrow>
   get_cached_driver_profile env ''Bob Smith'' world3
     = (None, step env (DdbGet ''ir_drivers'' ''Bob Smith'') world3)"
  by (simp add: get_cached_driver_profile_def world3_def world1_def world0_def Let_def)

lemma world3_cust_id:
  "ddb_fault env (Suc (length (trace world3))) = None \<Longrightarrow>
   resolve_cust_id env ''Bob Smith'' (step env (DdbGet ''ir_drivers'' ''Bob Smith'') world3)
     = (Inr (JStr ''42''),
        step env (DdbGet ''ir_custid'' ''Bob Smith'')
          (step env (DdbGet ''ir_drivers'' ''Bob Smith'') world3))"
  by (simp add: resolve_cust_id_def get_customer_id_from_cache_def nonempty_str_def
      world3_def world1_def world0_def step_def Let_def)

lemma reauthenticate_valid:
  "fst (reauthenticate profile_401 ''racer@example.com''
     (step profile_401 (HttpGet (profile_url ''42'') (Some ''token-0''))
        (step profile_401 (DdbGet ''ir_custid'' ''Bob Smith'')
          (step profile_401 (DdbGet ''ir_drivers'' ''Bob Smith'') world3))))
    = Inr ''token-0''"
  by (simp add: reauthenticate_def invoke_auth_lambda_def auth_lambda_handler_def
      auth_handler_try_def auth_get_oauth_credentials_def get_existing_tokens_def
      get_access_token_def nonempty_str_def token_envelope_def profile_401_fields
      demo_secret_def world3_def world1_def world0_def step_def Let_def int_attr_1600
      int_attr_samples)

lemma reauthenticate_down:
  "\<exists>m w4. reauthenticate profile_401_auth_down ''racer@example.com''
     (step profile_401_auth_down (HttpGet (profile_url ''42'') (Some ''token-0''))
        (step profile_401_auth_down (DdbGet ''ir_custid'' ''Bob Smith'')
          (step profile_401_auth_down (DdbGet ''ir_drivers'' ''Bob Smith'') world3)))
    = (Inl (AuthenticationError m), w4)"
  by (simp add: reauthenticate_def invoke_auth_lambda_def profile_401_fields Let_def)

section \<open>ir_auth: the expiry recorded for a returned token\<close>

lemma exchange_and_store_pinned:
  assumes ex: "exchange_and_store env creds g rt msg w = (Inr resp, w')"
  shows "\<exists>tok r (v::world). jget (body resp) ''access_token'' JNull = JStr tok
      \<and> access_token r = Some tok
      \<and> (\<exists>n d h. oauth_api env n d = NetResponse 200 h (Inr r))
      \<and> now w \<le> now v \<and> now v \<le> now w'
      \<and> recorded_expiry w' (username creds) tok
          = Some (now v + (case expires_in r of None \<Rightarrow> ACCESS_TOKEN_LIFETIME | Some e \<Rightarrow> e))"
proof -
  from ex obtain r w1 x where
    m: "make_oauth_request env creds g rt w = (Inr r, w1)" and
    s: "store_tokens_in_dynamodb env (username creds) r w1 = (Inr x, w')" and
    f: "fresh_envelope msg r = Inr resp"
    by (auto simp: exchange_and_store_def split: prod.splits sum.splits)
  obtain tok where tok: "access_token r = Some tok"
    and rec: "recorded_expiry w' (username creds) tok
        = Some (now w1 + (case expires_in r of None \<Rightarrow> ACCESS_TOKEN_LIFETIME | Some e \<Rightarrow> e))"
    using store_tokens_recorded [OF s] by blast
  have api: "\<exists>n d h. oauth_api env n d = NetResponse 200 h (Inr r)"
    using make_oauth_request_Return [OF m] .
  have le: "now w \<le> now w1" using make_oauth_request_now [OF m] .
  have bd: "jget (body resp) ''access_token'' JNull = JStr tok"
    using f tok by (auto simp: fresh_envelope_def token_envelope_def)
  have le': "now w1 \<le> now w'" using store_tokens_now [OF s] .
  show ?thesis using bd tok api le le' rec by blast
qed

lemma auth_handler_expiry_pinned:
  assumes h: "auth_lambda_handler env w = (resp, w')"
    and ok: "statusCode resp = 200"
  shows "\<exists>uname tok t. handler_identity env w = Some uname
      \<and> jget (body resp) ''access_token'' JNull = JStr tok
      \<and> recorded_expiry w' uname tok = Some t
      \<and> (case token_state env w of
            Inr (Some (ValidTokens tk tt ei sc rt rei)) \<Rightarrow> tok = tk \<and> now w < t
          | _ \<Rightarrow>
             (\<exists>r (v::world). access_token r = Some tok
                \<and> (\<exists>n d h. oauth_api env n d = NetResponse 200 h (Inr r))
                \<and> now w \<le> now v \<and> now v \<le> now w'
                \<and> t = now v
                    + (case expires_in r of None \<Rightarrow> ACCESS_TOKEN_LIFETIME | Some e \<Rightarrow> e)))"
proof -
  obtain x v where "auth_handler_try env w = (x, v)" by (cases "auth_handler_try env w")
  with h ok have tr: "auth_handler_try env w = (Inr resp, w')"
    by (cases x) (auto simp: auth_lambda_handler_def auth_except_not_200)
  then obtain creds w1 where c: "auth_get_oauth_credentials env w = (Inr creds, w1)"
    by (auto simp: auth_handler_try_def split: prod.splits sum.splits)
  obtain te w2 where g: "get_existing_tokens env (username creds) w1 = (te, w2)"
    by (cases "get_existing_tokens env (username creds) w1")
  have ts: "token_state env w = te" using c g by (simp add: token_state_def)
  have ident: "handler_identity env w = Some (username creds)" and le1: "now w \<le> now w1"
    using auth_credentials_identity [OF c] by simp_all
  have le2: "now w1 \<le> now w2" using get_existing_tokens_now [OF g] .
  let ?fresh = "\<lambda>tok t. \<exists>r (v::world). access_token r = Some tok
                \<and> (\<exists>n d h. oauth_api env n d = NetResponse 200 h (Inr r))
                \<and> now w \<le> now v \<and> now v \<le> now w'
                \<and> t = now v
                    + (case expires_in r of None \<Rightarrow> ACCESS_TOKEN_LIFETIME | Some e \<Rightarrow> e)"
  have fresh: "\<exists>tok t. jget (body resp) ''access_token'' JNull = JStr tok
      \<and> recorded_expiry w' (username creds) tok = Some t \<and> ?fresh tok t"
    if "exchange_and_store env creds gt rt msg u = (Inr resp, w')" "now w \<le> now u"
    for gt rt msg u
  proof -
    from exchange_and_store_pinned [OF that(1)] obtain tok r and v :: world where
      a: "jget (body resp) ''access_token'' JNull = JStr tok" "access_token r = Some tok"
         "\<exists>n d h. oauth_api env n d = NetResponse 200 h (Inr r)" "now u \<le> now v"
         "now v \<le> now w'"
         "recorded_expiry w' (username creds) tok
          = Some (now v + (case expires_in r of None \<Rightarrow> ACCESS_TOKEN_LIFETIME | Some e \<Rightarrow> e))"
      by blast
    have "now w \<le> now v" using a(4) that(2) by simp
    then have "?fresh tok
       (now v + (case expires_in r of None \<Rightarrow> ACCESS_TOKEN_LIFETIME | Some e \<Rightarrow> e))"
      using a(2,3,5) by blast
    then show ?thesis using a(1,6) by blast
  qed
  show ?thesis
  proof (cases te)
    case (Inl e)
    with tr c g show ?thesis by (simp add: auth_handler_try_def)
  next
    case (Inr found)
    show ?thesis
    proof (cases found)
      case None
      with tr c g Inr have "password_login env creds w2 = (Inr resp, w')"
        by (simp add: auth_handler_try_def)
      then have "\<exists>tok t. jget (body resp) ''access_token'' JNull = JStr tok
          \<and> recorded_expiry w' (username creds) tok = Some t \<and> ?fresh tok t"
        using fresh le1 le2 by (simp add: password_login_def)
      then show ?thesis using ident ts Inr None by simp
    next
      case (Some et)
      show ?thesis
      proof (cases et)
        case (ValidTokens tok tt ei sc rt rei)
        with tr c g Inr Some have r: "resp = token_envelope
            ''Authentication successful (cached)'' tok tt ei sc" and w: "w' = w2"
          by (simp_all add: auth_handler_try_def)
        obtain t where "recorded_expiry w2 (username creds) tok = Some t" "now w1 < t"
          using get_existing_tokens_valid g Inr Some ValidTokens by blast
        then show ?thesis using r w le1 ident ts Inr Some ValidTokens
          by (auto simp: token_envelope_def)
      next
        case (ExpiredTokens t)
        have "\<exists>tok t. jget (body resp) ''access_token'' JNull = JStr tok
          \<and> recorded_expiry w' (username creds) tok = Some t \<and> ?fresh tok t"
        proof (cases "t = []")
          case True
          with tr c g Inr Some ExpiredTokens
          have "password_login env creds w2 = (Inr resp, w')"
            by (simp add: auth_handler_try_def)
          then show ?thesis using fresh le1 le2 by (simp add: password_login_def)
        next
          case False
          obtain y w3 where e: "exchange_and_store env creds ''refresh_token'' (Some t)
              ''Authentication successful (refreshed)'' w2 = (y, w3)"
            by (cases "exchange_and_store env creds ''refresh_token'' (Some t)
              ''Authentication successful (refreshed)'' w2")
          have le3: "now w2 \<le> now w3" using exchange_and_store_now [OF e] .
          show ?thesis
          proof (cases y)
            case (Inr r')
            with tr c g \<open>te = Inr found\<close> Some ExpiredTokens False e
            have "resp = r'" "w' = w3" by (simp_all add: auth_handler_try_def)
            then show ?thesis using fresh [of "''refresh_token''" "Some t" _ w2] e Inr le1 le2
              by simp
          next
            case (Inl ex)
            from tr c g \<open>te = Inr found\<close> Some ExpiredTokens False e Inl
            have "password_login env creds w3 = (Inr resp, w')"
              by (cases ex) (simp_all add: auth_handler_try_def)
            then show ?thesis using fresh le1 le2 le3 by (simp add: password_login_def)
          qed
        qed
        then show ?thesis using ident ts Inr Some ExpiredTokens by simp
      qed
    qed
  qed
qed

lemma auth_handler_expiry_bound:
  assumes h: "auth_lambda_handler env w = (resp, w')"
    and ok: "statusCode resp = 200"
  shows "\<exists>uname tok t. handler_identity env w = Some uname
      \<and> jget (body resp) ''access_token'' JNull = JStr tok
      \<and> recorded_expiry w' uname tok = Some t
      \<and> (case token_state env w of
            Inr (Some (ValidTokens tk tt ei sc rt rei)) \<Rightarrow> tok = tk \<and> now w < t
          | _ \<Rightarrow>
             (\<exists>r (v::world). access_token r = Some tok
                \<and> (\<exists>n d h. oauth_api env n d = NetResponse 200 h (Inr r))
                \<and> now w \<le> now v \<and> now v \<le> now w'
                \<and> t = now v
                    + (case expires_in r of None \<Rightarrow> ACCESS_TOKEN_LIFETIME | Some e \<Rightarrow> e)))
      \<and> ((\<forall>n d h r e. oauth_api env n d = NetResponse 200 h (Inr r)
              \<longrightarrow> expires_in r = Some e \<longrightarrow> 0 \<le> e) \<longrightarrow> now w \<le> t)"
proof -
  from auth_handler_expiry_pinned [OF h ok] obtain uname tok t where
    a: "handler_identity env w = Some uname"
       "jget (body resp) ''access_token'' JNull = JStr tok"
       "recorded_expiry w' uname tok = Some t"
    and c: "(case token_state env w of
            Inr (Some (ValidTokens tk tt ei sc rt rei)) \<Rightarrow> tok = tk \<and> now w < t
          | _ \<Rightarrow>
             (\<exists>r (v::world). access_token r = Some tok
                \<and> (\<exists>n d h. oauth_api env n d = NetResponse 200 h (Inr r))
                \<and> now w \<le> now v \<and> now v \<le> now w'
                \<and> t = now v
                    + (case expires_in r of None \<Rightarrow> ACCESS_TOKEN_LIFETIME | Some e \<Rightarrow> e)))"
    by blast
  have fresh: "now w \<le> t"
    if wf: "\<forall>n d h r e. oauth_api env n d = NetResponse 200 h (Inr r)
              \<longrightarrow> expires_in r = Some e \<longrightarrow> 0 \<le> e"
      and f: "\<exists>r (v::world). access_token r = Some tok
                \<and> (\<exists>n d h. oauth_api env n d = NetResponse 200 h (Inr r))
                \<and> now w \<le> now v \<and> now v \<le> now w'
                \<and> t = now v
                    + (case expires_in r of None \<Rightarrow> ACCESS_TOKEN_LIFETIME | Some e \<Rightarrow> e)"
  proof -
    from f obtain r and v :: world and n d hh where
      r: "oauth_api env n d = NetResponse 200 hh (Inr r)" "now w \<le> now v"
         "t = now v + (case expires_in r of None \<Rightarrow> ACCESS_TOKEN_LIFETIME | Some e \<Rightarrow> e)"
      by blast
    have "0 \<le> (case expires_in r of None \<Rightarrow> ACCESS_TOKEN_LIFETIME | Some e \<Rightarrow> e)"
      using wf r(1) by (auto split: option.splits simp: ACCESS_TOKEN_LIFETIME_def)
    then show ?thesis using r(2,3) by simp
  qed
  define F where "F = (\<exists>r (v::world). access_token r = Some tok
                \<and> (\<exists>n d h. oauth_api env n d = NetResponse 200 h (Inr r))
                \<and> now w \<le> now v \<and> now v \<le> now w'
                \<and> t = now v
                    + (case expires_in r of None \<Rightarrow> ACCESS_TOKEN_LIFETIME | Some e \<Rightarrow> e))"
  have c': "(case token_state env w of
            Inr (Some (ValidTokens tk tt ei sc rt rei)) \<Rightarrow> tok = tk \<and> now w < t
          | _ \<Rightarrow> F)"
    using c unfolding F_def .
  have "(\<forall>n d h r e. oauth_api env n d = NetResponse 200 h (Inr r)
              \<longrightarrow> expires_in r = Some e \<longrightarrow> 0 \<le> e) \<longrightarrow> now w \<le> t"
  proof
    assume wf: "\<forall>n d h r e. oauth_api env n d = NetResponse 200 h (Inr r)
              \<longrightarrow> expires_in r = Some e \<longrightarrow> 0 \<le> e"
    have "F \<Longrightarrow> now w \<le> t" using fresh [OF wf] unfolding F_def .
    then show "now w \<le> t"
      using c' by (auto split: sum.splits option.splits existing_tokens.splits)
  qed
  then show ?thesis using a c by blast
qed

lemma oauth_short_fields:
  "oauth_api oauth_short =
     (\<lambda>n d. NetResponse 200 None
        (Inr \<lparr>access_token = Some ''token-1'', token_type = None, expires_in = Some (- 100),
              scope = None, refresh_token = Some ''refresh-1'',
              refresh_token_expires_in = None\<rparr>))"
  "secrets oauth_short = (\<lambda>n. Inr demo_secret)"
  "ddb_fault oauth_short = (\<lambda>n. None)"
  "latency oauth_short = (\<lambda>n. 0)"
  by (simp_all add: oauth_short_def quiet_env_def)

lemmas auth_eval =
  auth_lambda_handler_def auth_handler_try_def auth_get_oauth_credentials_def
  demo_secret_def get_existing_tokens_def world0_def step_def
  password_login_def exchange_and_store_def make_oauth_request_def oauth_form_def
  attempts_range oauth_attempt_def store_tokens_in_dynamodb_def Let_def
  fresh_envelope_def token_envelope_def recorded_expiry_def int_attr_str_int
  handler_identity_def

lemma oauth_short_run:
  "statusCode (fst (auth_lambda_handler oauth_short world0)) = 200"
  "jget (body (fst (auth_lambda_handler oauth_short world0))) ''access_token'' JNull
     = JStr ''token-1''"
  "handler_identity oauth_short world0 = Some ''racer@example.com''"
  "recorded_expiry (snd (auth_lambda_handler oauth_short world0)) ''racer@example.com''
     ''token-1'' = Some 900"
  by (simp_all add: auth_eval oauth_short_fields)

lemma oauth_grants_run:
  "statusCode (fst (auth_lambda_handler oauth_grants world0)) = 200"
  "jget (body (fst (auth_lambda_handler oauth_grants world0))) ''access_token'' JNull
     = JStr ''token-1''"
  "handler_identity oauth_grants world0 = Some ''racer@example.com''"
  "recorded_expiry (snd (auth_lambda_handler oauth_grants world0)) ''racer@example.com''
     ''token-1'' = Some 1600"
  by (simp_all add: auth_eval oauth_grants_fields)

section \<open>ir_auth: a transient failure of one exchange, and the statuses of the handler\<close>

lemma oauth_loop_transient_at:
  assumes "\<forall>n. \<exists>st. net_status (oauth_api env n data) = Some st \<and> transient_status st"
  shows "\<exists>w'. for_attempts [0..<MAX_RETRIES] (oauth_attempt env data)
            (AuthenticationError ''Max retries exceeded'') w
          = (Inl (AuthenticationError ''OAuth request failed after 3 attempts''), w')
        \<and> trace w' = trace w @ [OAuthPost data, Sleep 1, OAuthPost data, Sleep 2, OAuthPost data]"
proof -
  have att: "oauth_attempt env data attempt v =
     retry_or_raise attempt (backoff_delay attempt)
       (AuthenticationError ''OAuth request failed after 3 attempts'')
       (step env (OAuthPost data) v)" for attempt v
    using assms oauth_attempt_transient by blast
  show ?thesis
    by (simp add: attempts_range att retry_first retry_last backoff_values step_def)
qed

lemma make_oauth_request_transient_at:
  assumes "oauth_form env creds g rt = Inr data"
    and "\<forall>n. \<exists>st. net_status (oauth_api env n data) = Some st \<and> transient_status st"
  shows "\<exists>w'. make_oauth_request env creds g rt w
          = (Inl (AuthenticationError ''OAuth request failed after 3 attempts''), w')
        \<and> trace w' = trace w @ [OAuthPost data, Sleep 1, OAuthPost data, Sleep 2, OAuthPost data]"
  using oauth_loop_transient_at [OF assms(2), of w] assms(1)
  by (simp add: make_oauth_request_def)

lemma exchange_transient_at:
  assumes "oauth_form env creds g rt = Inr data"
    and "\<forall>n. \<exists>st. net_status (oauth_api env n data) = Some st \<and> transient_status st"
  shows "\<exists>w'. exchange_and_store env creds g rt msg w
          = (Inl (AuthenticationError ''OAuth request failed after 3 attempts''), w')
        \<and> trace w' = trace w @ [OAuthPost data, Sleep 1, OAuthPost data, Sleep 2, OAuthPost data]"
  using make_oauth_request_transient_at [OF assms, of w]
  by (auto simp: exchange_and_store_def)

lemma fresh_envelope_200: "fresh_envelope msg r = Inr resp \<Longrightarrow> statusCode resp = 200"
  by (auto simp: fresh_envelope_def token_envelope_def split: option.splits)

lemma exchange_and_store_200:
  "exchange_and_store env creds g rt msg w = (Inr resp, w') \<Longrightarrow> statusCode resp = 200"
  by (auto simp: exchange_and_store_def split: prod.splits sum.splits dest: fresh_envelope_200)

lemma auth_except_status: "statusCode (auth_except e) \<in> {401, 429, 500, 503}"
  by (cases e) (simp_all add: error_response_def)

lemma auth_handler_try_200:
  assumes "auth_handler_try env w = (Inr resp, w')"
  shows "statusCode resp = 200"
proof -
  from assms obtain creds w1 where c: "auth_get_oauth_credentials env w = (Inr creds, w1)"
    by (auto simp: auth_handler_try_def split: prod.splits sum.splits)
  obtain te w2 where g: "get_existing_tokens env (username creds) w1 = (te, w2)"
    by (cases "get_existing_tokens env (username creds) w1")
  have pw: "statusCode resp = 200" if "password_login env creds v = (Inr resp, w')" for v
    using that exchange_and_store_200 by (simp add: password_login_def)
  show ?thesis
  proof (cases te)
    case (Inl e)
    with assms c g show ?thesis by (simp add: auth_handler_try_def)
  next
    case (Inr found)
    show ?thesis
    proof (cases found)
      case None
      with assms c g Inr show ?thesis using pw by (simp add: auth_handler_try_def)
    next
      case (Some et)
      show ?thesis
      proof (cases et)
        case (ValidTokens tok tt ei sc rt rei)
        with assms c g Inr Some show ?thesis
          by (auto simp: auth_handler_try_def token_envelope_def)
      next
        case (ExpiredTokens t)
        show ?thesis
        proof (cases "t = []")
          case True
          with assms c g Inr Some ExpiredTokens show ?thesis
            using pw by (simp add: auth_handler_try_def)
        next
          case False
          obtain y w3 where e: "exchange_and_store env creds ''refresh_token'' (Some t)
              ''Authentication successful (refreshed)'' w2 = (y, w3)"
            by (cases "exchange_and_store env creds ''refresh_token'' (Some t)
              ''Authentication successful (refreshed)'' w2")
          show ?thesis
          proof (cases y)
            case (Inr r')
            with assms c g \<open>te = Inr found\<close> Some ExpiredTokens False e
            have "resp = r'" by (simp add: auth_handler_try_def)
            then show ?thesis using exchange_and_store_200 e Inr by blast
          next
            case (Inl ex)
            from assms c g \<open>te = Inr found\<close> Some ExpiredTokens False e Inl
            have "password_login env creds w3 = (Inr resp, w')"
              by (cases ex) (simp_all add: auth_handler_try_def)
            then show ?thesis by (rule pw)
          qed
        qed
      qed
    qed
  qed
qed

lemma auth_handler_status:
  "statusCode (fst (auth_lambda_handler env w)) \<in> {200, 401, 429, 500, 503}"
proof (cases "auth_handler_try env w")
  case (Pair x w')
  show ?thesis
  proof (cases x)
    case (Inl e)
    with Pair show ?thesis using auth_except_status [of e]
      by (simp add: auth_lambda_handler_def)
  next
    case (Inr resp)
    with Pair show ?thesis using auth_handler_try_200 [of env w resp w']
      by (simp add: auth_lambda_handler_def)
  qed
qed

lemma auth_handler_password_transient:
  assumes c: "auth_get_oauth_credentials env w = (Inr creds, w1)"
    and g: "get_existing_tokens env (username creds) w1 = (Inr te, w2)"
    and te: "te = None \<or> te = Some (ExpiredTokens [])"
    and f: "oauth_form env creds ''password_limited'' None = Inr pdata"
    and tr: "\<forall>n. \<exists>st. net_status (oauth_api env n pdata) = Some st \<and> transient_status st"
  shows "\<exists>w'. auth_lambda_handler env w
     = (error_response 401 [(''Content-Type'', ''application/json'')]
          ''Authentication failed'' ''OAuth request failed after 3 attempts'', w')
     \<and> trace w' = trace w2 @ [OAuthPost pdata, Sleep 1, OAuthPost pdata, Sleep 2,
                               OAuthPost pdata]"
proof -
  obtain w' where "password_login env creds w2
          = (Inl (AuthenticationError ''OAuth request failed after 3 attempts''), w')"
     "trace w' = trace w2 @ [OAuthPost pdata, Sleep 1, OAuthPost pdata, Sleep 2, OAuthPost pdata]"
    using exchange_transient_at [OF f tr] unfolding password_login_def by blast
  then show ?thesis using c g te
    by (auto simp: auth_lambda_handler_def auth_handler_try_def)
qed

lemma auth_handler_refresh_transient:
  assumes c: "auth_get_oauth_credentials env w = (Inr creds, w1)"
    and g: "get_existing_tokens env (username creds) w1 = (Inr (Some (ExpiredTokens t)), w2)"
    and t: "t \<noteq> []"
    and f: "oauth_form env creds ''refresh_token'' (Some t) = Inr rdata"
    and tr: "\<forall>n. \<exists>st. net_status (oauth_api env n rdata) = Some st \<and> transient_status st"
  shows "\<exists>w3. trace w3 = trace w2 @ [OAuthPost rdata, Sleep 1, OAuthPost rdata, Sleep 2,
                                     OAuthPost rdata]
     \<and> auth_lambda_handler env w
        = (case password_login env creds w3 of
             (Inl e, w') \<Rightarrow> (auth_except e, w')
           | (Inr resp, w') \<Rightarrow> (resp, w'))"
proof -
  obtain w3 where e: "exchange_and_store env creds ''refresh_token'' (Some t)
        ''Authentication successful (refreshed)'' w2
          = (Inl (AuthenticationError ''OAuth request failed after 3 attempts''), w3)"
     and tr3: "trace w3 = trace w2 @ [OAuthPost rdata, Sleep 1, OAuthPost rdata, Sleep 2,
                                     OAuthPost rdata]"
    using exchange_transient_at [OF f tr] by blast
  have "auth_lambda_handler env w
        = (case password_login env creds w3 of
             (Inl e, w') \<Rightarrow> (auth_except e, w')
           | (Inr resp, w') \<Rightarrow> (resp, w'))"
    using c g t e by (simp add: auth_lambda_handler_def auth_handler_try_def)
  then show ?thesis using tr3 by blast
qed

lemma refresh_down_fields:
  "oauth_api refresh_down =
     (\<lambda>n d. if map_of d ''grant_type'' = Some ''refresh_token''
              then NetResponse 500 None (Inl [])
              else NetResponse 200 None
                (Inr \<lparr>access_token = Some ''token-1'', token_type = None,
                      expires_in = Some 600, scope = None, refresh_token = Some ''refresh-1'',
                      refresh_token_expires_in = None\<rparr>))"
  "secrets refresh_down = (\<lambda>n. Inr demo_secret)"
  "ddb_fault refresh_down = (\<lambda>n. None)"
  "latency refresh_down = (\<lambda>n. 0)"
  by (simp_all add: refresh_down_def quiet_env_def)

lemma always_credentials:
  "auth_get_oauth_credentials (oauth_always st hdr) world0
     = (Inr demo_credentials, step (oauth_always st hdr) SecretsGet world0)"
  by (simp add: auth_get_oauth_credentials_def oauth_always_fields demo_secret_def
      demo_credentials_def Let_def)

lemma always_tokens:
  "get_existing_tokens (oauth_always st hdr) (username demo_credentials)
       (step (oauth_always st hdr) SecretsGet world0)
     = (Inr None, step (oauth_always st hdr) (DdbGet ''ir_auth'' ''racer@example.com'')
                    (step (oauth_always st hdr) SecretsGet world0))"
  by (simp add: get_existing_tokens_def oauth_always_fields demo_credentials_def world0_def
      step_def Let_def)

lemma expired_credentials:
  "auth_get_oauth_credentials refresh_down world_expired
     = (Inr demo_credentials, step refresh_down SecretsGet world_expired)"
  by (simp add: auth_get_oauth_credentials_def refresh_down_fields demo_secret_def
      demo_credentials_def Let_def)

lemma expired_tokens:
  "get_existing_tokens refresh_down (username demo_credentials)
       (step refresh_down SecretsGet world_expired)
     = (Inr (Some (ExpiredTokens ''refresh-0'')),
        step refresh_down (DdbGet ''ir_auth'' ''racer@example.com'')
          (step refresh_down SecretsGet world_expired))"
  by (simp add: get_existing_tokens_def refresh_down_fields demo_credentials_def
      world_expired_def world0_def step_def Let_def int_attr_samples)

lemma password_login_refresh_down:
  "fst (password_login refresh_down demo_credentials v)
     = Inr (token_envelope ''Authentication successful'' ''token-1'' ''Bearer'' 600
              ''iracing.auth'')"
  by (simp add: password_login_def exchange_and_store_def make_oauth_request_def
      oauth_form_def attempts_range oauth_attempt_def refresh_down_fields
      store_tokens_in_dynamodb_def Let_def fresh_envelope_def step_def
      split: prod.splits)

section \<open>An upstream that always answers 429\<close>

lemma oauth_attempt_429:
  assumes "oauth_api env (length (trace w)) data = NetResponse 429 hdr b"
    and "hinted_delay attempt hdr = Some d"
  shows "oauth_attempt env data attempt w =
     retry_or_raise attempt d (RateLimitError ''Rate limited after 3 attempts'')
       (step env (OAuthPost data) w)"
  using assms by (simp add: oauth_attempt_def str_nat_MAX)

lemma hinted_delay_cases:
  assumes "hinted_delay 0 hdr = Some d0" "hinted_delay 1 hdr = Some d1"
  shows "(case hdr of None \<Rightarrow> d0 = 1 \<and> d1 = 2 | Some h \<Rightarrow> py_int h = Some d0 \<and> d1 = d0)"
    and "\<exists>d2. hinted_delay 2 hdr = Some d2"
  using assms by (auto simp: hinted_delay_def backoff_values split: option.splits)

lemma oauth_loop_429:
  assumes always: "\<forall>n. \<exists>b. oauth_api env n data = NetResponse 429 hdr b"
    and d0: "hinted_delay 0 hdr = Some d0" "0 \<le> d0"
    and d1: "hinted_delay 1 hdr = Some d1" "0 \<le> d1"
  shows "\<exists>w'. for_attempts [0..<MAX_RETRIES] (oauth_attempt env data)
            (AuthenticationError ''Max retries exceeded'') w
          = (Inl (RateLimitError ''Rate limited after 3 attempts''), w')
        \<and> trace w' = trace w @ [OAuthPost data, Sleep d0, OAuthPost data, Sleep d1,
                                 OAuthPost data]"
proof -
  obtain d2 where d2: "hinted_delay 2 hdr = Some d2"
    using hinted_delay_cases(2) [OF d0(1) d1(1)] by blast
  have att: "oauth_attempt env data attempt v =
     retry_or_raise attempt d (RateLimitError ''Rate limited after 3 attempts'')
       (step env (OAuthPost data) v)" if "hinted_delay attempt hdr = Some d" for attempt v d
    using always oauth_attempt_429 [OF _ that] by blast
  have d1': "hinted_delay (Suc 0) hdr = Some d1" using d1 by simp
  show ?thesis
    using d0(2) d1(2)
    by (simp add: attempts_range att [OF d0(1)] att [OF d1(1)] att [OF d1'] att [OF d2]
        retry_first retry_last step_def)
qed

lemma make_oauth_request_429:
  assumes "oauth_form env creds g rt = Inr data"
    and always: "\<forall>n. \<exists>b. oauth_api env n data = NetResponse 429 hdr b"
    and d0: "hinted_delay 0 hdr = Some d0" "0 \<le> d0"
    and d1: "hinted_delay 1 hdr = Some d1" "0 \<le> d1"
  shows "\<exists>w'. make_oauth_request env creds g rt w
          = (Inl (RateLimitError ''Rate limited after 3 attempts''), w')
        \<and> trace w' = trace w @ [OAuthPost data, Sleep d0, OAuthPost data, Sleep d1,
                                 OAuthPost data]"
  using oauth_loop_429 [OF always d0 d1, of w] assms(1)
  by (simp add: make_oauth_request_def)

lemma exchange_429:
  assumes "oauth_form env creds g rt = Inr data"
    and always: "\<forall>n. \<exists>b. oauth_api env n data = NetResponse 429 hdr b"
    and d0: "hinted_delay 0 hdr = Some d0" "0 \<le> d0"
    and d1: "hinted_delay 1 hdr = Some d1" "0 \<le> d1"
  shows "\<exists>w'. exchange_and_store env creds g rt msg w
          = (Inl (RateLimitError ''Rate limited after 3 attempts''), w')"
  using make_oauth_request_429 [OF assms, of w]
  by (auto simp: exchange_and_store_def)

lemma auth_handler_429:
  assumes always: "\<forall>n d. \<exists>b. oauth_api env n d = NetResponse 429 hdr b"
    and d0: "hinted_delay 0 hdr = Some d0" "0 \<le> d0"
    and d1: "hinted_delay 1 hdr = Some d1" "0 \<le> d1"
    and state: "token_state env w = Inr None
                \<or> (\<exists>t. token_state env w = Inr (Some (ExpiredTokens t)))"
  shows "fst (auth_lambda_handler env w)
           = error_response 429
               [(''Content-Type'', ''application/json''), (''Retry-After'', ''60'')]
               ''Rate limited'' ''Rate limited after 3 attempts''"
proof -
  obtain creds w1 where c: "auth_get_oauth_credentials env w = (Inr creds, w1)"
    using state by (auto simp: token_state_def split: prod.splits sum.splits)
  obtain r w2 where g: "get_existing_tokens env (username creds) w1 = (r, w2)"
    by (cases "get_existing_tokens env (username creds) w1")
  have r: "r = Inr None \<or> (\<exists>t. r = Inr (Some (ExpiredTokens t)))"
    using state c g by (simp add: token_state_def)
  have al: "\<forall>n. \<exists>b. oauth_api env n data = NetResponse 429 hdr b" for data
    using always by blast
  have pw: "\<exists>w'. password_login env creds v
          = (Inl (RateLimitError ''Rate limited after 3 attempts''), w')" for v
    using exchange_429 [OF _ al d0 d1] password_form_ok [of env creds None]
    unfolding password_login_def by blast
  from r show ?thesis
  proof
    assume "r = Inr None"
    then show ?thesis
      using c g pw [of w2] by (auto simp: auth_lambda_handler_def auth_handler_try_def)
  next
    assume "\<exists>t. r = Inr (Some (ExpiredTokens t))"
    then obtain t where t: "r = Inr (Some (ExpiredTokens t))" by blast
    show ?thesis
    proof (cases "t = []")
      case True
      then show ?thesis
        using c g t pw [of w2] by (auto simp: auth_lambda_handler_def auth_handler_try_def)
    next
      case False
      obtain data where "oauth_form env creds ''refresh_token'' (Some t) = Inr data"
        using refresh_form_ok [OF False] by blast
      then obtain w3 where "exchange_and_store env creds ''refresh_token'' (Some t)
           ''Authentication successful (refreshed)'' w2
          = (Inl (RateLimitError ''Rate limited after 3 attempts''), w3)"
        using exchange_429 [OF _ al d0 d1] by blast
      then show ?thesis
        using c g t False pw [of w3]
        by (auto simp: auth_lambda_handler_def auth_handler_try_def)
    qed
  qed
qed

lemma search_429:
  assumes "\<forall>n. \<exists>h b. lookup_api env n (lookup_url env key) tok = NetResponse 429 h b"
  shows "\<exists>w'. search_driver_with_auth env key tok w
          = (Inl (APIError ''Rate limited after maximum retries''), w')
        \<and> trace w' = trace w @ [HttpGet (lookup_url env key) (Some tok), Sleep 1,
                                 HttpGet (lookup_url env key) (Some tok), Sleep 2,
                                 HttpGet (lookup_url env key) (Some tok)]"
proof -
  have att: "search_attempt env key tok attempt v =
     retry_or_raise attempt (backoff_delay attempt)
       (APIError ''Rate limited after maximum retries'')
       (step env (HttpGet (lookup_url env key) (Some tok)) v)" for attempt v
  proof -
    obtain h b where "lookup_api env (length (trace v)) (lookup_url env key) tok
        = NetResponse 429 h b" using assms by blast
    then show ?thesis by (simp add: search_attempt_def Let_def)
  qed
  show ?thesis
    by (simp add: search_driver_with_auth_def attempts_range att retry_first retry_last
        backoff_values step_def)
qed

lemma profile_429:
  assumes "\<forall>n. \<exists>h b. profile_api env n (profile_url cid) tok = NetResponse 429 h b"
  shows "\<exists>w'. get_driver_profile_with_auth env cid tok w
          = (Inl (APIError ''Rate limited after maximum retries''), w')
        \<and> trace w' = trace w @ [HttpGet (profile_url cid) (Some tok), Sleep 1,
                                 HttpGet (profile_url cid) (Some tok), Sleep 2,
                                 HttpGet (profile_url cid) (Some tok)]"
proof -
  have att: "profile_attempt env cid tok attempt v =
     retry_or_raise attempt (backoff_delay attempt)
       (APIError ''Rate limited after maximum retries'')
       (step env (HttpGet (profile_url cid) (Some tok)) v)" for attempt v
  proof -
    obtain h b where "profile_api env (length (trace v)) (profile_url cid) tok
        = NetResponse 429 h b" using assms by blast
    then show ?thesis by (simp add: profile_attempt_def Let_def)
  qed
  show ?thesis
    by (simp add: get_driver_profile_with_auth_def attempts_range att retry_first retry_last
        backoff_values step_def)
qed

lemma custid_handler_429:
  assumes "unquote env q = key" "key \<noteq> []"
    and "ddb_fault env (length (trace w)) = None" "ir_custid w key = None"
    and "get_oauth_credentials env (step env (DdbGet ''ir_custid'' key) w) = (Inr uname, w1)"
    and "obtain_access_token env uname w1 = (Inr tok, w2)"
    and always: "\<forall>n. \<exists>h b. lookup_api env n (lookup_url env key) tok = NetResponse 429 h b"
  shows "\<exists>w'. custid_lambda_handler env \<lparr>rawQueryString = Some q\<rparr> w
           = (error_response 502 json_headers ''API error''
                ''Rate limited after maximum retries'', w')
        \<and> trace w' = trace w2 @ [HttpGet (lookup_url env key) (Some tok), Sleep 1,
                                  HttpGet (lookup_url env key) (Some tok), Sleep 2,
                                  HttpGet (lookup_url env key) (Some tok)]"
proof -
  obtain w' where s: "search_driver_with_auth env key tok w2
          = (Inl (APIError ''Rate limited after maximum retries''), w')"
    and tr: "trace w' = trace w2 @ [HttpGet (lookup_url env key) (Some tok), Sleep 1,
                                 HttpGet (lookup_url env key) (Some tok), Sleep 2,
                                 HttpGet (lookup_url env key) (Some tok)]"
    using search_429 [OF always] by blast
  have "custid_lambda_handler env \<lparr>rawQueryString = Some q\<rparr> w
           = (error_response 502 json_headers ''API error''
                ''Rate limited after maximum retries'', w')"
    using assms(1-6) s
    by (simp add: custid_lambda_handler_def custid_handler_try_def custid_live_lookup_def
        Let_def)
  then show ?thesis using tr by blast
qed

lemma process_driver_429:
  assumes "get_cached_driver_profile env nm w = (None, w1)"
    and "resolve_cust_id env nm w1 = (Inr cid, w2)" "truthy cid"
    and "int_of_json cid = Inr n" "0 < n"
    and always: "\<forall>n. \<exists>h b. profile_api env n (profile_url (str_of_json env cid)) tok
                   = NetResponse 429 h b"
  shows "\<exists>w'. process_driver env nm uname tok w
           = (error_entry (''iRacing API error for '' @ nm
                           @ '': Rate limited after maximum retries''), w')
        \<and> trace w' = trace w2 @ [HttpGet (profile_url (str_of_json env cid)) (Some tok), Sleep 1,
                                  HttpGet (profile_url (str_of_json env cid)) (Some tok), Sleep 2,
                                  HttpGet (profile_url (str_of_json env cid)) (Some tok)]"
proof -
  obtain w' where s: "get_driver_profile_with_auth env (str_of_json env cid) tok w2
          = (Inl (APIError ''Rate limited after maximum retries''), w')"
    and tr: "trace w' = trace w2 @ [HttpGet (profile_url (str_of_json env cid)) (Some tok), Sleep 1,
                                  HttpGet (profile_url (str_of_json env cid)) (Some tok), Sleep 2,
                                  HttpGet (profile_url (str_of_json env cid)) (Some tok)]"
    using profile_429 [OF always] by blast
  have "process_driver env nm uname tok w
           = (error_entry (''iRacing API error for '' @ nm
                           @ '': Rate limited after maximum retries''), w')"
    using assms(1-5) s
    by (simp add: process_driver_def process_driver_try_def fetch_and_cache_def)
  then show ?thesis using tr by blast
qed

lemma all_429_fields:
  "latency (all_429 hdr) = (\<lambda>n. 0)"
  "secrets (all_429 hdr) = (\<lambda>n. Inr demo_secret)"
  "ddb_fault (all_429 hdr) = (\<lambda>n. None)"
  "oauth_api (all_429 hdr) = (\<lambda>n d. NetResponse 429 hdr (Inl []))"
  "lookup_api (all_429 hdr) = (\<lambda>n u t. NetResponse 429 hdr (Inl []))"
  "profile_api (all_429 hdr) = (\<lambda>n u t. NetResponse 429 hdr (Inl []))"
  "unquote (all_429 hdr) = (\<lambda>s. s)"
  "quote (all_429 hdr) = (\<lambda>s. s)"
  by (simp_all add: all_429_def quiet_env_def)

lemma hinted_delay_7:
  "hinted_delay 0 (Some ''7'') = Some 7" "hinted_delay 1 (Some ''7'') = Some 7"
  by code_simp+

lemma token_state_all_429: "token_state (all_429 hdr) world0 = Inr None"
  by (simp add: token_state_def auth_get_oauth_credentials_def get_existing_tokens_def
      all_429_fields demo_secret_def step_def world0_def)

lemma all_429_credentials:
  "get_oauth_credentials (all_429 hdr) (step (all_429 hdr) (DdbGet ''ir_custid'' key) world1)
     = (Inr ''racer@example.com'',
        step (all_429 hdr) SecretsGet
          (step (all_429 hdr) (DdbGet ''ir_custid'' key) world1))"
  by (simp add: get_oauth_credentials_def all_429_fields demo_secret_def Let_def)

lemma all_429_token:
  "obtain_access_token (all_429 hdr) ''racer@example.com''
       (step (all_429 hdr) SecretsGet
          (step (all_429 hdr) (DdbGet ''ir_custid'' key) world1))
     = (Inr ''token-0'',
        step (all_429 hdr) (DdbGet ''ir_auth'' ''racer@example.com'')
          (step (all_429 hdr) SecretsGet
             (step (all_429 hdr) (DdbGet ''ir_custid'' key) world1)))"
  by (simp add: obtain_access_token_def get_access_token_def nonempty_str_def
      all_429_fields world1_def world0_def step_def Let_def int_attr_1600)

section \<open>The claims\<close>

text \<open>
  Claim C1. Whenever the handler of \<^verbatim>\<open>ir_auth\<close> answers 200, the access token of the
  answer is the token recorded for the identity in the token table, with an expiry
  \<open>t\<close> (the stored \<^verbatim>\<open>ttl\<close>) fixed by the branch taken. When the table held a valid
  token, the answer carries that token and \<open>t\<close> is after the time of the call. Otherwise
  the token comes from an exchange the upstream answered with 200, and
  \<open>t = now + expires_in\<close> (600 when absent), \<open>now\<close> being the clock at the store,
  between the call and the answer. So \<open>t\<close> is not before the call provided that no lifetime granted by
  the upstream is negative; the code does not check that.
\<close>

theorem ensure_token_expiry_not_past:
  assumes "auth_lambda_handler env w = (resp, w')"
    and "statusCode resp = 200"
  shows "\<exists>uname tok t. handler_identity env w = Some uname
      \<and> jget (body resp) ''access_token'' JNull = JStr tok
      \<and> recorded_expiry w' uname tok = Some t
      \<and> (case token_state env w of
            Inr (Some (ValidTokens tk tt ei sc rt rei)) \<Rightarrow> tok = tk \<and> now w < t
          | _ \<Rightarrow>
             (\<exists>r (v::world). access_token r = Some tok
                \<and> (\<exists>n d h. oauth_api env n d = NetResponse 200 h (Inr r))
                \<and> now w \<le> now v \<and> now v \<le> now w'
                \<and> t = now v
                    + (case expires_in r of None \<Rightarrow> ACCESS_TOKEN_LIFETIME | Some e \<Rightarrow> e)))
      \<and> ((\<forall>n d h r e. oauth_api env n d = NetResponse 200 h (Inr r)
              \<longrightarrow> expires_in r = Some e \<longrightarrow> 0 \<le> e) \<longrightarrow> now w \<le> t)"
  using assms by (rule auth_handler_expiry_bound)

theorem ensure_token_expiry_not_past_witness:
  "statusCode (fst (auth_lambda_handler oauth_grants world0)) = 200
   \<and> handler_identity oauth_grants world0 = Some ''racer@example.com''
   \<and> jget (body (fst (auth_lambda_handler oauth_grants world0))) ''access_token'' JNull
       = JStr ''token-1''
   \<and> recorded_expiry (snd (auth_lambda_handler oauth_grants world0)) ''racer@example.com''
       ''token-1'' = Some 1600
   \<and> (\<exists>uname tok t. handler_identity oauth_grants world0 = Some uname
      \<and> jget (body (fst (auth_lambda_handler oauth_grants world0))) ''access_token'' JNull
          = JStr tok
      \<and> recorded_expiry (snd (auth_lambda_handler oauth_grants world0)) uname tok = Some t
      \<and> now world0 \<le> t)"
proof -
  have wf: "\<forall>n d h r e. oauth_api oauth_grants n d = NetResponse 200 h (Inr r)
           \<longrightarrow> expires_in r = Some e \<longrightarrow> 0 \<le> e"
    by (auto simp: oauth_grants_fields)
  have "\<exists>uname tok t. handler_identity oauth_grants world0 = Some uname
      \<and> jget (body (fst (auth_lambda_handler oauth_grants world0))) ''access_token'' JNull
          = JStr tok
      \<and> recorded_expiry (snd (auth_lambda_handler oauth_grants world0)) uname tok = Some t
      \<and> now world0 \<le> t"
    using ensure_token_expiry_not_past [where env = oauth_grants and w = world0
        and resp = "fst (auth_lambda_handler oauth_grants world0)"
        and w' = "snd (auth_lambda_handler oauth_grants world0)"] oauth_grants_run(1) wf
    by auto
  then show ?thesis using oauth_grants_run by simp
qed

text \<open>
  A lifetime of minus 100 seconds granted at time 1000: the handler answers 200 with a
  token whose recorded expiry is 900.
\<close>

theorem ensure_token_negative_lifetime:
  "statusCode (fst (auth_lambda_handler oauth_short world0)) = 200
   \<and> jget (body (fst (auth_lambda_handler oauth_short world0))) ''access_token'' JNull
       = JStr ''token-1''
   \<and> recorded_expiry (snd (auth_lambda_handler oauth_short world0)) ''racer@example.com''
       ''token-1'' = Some 900
   \<and> now world0 = 1000"
  using oauth_short_run by (simp add: world0_def)

text \<open>
  Claim C2 (as the code has it). A name that misses the profile cache and whose customer
  id resolves, against a profile endpoint that answers every request with 401: the first
  fetch stops at its first request, and \<^verbatim>\<open>process_driver\<close> re-authenticates once. When
  the re-authentication yields a token, the fetch is tried once more with it and stops at
  its first request again: two profile requests in all, and the name gets the error entry
  "Access token expired or invalid". When the re-authentication fails, there is no second
  request: one profile request in all, and the name gets the error entry of that failure.
  In both cases nothing is retried after that.
\<close>

theorem reauth_retry_once:
  assumes "\<forall>n u t. \<exists>h b. profile_api env n u t = NetResponse 401 h b"
    and "get_cached_driver_profile env nm w = (None, w1)"
    and "resolve_cust_id env nm w1 = (Inr cid, w2)" "truthy cid"
        "int_of_json cid = Inr n" "0 < n"
    and "url = profile_url (str_of_json env cid)"
    and "reauthenticate env uname (step env (HttpGet url (Some tok)) w2) = (r, w4)"
  shows "\<exists>msg w'. process_driver env nm uname tok w = (error_entry msg, w')
      \<and> (case r of
            Inl e \<Rightarrow> w' = w4 \<and> bearer_gets w' = bearer_gets w2 @ [HttpGet url (Some tok)]
          | Inr tok' \<Rightarrow>
              w' = step env (HttpGet url (Some tok')) w4
              \<and> msg = ''iRacing API error for '' @ nm @ '': Access token expired or invalid''
              \<and> bearer_gets w' = bearer_gets w2
                   @ [HttpGet url (Some tok), HttpGet url (Some tok')])"
  using assms by (rule process_driver_always_401)

theorem reauth_retry_once_witness:
  "fst (process_driver profile_401 ''Bob Smith'' ''racer@example.com'' ''token-0'' world3)
     = error_entry ''iRacing API error for Bob Smith: Access token expired or invalid''
   \<and> bearer_gets (snd (process_driver profile_401 ''Bob Smith'' ''racer@example.com''
        ''token-0'' world3))
     = [HttpGet (profile_url ''42'') (Some ''token-0''),
        HttpGet (profile_url ''42'') (Some ''token-0'')]"
proof -
  let ?E = profile_401
  let ?w1 = "step ?E (DdbGet ''ir_drivers'' ''Bob Smith'') world3"
  let ?w2 = "step ?E (DdbGet ''ir_custid'' ''Bob Smith'') ?w1"
  let ?w3 = "step ?E (HttpGet (profile_url ''42'') (Some ''token-0'')) ?w2"
  have always: "\<forall>n u t. \<exists>h b. profile_api ?E n u t = NetResponse 401 h b"
    by (simp add: profile_401_fields)
  have miss: "get_cached_driver_profile ?E ''Bob Smith'' world3 = (None, ?w1)"
    by (rule world3_miss) (simp add: profile_401_fields)
  have cid: "resolve_cust_id ?E ''Bob Smith'' ?w1 = (Inr (JStr ''42''), ?w2)"
    by (rule world3_cust_id) (simp add: profile_401_fields)
  have tr: "truthy (JStr ''42'')" and pos: "(0::int) < 42" by simp_all
  have url: "profile_url ''42'' = profile_url (str_of_json ?E (JStr ''42''))" by simp
  obtain r w4 where re: "reauthenticate ?E ''racer@example.com'' ?w3 = (r, w4)"
    by (cases "reauthenticate ?E ''racer@example.com'' ?w3")
  have r: "r = Inr ''token-0''" using re reauthenticate_valid by simp
  have g2: "bearer_gets ?w2 = []"
    by (simp add: bearer_gets_def world3_def world1_def world0_def)
  from reauth_retry_once [OF always miss cid tr int_of_json_42 pos url re] r g2
  show ?thesis by auto
qed

text \<open>
  When \<^verbatim>\<open>ir_auth\<close> cannot be invoked the profile endpoint is asked once, not twice.
\<close>

theorem reauth_fails_one_attempt:
  "(\<exists>msg. fst (process_driver profile_401_auth_down ''Bob Smith'' ''racer@example.com''
              ''token-0'' world3) = error_entry msg)
   \<and> bearer_gets (snd (process_driver profile_401_auth_down ''Bob Smith''
        ''racer@example.com'' ''token-0'' world3))
     = [HttpGet (profile_url ''42'') (Some ''token-0'')]"
proof -
  let ?E = profile_401_auth_down
  let ?w1 = "step ?E (DdbGet ''ir_drivers'' ''Bob Smith'') world3"
  let ?w2 = "step ?E (DdbGet ''ir_custid'' ''Bob Smith'') ?w1"
  let ?w3 = "step ?E (HttpGet (profile_url ''42'') (Some ''token-0'')) ?w2"
  have always: "\<forall>n u t. \<exists>h b. profile_api ?E n u t = NetResponse 401 h b"
    by (simp add: profile_401_fields)
  have miss: "get_cached_driver_profile ?E ''Bob Smith'' world3 = (None, ?w1)"
    by (rule world3_miss) (simp add: profile_401_fields)
  have cid: "resolve_cust_id ?E ''Bob Smith'' ?w1 = (Inr (JStr ''42''), ?w2)"
    by (rule world3_cust_id) (simp add: profile_401_fields)
  have tr: "truthy (JStr ''42'')" and pos: "(0::int) < 42" by simp_all
  have url: "profile_url ''42'' = profile_url (str_of_json ?E (JStr ''42''))" by simp
  obtain m w4 where re: "reauthenticate ?E ''racer@example.com'' ?w3
      = (Inl (AuthenticationError m), w4)"
    using reauthenticate_down by blast
  have g2: "bearer_gets ?w2 = []"
    by (simp add: bearer_gets_def world3_def world1_def world0_def)
  from process_driver_always_401 [OF always miss cid tr int_of_json_42 pos url re] g2
  show ?thesis by auto
qed

text \<open>
  Claim C3 (as the code has it). Against an upstream that answers every request with 429,
  each of the three call sites makes three requests and then gives up, but they differ in
  the rest. The OAuth exchange of \<^verbatim>\<open>ir_auth\<close> sleeps for the \<^verbatim>\<open>Retry-After\<close> of the
  answer when there is one, else for 1 and 2 seconds, and raises \<^verbatim>\<open>RateLimitError\<close>;
  a handler that had no valid token answers 429 with the header \<^verbatim>\<open>Retry-After: 60\<close>.
  The lookup of \<^verbatim>\<open>ir_custid\<close> and the profile fetch of \<^verbatim>\<open>ir_drivers\<close> do not read
  \<^verbatim>\<open>Retry-After\<close>: they sleep for 1 and 2 seconds and raise \<^verbatim>\<open>APIError\<close>, which the
  handler of \<^verbatim>\<open>ir_custid\<close> answers with 502 and \<^verbatim>\<open>process_driver\<close> turns into the error
  entry of the name.
\<close>

theorem rate_limit_three_attempts:
  assumes "\<forall>n d. \<exists>b. oauth_api env n d = NetResponse 429 hdr b"
    and "hinted_delay 0 hdr = Some d0" "0 \<le> d0"
    and "hinted_delay 1 hdr = Some d1" "0 \<le> d1"
    and "\<forall>n u t. \<exists>h b. lookup_api env n u t = NetResponse 429 h b"
    and "\<forall>n u t. \<exists>h b. profile_api env n u t = NetResponse 429 h b"
  shows "(\<forall>creds g rt data v.
            oauth_form env creds g rt = Inr data \<longrightarrow>
            (\<exists>v'. make_oauth_request env creds g rt v
                = (Inl (RateLimitError ''Rate limited after 3 attempts''), v')
              \<and> trace v' = trace v @ [OAuthPost data, Sleep d0, OAuthPost data, Sleep d1,
                                       OAuthPost data]))
     \<and> (case hdr of None \<Rightarrow> d0 = 1 \<and> d1 = 2 | Some h \<Rightarrow> py_int h = Some d0 \<and> d1 = d0)
     \<and> (\<forall>v. token_state env v = Inr None
              \<or> (\<exists>t. token_state env v = Inr (Some (ExpiredTokens t))) \<longrightarrow>
            fst (auth_lambda_handler env v)
              = error_response 429
                  [(''Content-Type'', ''application/json''), (''Retry-After'', ''60'')]
                  ''Rate limited'' ''Rate limited after 3 attempts'')
     \<and> (\<forall>key tok v.
            \<exists>v'. search_driver_with_auth env key tok v
                = (Inl (APIError ''Rate limited after maximum retries''), v')
              \<and> trace v' = trace v @ [HttpGet (lookup_url env key) (Some tok), Sleep 1,
                                       HttpGet (lookup_url env key) (Some tok), Sleep 2,
                                       HttpGet (lookup_url env key) (Some tok)])
     \<and> (\<forall>q key v uname tok v1 v2.
            unquote env q = key \<longrightarrow> key \<noteq> [] \<longrightarrow>
            ddb_fault env (length (trace v)) = None \<longrightarrow> ir_custid v key = None \<longrightarrow>
            get_oauth_credentials env (step env (DdbGet ''ir_custid'' key) v)
              = (Inr uname, v1) \<longrightarrow>
            obtain_access_token env uname v1 = (Inr tok, v2) \<longrightarrow>
            (\<exists>v'. custid_lambda_handler env \<lparr>rawQueryString = Some q\<rparr> v
                = (error_response 502 json_headers ''API error''
                     ''Rate limited after maximum retries'', v')
              \<and> trace v' = trace v2 @ [HttpGet (lookup_url env key) (Some tok), Sleep 1,
                                        HttpGet (lookup_url env key) (Some tok), Sleep 2,
                                        HttpGet (lookup_url env key) (Some tok)]))
     \<and> (\<forall>cid tok v.
            \<exists>v'. get_driver_profile_with_auth env cid tok v
                = (Inl (APIError ''Rate limited after maximum retries''), v')
              \<and> trace v' = trace v @ [HttpGet (profile_url cid) (Some tok), Sleep 1,
                                       HttpGet (profile_url cid) (Some tok), Sleep 2,
                                       HttpGet (profile_url cid) (Some tok)])
     \<and> (\<forall>nm uname tok v v1 cid v2 n.
            get_cached_driver_profile env nm v = (None, v1) \<longrightarrow>
            resolve_cust_id env nm v1 = (Inr cid, v2) \<longrightarrow> truthy cid \<longrightarrow>
            int_of_json cid = Inr n \<longrightarrow> 0 < n \<longrightarrow>
            (\<exists>v'. process_driver env nm uname tok v
                = (error_entry (''iRacing API error for '' @ nm
                                @ '': Rate limited after maximum retries''), v')
              \<and> trace v' = trace v2
                  @ [HttpGet (profile_url (str_of_json env cid)) (Some tok), Sleep 1,
                     HttpGet (profile_url (str_of_json env cid)) (Some tok), Sleep 2,
                     HttpGet (profile_url (str_of_json env cid)) (Some tok)]))"
proof -
  have oa: "\<forall>n. \<exists>b. oauth_api env n data = NetResponse 429 hdr b" for data
    using assms(1) by blast
  have la: "\<forall>n. \<exists>h b. lookup_api env n u t = NetResponse 429 h b" for u t
    using assms(6) by blast
  have pa: "\<forall>n. \<exists>h b. profile_api env n u t = NetResponse 429 h b" for u t
    using assms(7) by blast
  have a1: "\<forall>creds g rt data v.
            oauth_form env creds g rt = Inr data \<longrightarrow>
            (\<exists>v'. make_oauth_request env creds g rt v
                = (Inl (RateLimitError ''Rate limited after 3 attempts''), v')
              \<and> trace v' = trace v @ [OAuthPost data, Sleep d0, OAuthPost data, Sleep d1,
                                       OAuthPost data])"
    using make_oauth_request_429 [OF _ oa assms(2-5)] by blast
  have a2: "(case hdr of None \<Rightarrow> d0 = 1 \<and> d1 = 2 | Some h \<Rightarrow> py_int h = Some d0 \<and> d1 = d0)"
    using hinted_delay_cases(1) [OF assms(2) assms(4)] .
  have a3: "\<forall>v. token_state env v = Inr None
              \<or> (\<exists>t. token_state env v = Inr (Some (ExpiredTokens t))) \<longrightarrow>
            fst (auth_lambda_handler env v)
              = error_response 429
                  [(''Content-Type'', ''application/json''), (''Retry-After'', ''60'')]
                  ''Rate limited'' ''Rate limited after 3 attempts''"
    using auth_handler_429 [OF assms(1-5)] by blast
  have b1: "\<forall>key tok v.
            \<exists>v'. search_driver_with_auth env key tok v
                = (Inl (APIError ''Rate limited after maximum retries''), v')
              \<and> trace v' = trace v @ [HttpGet (lookup_url env key) (Some tok), Sleep 1,
                                       HttpGet (lookup_url env key) (Some tok), Sleep 2,
                                       HttpGet (lookup_url env key) (Some tok)]"
    using search_429 [OF la] by blast
  have b2: "\<forall>q key v uname tok v1 v2.
            unquote env q = key \<longrightarrow> key \<noteq> [] \<longrightarrow>
            ddb_fault env (length (trace v)) = None \<longrightarrow> ir_custid v key = None \<longrightarrow>
            get_oauth_credentials env (step env (DdbGet ''ir_custid'' key) v)
              = (Inr uname, v1) \<longrightarrow>
            obtain_access_token env uname v1 = (Inr tok, v2) \<longrightarrow>
            (\<exists>v'. custid_lambda_handler env \<lparr>rawQueryString = Some q\<rparr> v
                = (error_response 502 json_headers ''API error''
                     ''Rate limited after maximum retries'', v')
              \<and> trace v' = trace v2 @ [HttpGet (lookup_url env key) (Some tok), Sleep 1,
                                        HttpGet (lookup_url env key) (Some tok), Sleep 2,
                                        HttpGet (lookup_url env key) (Some tok)])"
    by (intro allI impI) (rule custid_handler_429 [OF _ _ _ _ _ _ la])
  have c1: "\<forall>cid tok v.
            \<exists>v'. get_driver_profile_with_auth env cid tok v
                = (Inl (APIError ''Rate limited after maximum retries''), v')
              \<and> trace v' = trace v @ [HttpGet (profile_url cid) (Some tok), Sleep 1,
                                       HttpGet (profile_url cid) (Some tok), Sleep 2,
                                       HttpGet (profile_url cid) (Some tok)]"
    using profile_429 [OF pa] by blast
  have c2: "\<forall>nm uname tok v v1 cid v2 n.
            get_cached_driver_profile env nm v = (None, v1) \<longrightarrow>
            resolve_cust_id env nm v1 = (Inr cid, v2) \<longrightarrow> truthy cid \<longrightarrow>
            int_of_json cid = Inr n \<longrightarrow> 0 < n \<longrightarrow>
            (\<exists>v'. process_driver env nm uname tok v
                = (error_entry (''iRacing API error for '' @ nm
                                @ '': Rate limited after maximum retries''), v')
              \<and> trace v' = trace v2
                  @ [HttpGet (profile_url (str_of_json env cid)) (Some tok), Sleep 1,
                     HttpGet (profile_url (str_of_json env cid)) (Some tok), Sleep 2,
                     HttpGet (profile_url (str_of_json env cid)) (Some tok)])"
    by (intro allI impI) (rule process_driver_429 [OF _ _ _ _ _ pa])
  show ?thesis
    using a1 a2 a3 b1 b2 c1 c2 by (intro conjI)
qed

theorem rate_limit_three_attempts_witness:
  "fst (auth_lambda_handler (all_429 (Some ''7'')) world0)
     = error_response 429
         [(''Content-Type'', ''application/json''), (''Retry-After'', ''60'')]
         ''Rate limited'' ''Rate limited after 3 attempts''
   \<and> (\<exists>data v'. make_oauth_request (all_429 (Some ''7'')) demo_credentials
                    ''password_limited'' None world0
                = (Inl (RateLimitError ''Rate limited after 3 attempts''), v')
              \<and> trace v' = [OAuthPost data, Sleep 7, OAuthPost data, Sleep 7, OAuthPost data])
   \<and> fst (custid_lambda_handler (all_429 (Some ''7'')) \<lparr>rawQueryString = Some ''bob''\<rparr> world1)
     = error_response 502 json_headers ''API error'' ''Rate limited after maximum retries''
   \<and> fst (process_driver (all_429 (Some ''7'')) ''Bob Smith'' ''racer@example.com''
            ''token-0'' world3)
     = error_entry ''iRacing API error for Bob Smith: Rate limited after maximum retries''"
proof -
  let ?E = "all_429 (Some ''7'')"
  have oa: "\<forall>n d. \<exists>b. oauth_api ?E n d = NetResponse 429 (Some ''7'') b"
    and la: "\<forall>n u t. \<exists>h b. lookup_api ?E n u t = NetResponse 429 h b"
    and pa: "\<forall>n u t. \<exists>h b. profile_api ?E n u t = NetResponse 429 h b"
    by (simp_all add: all_429_fields)
  have le: "(0::int) \<le> 7" by simp
  note T = rate_limit_three_attempts [OF oa hinted_delay_7(1) le hinted_delay_7(2) le la pa]
  have first: "fst (auth_lambda_handler ?E world0)
     = error_response 429
         [(''Content-Type'', ''application/json''), (''Retry-After'', ''60'')]
         ''Rate limited'' ''Rate limited after 3 attempts''"
    using T [THEN conjunct2, THEN conjunct2, THEN conjunct1, rule_format, of world0]
      token_state_all_429 [of "Some ''7''"]
    by simp
  obtain pdata where pf: "oauth_form ?E demo_credentials ''password_limited'' None = Inr pdata"
    using password_form_ok by blast
  from T [THEN conjunct1, rule_format, OF pf, of world0]
  obtain v' where "make_oauth_request ?E demo_credentials ''password_limited'' None world0
                = (Inl (RateLimitError ''Rate limited after 3 attempts''), v')"
     "trace v' = trace world0 @ [OAuthPost pdata, Sleep 7, OAuthPost pdata, Sleep 7,
                                 OAuthPost pdata]"
    by (elim exE conjE)
  then have second: "\<exists>data v'. make_oauth_request ?E demo_credentials
                    ''password_limited'' None world0
                = (Inl (RateLimitError ''Rate limited after 3 attempts''), v')
              \<and> trace v' = [OAuthPost data, Sleep 7, OAuthPost data, Sleep 7, OAuthPost data]"
    by (intro exI [of _ pdata] exI [of _ v']) (simp add: world0_def)
  have k: "unquote ?E ''bob'' = ''bob''" "''bob'' \<noteq> []"
    and m: "ddb_fault ?E (length (trace world1)) = None" "ir_custid world1 ''bob'' = None"
    by (simp_all add: all_429_fields world1_def world0_def)
  from T [THEN conjunct2, THEN conjunct2, THEN conjunct2, THEN conjunct2, THEN conjunct1,
      rule_format, OF k m all_429_credentials all_429_token]
  have third: "fst (custid_lambda_handler ?E \<lparr>rawQueryString = Some ''bob''\<rparr> world1)
     = error_response 502 json_headers ''API error'' ''Rate limited after maximum retries''"
    by (elim exE conjE) simp
  have f1: "ddb_fault ?E (length (trace world3)) = None"
    and f2: "ddb_fault ?E (Suc (length (trace world3))) = None"
    by (simp_all add: all_429_fields)
  have tr: "truthy (JStr ''42'')" and pos: "(0::int) < 42" by simp_all
  from T [THEN conjunct2, THEN conjunct2, THEN conjunct2, THEN conjunct2, THEN conjunct2,
      THEN conjunct2, rule_format,
      OF world3_miss [OF f1] world3_cust_id [OF f2] tr int_of_json_42 pos,
      of "''racer@example.com''" "''token-0''"]
  have fourth: "fst (process_driver ?E ''Bob Smith'' ''racer@example.com'' ''token-0'' world3)
     = error_entry ''iRacing API error for Bob Smith: Rate limited after maximum retries''"
    by (elim exE conjE) simp
  show ?thesis using first second third fourth by (intro conjI)
qed

text \<open>
  The claim as stated fails at \<^verbatim>\<open>ir_custid\<close>: with a lookup that always answers 429 and
  \<^verbatim>\<open>Retry-After: 7\<close>, the service sleeps for 1 and 2 seconds and answers 502 with no
  retry-after header.
\<close>

theorem custid_rate_limit_is_502:
  "statusCode (fst (custid_lambda_handler (all_429 (Some ''7''))
      \<lparr>rawQueryString = Some ''bob''\<rparr> world1)) = 502
   \<and> headers (fst (custid_lambda_handler (all_429 (Some ''7''))
      \<lparr>rawQueryString = Some ''bob''\<rparr> world1)) = [(''Content-Type'', ''application/json'')]
   \<and> filter (\<lambda>e. \<not> is_upstream e) (trace (snd (custid_lambda_handler (all_429 (Some ''7''))
      \<lparr>rawQueryString = Some ''bob''\<rparr> world1)))
     = [DdbGet ''ir_custid'' ''bob'', SecretsGet, DdbGet ''ir_auth'' ''racer@example.com'',
        Sleep 1, Sleep 2]
   \<and> length (upstream_calls (snd (custid_lambda_handler (all_429 (Some ''7''))
      \<lparr>rawQueryString = Some ''bob''\<rparr> world1))) = 3"
proof -
  let ?E = "all_429 (Some ''7'')"
  have la: "\<forall>n. \<exists>h b. lookup_api ?E n (lookup_url ?E ''bob'') ''token-0''
      = NetResponse 429 h b"
    by (simp add: all_429_fields)
  have k: "unquote ?E ''bob'' = ''bob''" "''bob'' \<noteq> []"
    and m: "ddb_fault ?E (length (trace world1)) = None" "ir_custid world1 ''bob'' = None"
    by (simp_all add: all_429_fields world1_def world0_def)
  from custid_handler_429 [OF k m all_429_credentials all_429_token la]
  show ?thesis
    by (elim exE conjE)
      (simp add: error_response_def json_headers_def upstream_calls_def world1_def world0_def)
qed

text \<open>
  Claim C4. The cache write of a resolution is keyed by the display name of the chosen
  candidate, the cache lookup by the query. When the first resolution answers 200 with a
  name equal to the query (and the table accepts writes), the second resolution of the same
  query answers with the same identifier, a string, from the cache (origin
  \<^verbatim>\<open>DynamoDB\<close>), and makes no upstream call.
\<close>

theorem resolution_idempotent_on_exact_name:
  assumes "custid_lambda_handler env \<lparr>rawQueryString = Some q\<rparr> w = (r1, w1)"
    and "statusCode r1 = 200"
    and "jget (body r1) ''name'' JNull = JStr (unquote env q)"
    and "\<forall>n. ddb_fault env n = None"
  shows "\<exists>w2. custid_lambda_handler env \<lparr>rawQueryString = Some q\<rparr> w1
     = (\<lparr>statusCode = 200, headers = json_headers,
         body = JObj [(''custid'', jget (body r1) ''custid'' JNull),
                      (''name'', JStr (unquote env q)),
                      (''origin'', JStr ''DynamoDB'')]\<rparr>, w2)
     \<and> upstream_calls w2 = upstream_calls w1
     \<and> (\<exists>s. jget (body r1) ''custid'' JNull = JStr s)"
  using assms by (rule custid_second_resolution)

theorem resolution_idempotent_on_exact_name_witness:
  "statusCode (fst exact_bob) = 200
   \<and> jget (body (fst exact_bob)) ''origin'' JNull = JStr ''iRacing''
   \<and> (\<exists>w2. custid_lambda_handler (lookup_env [bob_smith])
             \<lparr>rawQueryString = Some ''Bob Smith''\<rparr> (snd exact_bob)
     = (\<lparr>statusCode = 200, headers = json_headers,
         body = JObj [(''custid'', JStr ''42''), (''name'', JStr ''Bob Smith''),
                      (''origin'', JStr ''DynamoDB'')]\<rparr>, w2)
     \<and> upstream_calls w2 = upstream_calls (snd exact_bob))"
proof -
  let ?E = "lookup_env [bob_smith]"
  have run: "custid_lambda_handler ?E \<lparr>rawQueryString = Some ''Bob Smith''\<rparr> world1
      = (fst exact_bob, snd exact_bob)"
    by (simp add: exact_bob_def)
  have ok: "statusCode (fst exact_bob) = 200" by (simp add: exact_bob_eval)
  have nm: "jget (body (fst exact_bob)) ''name'' JNull = JStr (unquote ?E ''Bob Smith'')"
    by (simp add: exact_bob_eval jget_results lookup_env_fields)
  have healthy: "\<forall>n. ddb_fault ?E n = None" by (simp add: lookup_env_fields)
  show ?thesis
    using resolution_idempotent_on_exact_name [OF run ok nm healthy] ok
    by (simp add: exact_bob_eval jget_results lookup_env_fields str_int_42)
qed

text \<open>
  When the chosen candidate's display name differs from the query, the write goes under the
  display name and the second resolution of the query misses: resolving "bob" twice, with
  "Bob Smith" the only candidate, asks the upstream twice.
\<close>

theorem resolution_not_idempotent_on_fallback:
  "statusCode (fst first_bob) = 200
   \<and> jget (body (fst first_bob)) ''custid'' JNull = JStr ''42''
   \<and> jget (body (fst first_bob)) ''origin'' JNull = JStr ''iRacing''
   \<and> ir_custid (snd first_bob) ''Bob Smith'' = Some \<lparr>ci_cust_id = Some ''42''\<rparr>
   \<and> ir_custid (snd first_bob) ''bob'' = None
   \<and> jget (body (fst second_bob)) ''origin'' JNull = JStr ''iRacing''
   \<and> length (upstream_calls (snd first_bob)) = 2
   \<and> length (upstream_calls (snd second_bob)) = 4"
proof -
  have a: "length (upstream_calls (snd first_bob)) = 2"
    by (simp add: upstream_calls_def first_bob_eval)
  have b: "length (upstream_calls (snd second_bob)) = 4"
    by (simp add: second_bob_eval)
  show ?thesis
    using a b by (simp add: first_bob_eval second_bob_eval jget_results str_int_42)
qed

text \<open>
  Claim C5. Masking is a function of the secret and the context that does not change when
  the context is replaced by its lower-cased, trimmed form:
  \<open>mask(s, c) = mask(s, lowercase(trim(c)))\<close>, for the password mask and for the
  client-secret mask, whatever the digest and the encoding are; so the contexts
  \<^verbatim>\<open>"Bob "\<close>, \<^verbatim>\<open>"bob"\<close> and \<^verbatim>\<open>" BOB"\<close> give one and the same masked value.
\<close>

theorem mask_context_insensitive:
  "mask_password digest encode s c = mask_password digest encode s (lower (strip c))
   \<and> mask_client_secret digest encode s c
       = mask_client_secret digest encode s (lower (strip c))
   \<and> mask_password digest encode s ''Bob '' = mask_password digest encode s ''bob''
   \<and> mask_password digest encode s '' BOB'' = mask_password digest encode s ''bob''"
  by (simp add: mask_password_def mask_client_secret_def normalize_lower_strip
      normalize_examples)

text \<open>
  Claim C6 (as the code has it). In the Token Lifecycle Manager an OAuth exchange all of
  whose answers have a status other than 200, 429, 401 and 403 is retried with exponential
  backoff: three requests, with sleeps of 1 and 2 seconds between them, and then the
  exchange raises \<^verbatim>\<open>AuthenticationError\<close>; the module has no other error for it. What
  the handler answers depends on the exchange that failed. The password exchange of a
  handler that found no usable token: the answer is 401, "Authentication failed". The
  refresh exchange: the error is caught and the handler goes on with the password exchange,
  whose outcome is the answer. No answer of the handler has status 502.
\<close>

theorem oauth_transient_surfaces_401:
  assumes "auth_get_oauth_credentials env w = (Inr creds, w1)"
    and "get_existing_tokens env (username creds) w1 = (Inr te, w2)"
  shows "(\<forall>g rt data v.
            oauth_form env creds g rt = Inr data \<longrightarrow>
            (\<forall>n. \<exists>st. net_status (oauth_api env n data) = Some st \<and> transient_status st) \<longrightarrow>
            (\<exists>v'. make_oauth_request env creds g rt v
                = (Inl (AuthenticationError ''OAuth request failed after 3 attempts''), v')
              \<and> trace v' = trace v @ [OAuthPost data, Sleep 1, OAuthPost data, Sleep 2,
                                       OAuthPost data]))
     \<and> (\<forall>pdata.
            (te = None \<or> te = Some (ExpiredTokens [])) \<longrightarrow>
            oauth_form env creds ''password_limited'' None = Inr pdata \<longrightarrow>
            (\<forall>n. \<exists>st. net_status (oauth_api env n pdata) = Some st \<and> transient_status st) \<longrightarrow>
            (\<exists>w'. auth_lambda_handler env w
                = (error_response 401 [(''Content-Type'', ''application/json'')]
                     ''Authentication failed'' ''OAuth request failed after 3 attempts'', w')
              \<and> trace w' = trace w2 @ [OAuthPost pdata, Sleep 1, OAuthPost pdata, Sleep 2,
                                        OAuthPost pdata]))
     \<and> (\<forall>t rdata.
            te = Some (ExpiredTokens t) \<longrightarrow> t \<noteq> [] \<longrightarrow>
            oauth_form env creds ''refresh_token'' (Some t) = Inr rdata \<longrightarrow>
            (\<forall>n. \<exists>st. net_status (oauth_api env n rdata) = Some st \<and> transient_status st) \<longrightarrow>
            (\<exists>w3. trace w3 = trace w2 @ [OAuthPost rdata, Sleep 1, OAuthPost rdata, Sleep 2,
                                         OAuthPost rdata]
              \<and> auth_lambda_handler env w
                 = (case password_login env creds w3 of
                      (Inl e, w') \<Rightarrow> (auth_except e, w')
                    | (Inr resp, w') \<Rightarrow> (resp, w'))))
     \<and> (\<forall>v. statusCode (fst (auth_lambda_handler env v)) \<in> {200, 401, 429, 500, 503})"
proof -
  have a: "\<exists>v'. make_oauth_request env creds g rt v
                = (Inl (AuthenticationError ''OAuth request failed after 3 attempts''), v')
              \<and> trace v' = trace v @ [OAuthPost data, Sleep 1, OAuthPost data, Sleep 2,
                                       OAuthPost data]"
    if "oauth_form env creds g rt = Inr data"
       "\<forall>n. \<exists>st. net_status (oauth_api env n data) = Some st \<and> transient_status st"
    for g rt data v
    using make_oauth_request_transient_at [OF that] .
  have b: "\<exists>w'. auth_lambda_handler env w
                = (error_response 401 [(''Content-Type'', ''application/json'')]
                     ''Authentication failed'' ''OAuth request failed after 3 attempts'', w')
              \<and> trace w' = trace w2 @ [OAuthPost pdata, Sleep 1, OAuthPost pdata, Sleep 2,
                                        OAuthPost pdata]"
    if "te = None \<or> te = Some (ExpiredTokens [])"
       "oauth_form env creds ''password_limited'' None = Inr pdata"
       "\<forall>n. \<exists>st. net_status (oauth_api env n pdata) = Some st \<and> transient_status st"
    for pdata
    using auth_handler_password_transient [OF assms that] .
  have c: "\<exists>w3. trace w3 = trace w2 @ [OAuthPost rdata, Sleep 1, OAuthPost rdata, Sleep 2,
                                         OAuthPost rdata]
              \<and> auth_lambda_handler env w
                 = (case password_login env creds w3 of
                      (Inl e, w') \<Rightarrow> (auth_except e, w')
                    | (Inr resp, w') \<Rightarrow> (resp, w'))"
    if "te = Some (ExpiredTokens t)" "t \<noteq> []"
       "oauth_form env creds ''refresh_token'' (Some t) = Inr rdata"
       "\<forall>n. \<exists>st. net_status (oauth_api env n rdata) = Some st \<and> transient_status st"
    for t rdata
    using auth_handler_refresh_transient [OF assms(1) _ that(2,3,4)] assms(2) that(1)
    by simp
  have d: "\<forall>v. statusCode (fst (auth_lambda_handler env v)) \<in> {200, 401, 429, 500, 503}"
    using auth_handler_status by blast
  show ?thesis using a b c d by blast
qed

theorem oauth_transient_surfaces_401_witness:
  "fst (auth_lambda_handler (oauth_always 500 None) world0)
     = error_response 401 [(''Content-Type'', ''application/json'')]
         ''Authentication failed'' ''OAuth request failed after 3 attempts''
   \<and> fst (auth_lambda_handler refresh_down world_expired)
     = token_envelope ''Authentication successful'' ''token-1'' ''Bearer'' 600 ''iracing.auth''
   \<and> (\<exists>data w3.
         oauth_form refresh_down demo_credentials ''refresh_token'' (Some ''refresh-0'')
           = Inr data
       \<and> trace w3
           = [SecretsGet, DdbGet ''ir_auth'' ''racer@example.com'',
              OAuthPost data, Sleep 1, OAuthPost data, Sleep 2, OAuthPost data]
       \<and> auth_lambda_handler refresh_down world_expired
           = (case password_login refresh_down demo_credentials w3 of
                (Inl e, w') \<Rightarrow> (auth_except e, w')
              | (Inr resp, w') \<Rightarrow> (resp, w')))"
proof -
  let ?A = "oauth_always 500 None"
  let ?pdata = "[(''grant_type'', ''password_limited''),
             (''client_id'', client_id demo_credentials),
             (''client_secret'',
                mask_client_secret (sha256 ?A) (b64encode ?A) (client_secret demo_credentials)
                  (client_id demo_credentials)),
             (''username'', username demo_credentials),
             (''password'',
                mask_password (sha256 ?A) (b64encode ?A) (password demo_credentials)
                  (username demo_credentials)),
             (''scope'', ''iracing.auth'')]"
  have pf: "oauth_form ?A demo_credentials ''password_limited'' None = Inr ?pdata"
    by (simp add: oauth_form_def)
  have ptr: "\<forall>n. \<exists>st. net_status (oauth_api ?A n ?pdata) = Some st \<and> transient_status st"
    by (simp add: oauth_always_fields transient_status_def)
  have none: "None = None \<or> None = Some (ExpiredTokens [])" by simp
  note b = oauth_transient_surfaces_401 [OF always_credentials always_tokens,
      THEN conjunct2, THEN conjunct1, rule_format, OF none pf ptr [rule_format]]
  have first: "fst (auth_lambda_handler ?A world0)
     = error_response 401 [(''Content-Type'', ''application/json'')]
         ''Authentication failed'' ''OAuth request failed after 3 attempts''"
    using b by (elim exE conjE) simp
  let ?rdata = "[(''grant_type'', ''refresh_token''),
                    (''client_id'', client_id demo_credentials),
                    (''client_secret'',
                       mask_client_secret (sha256 refresh_down) (b64encode refresh_down)
                         (client_secret demo_credentials) (client_id demo_credentials)),
                    (''refresh_token'', ''refresh-0'')]"
  have rf:
    "oauth_form refresh_down demo_credentials ''refresh_token'' (Some ''refresh-0'')
       = Inr ?rdata"
    by (simp add: oauth_form_def)
  have rtr: "\<forall>n. \<exists>st. net_status (oauth_api refresh_down n ?rdata) = Some st
      \<and> transient_status st"
    by (simp add: refresh_down_fields transient_status_def)
  have ne: "''refresh-0'' \<noteq> []" by simp
  note c = oauth_transient_surfaces_401 [OF expired_credentials expired_tokens,
      THEN conjunct2, THEN conjunct2, THEN conjunct1, rule_format, OF refl ne rf rtr [rule_format]]
  from c obtain w3 where w3: "trace w3
       = trace (step refresh_down (DdbGet ''ir_auth'' ''racer@example.com'')
                  (step refresh_down SecretsGet world_expired))
         @ [OAuthPost ?rdata, Sleep 1, OAuthPost ?rdata, Sleep 2, OAuthPost ?rdata]"
    and h: "auth_lambda_handler refresh_down world_expired
           = (case password_login refresh_down demo_credentials w3 of
                (Inl e, w') \<Rightarrow> (auth_except e, w')
              | (Inr resp, w') \<Rightarrow> (resp, w'))"
    by (elim exE conjE)
  have tr3: "trace w3
           = [SecretsGet, DdbGet ''ir_auth'' ''racer@example.com'',
              OAuthPost ?rdata, Sleep 1, OAuthPost ?rdata, Sleep 2, OAuthPost ?rdata]"
    using w3 by (simp add: world_expired_def world0_def)
  have second: "fst (auth_lambda_handler refresh_down world_expired)
     = token_envelope ''Authentication successful'' ''token-1'' ''Bearer'' 600 ''iracing.auth''"
    using h password_login_refresh_down [of w3]
    by (cases "password_login refresh_down demo_credentials w3") simp
  have third: "\<exists>data w3.
         oauth_form refresh_down demo_credentials ''refresh_token'' (Some ''refresh-0'')
           = Inr data
       \<and> trace w3
           = [SecretsGet, DdbGet ''ir_auth'' ''racer@example.com'',
              OAuthPost data, Sleep 1, OAuthPost data, Sleep 2, OAuthPost data]
       \<and> auth_lambda_handler refresh_down world_expired
           = (case password_login refresh_down demo_credentials w3 of
                (Inl e, w') \<Rightarrow> (auth_except e, w')
              | (Inr resp, w') \<Rightarrow> (resp, w'))"
    using rf tr3 h by (intro exI [of _ ?rdata] exI [of _ w3] conjI)
  show ?thesis using first second third by (intro conjI)
qed

text \<open>
  The claim as stated fails: with an upstream that always answers 500 the handler answers
  401, not 502.
\<close>

theorem oauth_transient_not_502:
  "statusCode (fst (auth_lambda_handler (oauth_always 500 None) world0)) = 401
   \<and> statusCode (fst (auth_lambda_handler (oauth_always 500 None) world0)) \<noteq> 502"
  using auth_handler_transient [of "oauth_always 500 None" world0]
  by (simp add: oauth_always_fields token_state_oauth_always transient_status_def
      error_response_def)



text \<open>
  Claim C8. Batch isolation. Once the credentials and the access token are obtained, the
  handler of \<^verbatim>\<open>ir_drivers\<close> answers 200 with a mapping that has exactly one entry for
  every requested name: \<^verbatim>\<open>process_driver\<close> never raises, so the loop over the names
  always runs to its end. The entry of a name is what \<^verbatim>\<open>process_driver\<close> returned for
  it: the profile when its \<^verbatim>\<open>try\<close> succeeded, and a per-name error object when an
  exception was raised, whatever the exception.
\<close>

theorem batch_isolation:
  assumes "parse_drivers env ev = names" "names \<noteq> []"
    and "get_oauth_credentials env w = (Inr uname, w1)"
    and "obtain_access_token env uname w1 = (Inr tok, w2)"
  shows "\<exists>info w'. drivers_lambda_handler env ev w
           = (\<lparr>statusCode = 200, headers = cors_headers, body = JObj info\<rparr>, w')
      \<and> fst ` set info = set names \<and> distinct (map fst info)
      \<and> (\<forall>n\<in>set names. \<exists>v.
            map_of info n = Some (fst (process_driver env n uname tok v))
            \<and> (case fst (process_driver_try env n uname tok v) of
                  Inl e \<Rightarrow> fst (process_driver env n uname tok v) = process_driver_except n e
                       \<and> (\<exists>msg. process_driver_except n e = error_entry msg)
                | Inr p \<Rightarrow> fst (process_driver env n uname tok v) = p))"
  using assms by (rule drivers_handler_entries)

theorem batch_isolation_witness:
  "parse_drivers quiet_env abc_event = [''A'', ''B'', ''C'']
   \<and> (\<exists>info w'. drivers_lambda_handler quiet_env abc_event world2
           = (\<lparr>statusCode = 200, headers = cors_headers, body = JObj info\<rparr>, w')
      \<and> fst ` set info = {''A'', ''B'', ''C''} \<and> distinct (map fst info))
   \<and> body (fst (drivers_lambda_handler quiet_env abc_event world2))
     = JObj [(''A'', sample_profile ''A''),
             (''B'', error_entry
                (''iRacing API error for B: Customer ID lookup failed: ''
                 @ ''ir_custid Lambda failed: '')),
             (''C'', sample_profile ''C'')]"
proof -
  have ne: "[''A'', ''B'', ''C''] \<noteq> []" by simp
  from batch_isolation [OF parse_abc ne abc_credentials abc_token]
  obtain info w' where "drivers_lambda_handler quiet_env abc_event world2
           = (\<lparr>statusCode = 200, headers = cors_headers, body = JObj info\<rparr>, w')"
      "fst ` set info = set [''A'', ''B'', ''C'']" "distinct (map fst info)"
    by blast
  then have "\<exists>info w'. drivers_lambda_handler quiet_env abc_event world2
           = (\<lparr>statusCode = 200, headers = cors_headers, body = JObj info\<rparr>, w')
      \<and> fst ` set info = {''A'', ''B'', ''C''} \<and> distinct (map fst info)"
    by (intro exI [of _ info] exI [of _ w']) simp
  then show ?thesis using parse_abc abc_eval by simp
qed

text \<open>
  Claim C9. On an empty candidate list the search returns the sentinel: \<^verbatim>\<open>custid\<close> 0
  and the name \<^verbatim>\<open>Not found: <term>\<close>, with no effect of its own. So a request whose
  term misses the cache, and whose lookup answers with a link to an empty list, is answered
  200 with the sentinel, and the identifier table is left as it was: after the token was
  obtained the only events are the two GETs.
\<close>

theorem empty_candidates_not_found:
  assumes "unquote env q = key" "key \<noteq> []"
    and "ddb_fault env (length (trace w)) = None" "ir_custid w key = None"
    and "get_oauth_credentials env (step env (DdbGet ''ir_custid'' key) w) = (Inr uname, w1)"
    and "obtain_access_token env uname w1 = (Inr tok, w2)"
    and "lookup_api env (length (trace w2)) (lookup_url env key) tok
           = NetResponse 200 h (Inr sd)"
    and "link sd = Some url"
    and "drivers_s3 env (Suc (length (trace w2))) url = NetResponse 200 h' (Inr [])"
  shows "choose_driver env key [] v = (Return (not_found_result key), v)
     \<and> (\<exists>w'. custid_lambda_handler env \<lparr>rawQueryString = Some q\<rparr> w
           = (\<lparr>statusCode = 200, headers = json_headers, body = not_found_result key\<rparr>, w')
         \<and> w' = step env (HttpGet url None)
                  (step env (HttpGet (lookup_url env key) (Some tok)) w2)
         \<and> ir_custid w' = ir_custid w)
     \<and> jget (not_found_result key) ''custid'' JNull = JInt 0
     \<and> jget (not_found_result key) ''name'' JNull = JStr (''Not found: '' @ key)"
  using custid_handler_empty [OF assms]
  by (simp add: choose_driver_def jget_results)

theorem empty_candidates_not_found_witness:
  "fst zzyzx = \<lparr>statusCode = 200, headers = json_headers,
                 body = JObj [(''custid'', JInt 0), (''name'', JStr ''Not found: Zzyzx''),
                              (''origin'', JStr ''iRacing'')]\<rparr>
   \<and> ir_custid (snd zzyzx) = ir_custid world1
   \<and> trace (snd zzyzx) =
       [DdbGet ''ir_custid'' ''Zzyzx'', SecretsGet, DdbGet ''ir_auth'' ''racer@example.com'',
        HttpGet ''https://members-ng.iracing.com/data/lookup/drivers?search_term=Zzyzx''
          (Some ''token-0''),
        HttpGet ''https://s3/drivers'' None]"
proof -
  let ?E = "lookup_env []"
  let ?wa = "step ?E (DdbGet ''ir_custid'' ''Zzyzx'') world1"
  let ?w1 = "step ?E SecretsGet ?wa"
  let ?w2 = "step ?E (DdbGet ''ir_auth'' ''racer@example.com'') ?w1"
  have a: "unquote ?E ''Zzyzx'' = ''Zzyzx''" "''Zzyzx'' \<noteq> []"
    "ddb_fault ?E (length (trace world1)) = None" "ir_custid world1 ''Zzyzx'' = None"
    by (simp_all add: lookup_env_fields world1_def world0_def)
  have c: "get_oauth_credentials ?E ?wa = (Inr ''racer@example.com'', ?w1)"
    by (simp add: custid_eval)
  have t: "obtain_access_token ?E ''racer@example.com'' ?w1 = (Inr ''token-0'', ?w2)"
    by (simp add: custid_eval)
  have l: "lookup_api ?E (length (trace ?w2)) (lookup_url ?E ''Zzyzx'') ''token-0''
      = NetResponse 200 None (Inr \<lparr>link = Some ''https://s3/drivers''\<rparr>)"
    "link \<lparr>link = Some ''https://s3/drivers''\<rparr> = Some ''https://s3/drivers''"
    "drivers_s3 ?E (Suc (length (trace ?w2))) ''https://s3/drivers''
      = NetResponse 200 None (Inr [])"
    by (simp_all add: lookup_env_fields)
  show ?thesis
    using empty_candidates_not_found [OF a c t l, of world1]
    by (simp add: zzyzx_def lookup_url_def lookup_env_fields not_found_result_def step_def
        world1_def world0_def)
qed

text \<open>
  Claim C10. The \<^verbatim>\<open>custid\<close> field of the answers of \<^verbatim>\<open>ir_custid\<close> has two wire types.
  For a request that misses the cache and whose lookup answers with a candidate list: on
  the empty list the answer is 200 with \<^verbatim>\<open>custid\<close> the integer 0; on a non-empty list
  the candidate chosen is the exact match of the term when the list has more than one
  entry and one matches, else the first one, and the answer is 200 with \<^verbatim>\<open>custid\<close> the
  string \<^verbatim>\<open>str(cust_id)\<close> of that candidate, a decimal string. For a request that hits
  the cache the answer is 200 with \<^verbatim>\<open>custid\<close> the stored \<^verbatim>\<open>N\<close> attribute, a string;
  what the service itself writes there is \<^verbatim>\<open>str(cust_id)\<close>. And every 200 answer is of
  one of these three shapes.
\<close>

theorem custid_wire_type:
  assumes "unquote env q = key" "key \<noteq> []"
    and "ddb_fault env (length (trace w)) = None" "ir_custid w key = None"
    and "get_oauth_credentials env (step env (DdbGet ''ir_custid'' key) w) = (Inr uname, w1)"
    and "obtain_access_token env uname w1 = (Inr tok, w2)"
    and "lookup_api env (length (trace w2)) (lookup_url env key) tok
           = NetResponse 200 h (Inr sd)"
    and "link sd = Some url"
    and "drivers_s3 env (Suc (length (trace w2))) url = NetResponse 200 h' (Inr ds)"
    and "w3 = step env (HttpGet url None)
                (step env (HttpGet (lookup_url env key) (Some tok)) w2)"
  shows "(ds = [] \<longrightarrow>
            custid_lambda_handler env \<lparr>rawQueryString = Some q\<rparr> w
              = (\<lparr>statusCode = 200, headers = json_headers, body = not_found_result key\<rparr>, w3)
            \<and> jget (not_found_result key) ''custid'' JNull = JInt 0)
     \<and> (\<forall>first others d nm cid.
            ds = first # others \<longrightarrow>
            d = (case (if length ds > 1 then find (\<lambda>x. display_name x = Some key) ds
                       else None)
                 of Some x \<Rightarrow> x | None \<Rightarrow> first) \<longrightarrow>
            display_name d = Some nm \<longrightarrow> cust_id d = Some cid \<longrightarrow>
              custid_lambda_handler env \<lparr>rawQueryString = Some q\<rparr> w
                = (\<lparr>statusCode = 200, headers = json_headers, body = found_result cid nm\<rparr>,
                   cache_driver_result env nm cid w3)
              \<and> jget (found_result cid nm) ''custid'' JNull = JStr (str_int cid)
              \<and> is_decimal (str_int cid))
     \<and> (\<forall>v item n.
            ir_custid v key = Some item \<longrightarrow> ci_cust_id item = Some n \<longrightarrow>
            ddb_fault env (length (trace v)) = None \<longrightarrow>
              custid_lambda_handler env \<lparr>rawQueryString = Some q\<rparr> v
                = (\<lparr>statusCode = 200, headers = json_headers,
                    body = JObj [(''custid'', JStr n), (''name'', JStr key),
                                 (''origin'', JStr ''DynamoDB'')]\<rparr>,
                   step env (DdbGet ''ir_custid'' key) v))
     \<and> (\<forall>v nm cid.
            ddb_fault env (length (trace v)) = None \<longrightarrow>
              ir_custid (cache_driver_result env nm cid v) nm
                = Some \<lparr>ci_cust_id = Some (str_int cid)\<rparr>)
     \<and> (\<forall>q' v resp v'.
            custid_lambda_handler env \<lparr>rawQueryString = Some q'\<rparr> v = (resp, v') \<longrightarrow>
            statusCode resp = 200 \<longrightarrow>
            (\<forall>k item n. ir_custid v k = Some item \<longrightarrow> ci_cust_id item = Some n
               \<longrightarrow> is_decimal n) \<longrightarrow>
              (\<exists>s. jget (body resp) ''custid'' JNull = JStr s \<and> is_decimal s
                  \<and> jget (body resp) ''origin'' JNull = JStr ''DynamoDB'')
              \<or> (\<exists>cid nm. body resp = found_result cid nm
                  \<and> jget (body resp) ''custid'' JNull = JStr (str_int cid)
                  \<and> is_decimal (str_int cid))
              \<or> (body resp = not_found_result (unquote env q')
                  \<and> jget (body resp) ''custid'' JNull = JInt 0))"
proof -
  note f = custid_handler_wire [OF assms]
  have b: "\<forall>q' v resp v'.
            custid_lambda_handler env \<lparr>rawQueryString = Some q'\<rparr> v = (resp, v') \<longrightarrow>
            statusCode resp = 200 \<longrightarrow>
            (\<forall>k item n. ir_custid v k = Some item \<longrightarrow> ci_cust_id item = Some n
               \<longrightarrow> is_decimal n) \<longrightarrow>
              (\<exists>s. jget (body resp) ''custid'' JNull = JStr s \<and> is_decimal s
                  \<and> jget (body resp) ''origin'' JNull = JStr ''DynamoDB'')
              \<or> (\<exists>cid nm. body resp = found_result cid nm
                  \<and> jget (body resp) ''custid'' JNull = JStr (str_int cid)
                  \<and> is_decimal (str_int cid))
              \<or> (body resp = not_found_result (unquote env q')
                  \<and> jget (body resp) ''custid'' JNull = JInt 0)"
    by (intro allI impI) (rule custid_200_custid_field)
  show ?thesis
    using f b by (intro conjI) (elim conjE, assumption)+
qed

theorem custid_wire_type_witness:
  "jget (body (fst exact_bob)) ''custid'' JNull = JStr ''42''
   \<and> jget (body (fst (custid_lambda_handler (lookup_env [bob_smith])
        \<lparr>rawQueryString = Some ''Bob Smith''\<rparr> (snd exact_bob)))) ''custid'' JNull = JStr ''42''
   \<and> jget (body (fst (custid_lambda_handler (lookup_env [bob_smith])
        \<lparr>rawQueryString = Some ''Bob Smith''\<rparr> (snd exact_bob)))) ''origin'' JNull
       = JStr ''DynamoDB''
   \<and> jget (body (fst zzyzx)) ''custid'' JNull = JInt 0"
proof -
  let ?E = "lookup_env [bob_smith]"
  let ?Z = "lookup_env []"
  let ?sd = "\<lparr>link = Some ''https://s3/drivers''\<rparr>"
  have kb: "unquote ?E ''Bob Smith'' = ''Bob Smith''" "''Bob Smith'' \<noteq> []"
    and mb: "ddb_fault ?E (length (trace world1)) = None" "ir_custid world1 ''Bob Smith'' = None"
    by (simp_all add: lookup_env_fields world1_def world0_def)
  have lb: "lookup_api ?E n (lookup_url ?E ''Bob Smith'') ''token-0'' = NetResponse 200 None (Inr ?sd)"
    "link ?sd = Some ''https://s3/drivers''"
    "drivers_s3 ?E m ''https://s3/drivers'' = NetResponse 200 None (Inr [bob_smith])" for n m
    by (simp_all add: lookup_env_fields)
  note b = custid_wire_type [OF kb mb lookup_credentials lookup_token lb refl]
  have found: "custid_lambda_handler ?E \<lparr>rawQueryString = Some ''Bob Smith''\<rparr> world1
      = (\<lparr>statusCode = 200, headers = json_headers, body = found_result 42 ''Bob Smith''\<rparr>,
         cache_driver_result ?E ''Bob Smith'' 42
           (step ?E (HttpGet ''https://s3/drivers'' None)
              (step ?E (HttpGet (lookup_url ?E ''Bob Smith'') (Some ''token-0''))
                 (step ?E (DdbGet ''ir_auth'' ''racer@example.com'')
                    (step ?E SecretsGet
                       (step ?E (DdbGet ''ir_custid'' ''Bob Smith'') world1))))))"
    using b [THEN conjunct2, THEN conjunct1, rule_format,
        where first = bob_smith and others = "[]" and d = bob_smith and nm = "''Bob Smith''"
          and cid = 42]
    by (simp add: bob_smith_def)
  have c1: "jget (body (fst exact_bob)) ''custid'' JNull = JStr ''42''"
    using found by (simp add: exact_bob_def jget_results str_int_42)
  have written: "ir_custid (snd exact_bob) ''Bob Smith'' = Some \<lparr>ci_cust_id = Some ''42''\<rparr>"
    using found
      b [THEN conjunct2, THEN conjunct2, THEN conjunct2, THEN conjunct1, rule_format,
        where nm = "''Bob Smith''" and cid = 42
          and v = "step ?E (HttpGet ''https://s3/drivers'' None)
              (step ?E (HttpGet (lookup_url ?E ''Bob Smith'') (Some ''token-0''))
                 (step ?E (DdbGet ''ir_auth'' ''racer@example.com'')
                    (step ?E SecretsGet
                       (step ?E (DdbGet ''ir_custid'' ''Bob Smith'') world1))))"]
    by (simp add: exact_bob_def str_int_42 lookup_env_fields)
  have hit: "custid_lambda_handler ?E \<lparr>rawQueryString = Some ''Bob Smith''\<rparr> (snd exact_bob)
     = (\<lparr>statusCode = 200, headers = json_headers,
         body = JObj [(''custid'', JStr ''42''), (''name'', JStr ''Bob Smith''),
                      (''origin'', JStr ''DynamoDB'')]\<rparr>,
        step ?E (DdbGet ''ir_custid'' ''Bob Smith'') (snd exact_bob))"
    using b [THEN conjunct2, THEN conjunct2, THEN conjunct1, rule_format,
        where v = "snd exact_bob" and item = "\<lparr>ci_cust_id = Some ''42''\<rparr>" and n = "''42''"]
      written
    by (simp add: lookup_env_fields)
  have kz: "unquote ?Z ''Zzyzx'' = ''Zzyzx''" "''Zzyzx'' \<noteq> []"
    and mz: "ddb_fault ?Z (length (trace world1)) = None" "ir_custid world1 ''Zzyzx'' = None"
    by (simp_all add: lookup_env_fields world1_def world0_def)
  have lz: "lookup_api ?Z n (lookup_url ?Z ''Zzyzx'') ''token-0'' = NetResponse 200 None (Inr ?sd)"
    "link ?sd = Some ''https://s3/drivers''"
    "drivers_s3 ?Z m ''https://s3/drivers'' = NetResponse 200 None (Inr [])" for n m
    by (simp_all add: lookup_env_fields)
  note z = custid_wire_type [OF kz mz lookup_credentials lookup_token lz refl]
  have c4: "jget (body (fst zzyzx)) ''custid'' JNull = JInt 0"
    using z [THEN conjunct1] by (simp add: zzyzx_def)
  show ?thesis using c1 hit c4 by simp
qed

end
